theory Spec2Isabelle
  imports Main "HOL-Library.Word" "HOL-Library.Sublist"
begin

unbundle bit_operations_syntax

section \<open>Values shared by the two source files\<close>

text \<open>
  A JavaScript string is a list of UTF-16 code units. The token name and the token symbol
  of a request, which the program encodes in UTF-8, and the log lines, one of which quotes
  them, are such lists (\<open>jsstring\<close>). The other strings of the program (its own text,
  hexadecimal data, addresses, chain names, numbers) are kept as \<^typ>\<open>string\<close>, a character
  standing for the code unit of the same number; \<open>code_units\<close> turns one into a \<open>jsstring\<close>.
  The program reads those strings only through tests that accept decimal or hexadecimal
  digits and reject every other code unit alike, or copies them unread.
  A \<open>Uint8Array\<close> is a list of 8-bit words.

  A thrown value is an \<open>error\<close>: a plain \<open>new Error(message)\<close>, or an error raised by the
  ethers library, which carries a code next to its message.
\<close>

type_synonym byte = "8 word"

type_synonym code_unit = "16 word"

type_synonym jsstring = "code_unit list"

definition code_units :: "string \<Rightarrow> jsstring" where
  "code_units s = map (\<lambda>c. of_nat (of_char c)) s"

datatype error_code = INVALID_ARGUMENT | BUFFER_OVERRUN | NUMERIC_FAULT

datatype error = Error string | EthersError error_code string

fun message :: "error \<Rightarrow> string" where
  "message (Error m) = m"
| "message (EthersError c m) = m"

text \<open>The expression \<open>error.message || error.toString()\<close> of the handlers: an empty message
  is falsy, and \<open>toString()\<close> of an error without a message is its name.\<close>

fun toString_error :: "error \<Rightarrow> string" where
  "toString_error (Error m) = (if m = [] then ''Error'' else ''Error: '' @ m)"
| "toString_error (EthersError c m) = (if m = [] then ''Error'' else ''Error: '' @ m)"

definition message_or_toString :: "error \<Rightarrow> string" where
  "message_or_toString e = (if message e = [] then toString_error e else message e)"

section \<open>ethers: bytes and hexadecimal strings\<close>

text \<open>
  \<open>getBytes\<close> accepts a string matching \<open>/^0x(?:[0-9a-f][0-9a-f])*$/i\<close> (the flag makes the
  prefix case-insensitive too) and reads each pair of digits with \<open>parseInt(_, 16)\<close>;
  every other string is an invalid argument.
\<close>

definition hex_digits :: "(char \<times> nat) list" where
  "hex_digits = zip ''0123456789abcdefABCDEF'' ([0..<16] @ [10..<16])"

definition hex_digit_val :: "char \<Rightarrow> nat option" where
  "hex_digit_val c = map_of hex_digits c"

fun parse_hex_pairs :: "string \<Rightarrow> byte list option" where
  "parse_hex_pairs [] = Some []"
| "parse_hex_pairs [c] = None"
| "parse_hex_pairs (c # d # rest) =
     (case (hex_digit_val c, hex_digit_val d) of
        (Some h, Some l) \<Rightarrow>
          (case parse_hex_pairs rest of
             Some bs \<Rightarrow> Some (of_nat (16 * h + l) # bs)
           | None \<Rightarrow> None)
      | _ \<Rightarrow> None)"

definition getBytes :: "string \<Rightarrow> error + byte list" where
  "getBytes v =
     (case v of
        z # x # rest \<Rightarrow>
          (if z = CHR ''0'' \<and> (x = CHR ''x'' \<or> x = CHR ''X'') then
             (case parse_hex_pairs rest of
                Some bs \<Rightarrow> Inr bs
              | None \<Rightarrow> Inl (EthersError INVALID_ARGUMENT ''invalid BytesLike value''))
           else Inl (EthersError INVALID_ARGUMENT ''invalid BytesLike value''))
      | _ \<Rightarrow> Inl (EthersError INVALID_ARGUMENT ''invalid BytesLike value''))"

definition HexCharacters :: string where
  "HexCharacters = ''0123456789abcdef''"

definition hex_of_byte :: "byte \<Rightarrow> string" where
  "hex_of_byte v =
     [HexCharacters ! unat (drop_bit 4 (v AND 0xf0)), HexCharacters ! unat (v AND 0x0f)]"

definition hexlify :: "byte list \<Rightarrow> string" where
  "hexlify bs = ''0x'' @ concat (map hex_of_byte bs)"

text \<open>
  \<open>zeroPadValue(data, length)\<close> is \<open>zeroPad(data, length, true)\<close>: the bytes of \<open>data\<close> are
  copied to the right end of a zero-filled array, and data longer than \<open>length\<close> is a
  buffer overrun.
\<close>

definition zeroPadValue :: "string \<Rightarrow> nat \<Rightarrow> error + string" where
  "zeroPadValue data len =
     (case getBytes data of
        Inl e \<Rightarrow> Inl e
      | Inr bs \<Rightarrow>
          if len \<ge> length bs then Inr (hexlify (replicate (len - length bs) 0 @ bs))
          else Inl (EthersError BUFFER_OVERRUN ''padding exceeds data length''))"

text \<open>\<open>solidityPacked(["bytes", "bytes"], [a, b])\<close>: each value goes through \<open>getBytes\<close>, in
  order, and the concatenation is printed by \<open>hexlify\<close>.\<close>

definition solidityPacked :: "string \<Rightarrow> string \<Rightarrow> error + string" where
  "solidityPacked a b =
     (case getBytes a of
        Inl e \<Rightarrow> Inl e
      | Inr x \<Rightarrow>
          (case getBytes b of
             Inl e \<Rightarrow> Inl e
           | Inr y \<Rightarrow> Inr (hexlify (x @ y))))"

section \<open>ethers: decimal strings and fixed-point values\<close>

definition is_digit :: "char \<Rightarrow> bool" where
  "is_digit c = (48 \<le> (of_char c :: nat) \<and> (of_char c :: nat) \<le> 57)"

definition digit_val :: "char \<Rightarrow> nat" where
  "digit_val c = of_char c - 48"

text \<open>\<open>BigInt(s)\<close> on a string of decimal digits (leading zeros allowed, the empty string is 0).\<close>

definition nat_of_digits :: "string \<Rightarrow> nat" where
  "nat_of_digits s = foldl (\<lambda>a c. 10 * a + digit_val c) 0 s"

text \<open>The match of \<open>/^(-?)([0-9]*)\.?([0-9]*)$/\<close>: the sign, the digits before the point and
  the digits after it. Each group is greedy and no other split of the string can match.\<close>

definition match_fixed :: "string \<Rightarrow> (bool \<times> string \<times> string) option" where
  "match_fixed v =
     (let (neg, s1) = (case v of c # r \<Rightarrow> if c = CHR ''-'' then (True, r) else (False, v)
                                | [] \<Rightarrow> (False, v));
          whole = takeWhile is_digit s1;
          s2 = dropWhile is_digit s1;
          s3 = (case s2 of c # r \<Rightarrow> if c = CHR ''.'' then r else s2 | [] \<Rightarrow> s2)
      in if list_all is_digit s3 then Some (neg, whole, s3) else None)"

text \<open>\<open>while (decimal.length < format.decimals) { decimal += Zeros; }\<close> with
  \<open>Zeros = "0000"\<close>.\<close>

function pad_decimal :: "string \<Rightarrow> nat \<Rightarrow> string" where
  "pad_decimal decimal decimals =
     (if length decimal < decimals then pad_decimal (decimal @ ''0000'') decimals
      else decimal)"
  by pat_completeness auto
termination
  by (relation "measure (\<lambda>(decimal, decimals). decimals - length decimal)") auto

declare pad_decimal.simps [simp del]

text \<open>
  \<open>parseUnits(value, decimals)\<close> is \<open>FixedNumber.fromString(value, {decimals, width: 512}).value\<close>:
  the string must match and hold a digit, the format admits at most 80 decimals, digits
  beyond \<open>decimals\<close> must be zeros, and the value must fit 512 signed bits.
\<close>

definition parseUnits :: "string \<Rightarrow> nat \<Rightarrow> error + int" where
  "parseUnits v decimals =
     (case match_fixed v of
        None \<Rightarrow> Inl (EthersError INVALID_ARGUMENT ''invalid FixedNumber string value'')
      | Some (neg, whole0, decimal0) \<Rightarrow>
          if length whole0 + length decimal0 = 0 then
            Inl (EthersError INVALID_ARGUMENT ''invalid FixedNumber string value'')
          else if decimals > 80 then
            Inl (EthersError INVALID_ARGUMENT ''invalid FixedNumber decimals (too large)'')
          else
            (let whole = (if whole0 = [] then ''0'' else whole0);
                 decimal = pad_decimal decimal0 decimals
             in if \<not> list_all (\<lambda>c. c = CHR ''0'') (drop decimals decimal) then
                  Inl (EthersError NUMERIC_FAULT ''too many decimals for format'')
                else
                  (let n = int (nat_of_digits (whole @ take decimals decimal));
                       val = (if neg then - n else n)
                   in if - (2 ^ 511) \<le> val \<and> val < 2 ^ 511 then Inr val
                      else Inl (EthersError NUMERIC_FAULT ''overflow''))))"

text \<open>Decimal printing of numbers (\<open>String(n)\<close>, \<open>bigint.toString()\<close>).\<close>

definition digit_char :: "nat \<Rightarrow> char" where
  "digit_char d = ''0123456789'' ! d"

fun decimal_of_nat :: "nat \<Rightarrow> string" where
  "decimal_of_nat n = (if n < 10 then [] else decimal_of_nat (n div 10)) @ [digit_char (n mod 10)]"

declare decimal_of_nat.simps [simp del]

definition decimal_of_int :: "int \<Rightarrow> string" where
  "decimal_of_int i = (if i < 0 then CHR ''-'' # decimal_of_nat (nat (- i)) else decimal_of_nat (nat i))"

text \<open>
  \<open>formatUnits(value)\<close> prints a value with 18 decimals: the digits are padded on the left
  with \<open>"0000"\<close> until there are more than 18, the point is inserted, and zeros are
  stripped at both ends down to one digit on each side of the point. A value outside
  512 signed bits is an overflow.
\<close>

function pad_left :: "string \<Rightarrow> nat \<Rightarrow> string" where
  "pad_left str decimals =
     (if length str \<le> decimals then pad_left (''0000'' @ str) decimals else str)"
  by pat_completeness auto
termination
  by (relation "measure (\<lambda>(str, decimals). Suc decimals - length str)") auto

declare pad_left.simps [simp del]

fun strip_leading :: "string \<Rightarrow> string" where
  "strip_leading (a # b # rest) =
     (if a = CHR ''0'' \<and> b \<noteq> CHR ''.'' then strip_leading (b # rest) else a # b # rest)"
| "strip_leading s = s"

definition strip_trailing :: "string \<Rightarrow> string" where
  "strip_trailing s = rev (strip_leading (rev s))"

definition formatUnits :: "int \<Rightarrow> error + string" where
  "formatUnits val =
     (if - (2 ^ 511) \<le> val \<and> val < 2 ^ 511 then
        (let negative = (if val < 0 then ''-'' else []);
             str = pad_left (decimal_of_nat (nat \<bar>val\<bar>)) 18;
             index = length str - 18;
             str = take index str @ ''.'' @ drop index str
         in Inr (negative @ strip_trailing (strip_leading str)))
      else Inl (EthersError NUMERIC_FAULT ''overflow''))"

section \<open>ethers: UTF-8 and Keccak-256\<close>

text \<open>
  \<open>toUtf8Bytes\<close> walks the code units of the string: one byte below \<open>0x80\<close>, two bytes
  below \<open>0x800\<close>, four bytes for a high surrogate followed by a low surrogate (the index
  skips the low one), three bytes otherwise, a low surrogate with no high one before it
  included. A high surrogate that is last, or followed by something else, throws; the bytes
  collected so far are lost with it. \<open>utf8_push\<close> is \<open>result.push\<close> seen from the front of
  the string.
\<close>

definition utf8_push :: "byte list \<Rightarrow> error + byte list \<Rightarrow> error + byte list" where
  "utf8_push bs r = (case r of Inl e \<Rightarrow> Inl e | Inr result \<Rightarrow> Inr (bs @ result))"

fun toUtf8Bytes :: "jsstring \<Rightarrow> error + byte list" where
  "toUtf8Bytes [] = Inr []"
| "toUtf8Bytes [c] =
     (if c < 0x80 then Inr [ucast c]
      else if c < 0x800 then Inr [ucast (drop_bit 6 c OR 0xc0), ucast ((c AND 0x3f) OR 0x80)]
      else if c AND 0xfc00 = 0xd800 then Inl (EthersError INVALID_ARGUMENT ''invalid surrogate pair'')
      else Inr [ucast (drop_bit 12 c OR 0xe0), ucast ((drop_bit 6 c AND 0x3f) OR 0x80),
                ucast ((c AND 0x3f) OR 0x80)])"
| "toUtf8Bytes (c # c2 # rest) =
     (if c < 0x80 then utf8_push [ucast c] (toUtf8Bytes (c2 # rest))
      else if c < 0x800 then
        utf8_push [ucast (drop_bit 6 c OR 0xc0), ucast ((c AND 0x3f) OR 0x80)]
          (toUtf8Bytes (c2 # rest))
      else if c AND 0xfc00 = 0xd800 then
        (if c2 AND 0xfc00 = 0xdc00 then
           (let pair = 0x10000 + push_bit 10 (unat (c AND 0x03ff)) + unat (c2 AND 0x03ff) in
            utf8_push [of_nat (drop_bit 18 pair OR 0xf0), of_nat ((drop_bit 12 pair AND 0x3f) OR 0x80),
                       of_nat ((drop_bit 6 pair AND 0x3f) OR 0x80), of_nat ((pair AND 0x3f) OR 0x80)]
              (toUtf8Bytes rest))
         else Inl (EthersError INVALID_ARGUMENT ''invalid surrogate pair''))
      else
        utf8_push [ucast (drop_bit 12 c OR 0xe0), ucast ((drop_bit 6 c AND 0x3f) OR 0x80),
                   ucast ((c AND 0x3f) OR 0x80)]
          (toUtf8Bytes (c2 # rest)))"

text \<open>
  \<open>ethers.keccak256\<close> is Keccak-256 (rate 136 bytes, padding \<open>0x01 \<dots> 0x80\<close>); the digest
  is returned as a hexadecimal string. The state is 25 lanes of 64 bits, lane \<open>(x, y)\<close> at
  index \<open>x + 5 * y\<close>.
\<close>

type_synonym lane = "64 word"

definition keccak_RC :: "lane list" where
  "keccak_RC =
    [0x0000000000000001, 0x0000000000008082, 0x800000000000808A, 0x8000000080008000,
     0x000000000000808B, 0x0000000080000001, 0x8000000080008081, 0x8000000000008009,
     0x000000000000008A, 0x0000000000000088, 0x0000000080008009, 0x000000008000000A,
     0x000000008000808B, 0x800000000000008B, 0x8000000000008089, 0x8000000000008003,
     0x8000000000008002, 0x8000000000000080, 0x000000000000800A, 0x800000008000000A,
     0x8000000080008081, 0x8000000000008080, 0x0000000080000001, 0x8000000080008008]"

definition keccak_rot :: "nat list" where
  "keccak_rot =
    [ 0,  1, 62, 28, 27,
     36, 44,  6, 55, 20,
      3, 10, 43, 25, 39,
     41, 45, 15, 21,  8,
     18,  2, 61, 56, 14]"

definition keccak_theta :: "lane list \<Rightarrow> lane list" where
  "keccak_theta a =
     (let c = map (\<lambda>x. a ! x XOR a ! (x + 5) XOR a ! (x + 10) XOR a ! (x + 15) XOR a ! (x + 20))
                [0..<5];
          d = map (\<lambda>x. c ! ((x + 4) mod 5) XOR word_rotl 1 (c ! ((x + 1) mod 5))) [0..<5]
      in map (\<lambda>i. a ! i XOR d ! (i mod 5)) [0..<25])"

definition keccak_rho_pi :: "lane list \<Rightarrow> lane list" where
  "keccak_rho_pi a =
     map (\<lambda>j. let y = j mod 5; x = (y + 3 * (j div 5)) mod 5
               in word_rotl (keccak_rot ! (x + 5 * y)) (a ! (x + 5 * y))) [0..<25]"

definition keccak_chi :: "lane list \<Rightarrow> lane list" where
  "keccak_chi b =
     map (\<lambda>i. let x = i mod 5; r = 5 * (i div 5)
               in b ! i XOR (NOT (b ! ((x + 1) mod 5 + r)) AND b ! ((x + 2) mod 5 + r))) [0..<25]"

definition keccak_round :: "lane list \<Rightarrow> lane \<Rightarrow> lane list" where
  "keccak_round a rc =
     (let e = keccak_chi (keccak_rho_pi (keccak_theta a)) in (hd e XOR rc) # tl e)"

definition keccak_f :: "lane list \<Rightarrow> lane list" where
  "keccak_f a = foldl keccak_round a keccak_RC"

definition lane_of_bytes :: "byte list \<Rightarrow> lane" where
  "lane_of_bytes bs = foldr (\<lambda>b w. push_bit 8 w OR ucast b) bs 0"

definition bytes_of_lane :: "lane \<Rightarrow> byte list" where
  "bytes_of_lane w = map (\<lambda>i. ucast (drop_bit (8 * i) w)) [0..<8]"

fun lanes_of_block :: "nat \<Rightarrow> byte list \<Rightarrow> lane list" where
  "lanes_of_block 0 bs = []"
| "lanes_of_block (Suc n) bs = lane_of_bytes (take 8 bs) # lanes_of_block n (drop 8 bs)"

definition keccak_absorb :: "lane list \<Rightarrow> byte list \<Rightarrow> lane list" where
  "keccak_absorb a block =
     keccak_f (map (\<lambda>(s, m). s XOR m) (zip a (lanes_of_block 17 block @ replicate 8 0)))"

definition keccak_pad :: "byte list \<Rightarrow> byte list" where
  "keccak_pad m =
     (let q = 136 - length m mod 136
      in if q = 1 then m @ [0x81] else m @ [0x01] @ replicate (q - 2) 0 @ [0x80])"

function keccak_blocks :: "lane list \<Rightarrow> byte list \<Rightarrow> lane list" where
  "keccak_blocks a bs =
     (if bs = [] then a else keccak_blocks (keccak_absorb a (take 136 bs)) (drop 136 bs))"
  by pat_completeness auto
termination
  by (relation "measure (\<lambda>(a, bs). length bs)") auto

declare keccak_blocks.simps [simp del]

definition keccak256_bytes :: "byte list \<Rightarrow> byte list" where
  "keccak256_bytes m =
     concat (map bytes_of_lane (take 4 (keccak_blocks (replicate 25 0) (keccak_pad m))))"

definition keccak256 :: "byte list \<Rightarrow> string" where
  "keccak256 m = hexlify (keccak256_bytes m)"

section \<open>The world outside the program\<close>

text \<open>
  The program talks to the file system, to RPC endpoints and to contracts on chains. Every
  such interaction is a \<open>call\<close>; the calls made so far are kept in chronological order, and
  the answer to a call is a function of the calls made before it and of its arguments, given
  by the \<open>world\<close>. Nothing is assumed about these functions. The world also holds the
  environment variables and the outcome of the ethers operations that depend on artifacts
  outside the repository (the ABI of the token and of the factory, the private key).
\<close>

datatype signer = Wallet (provider_rpc: string)

datatype abi = AbiUndefined | AbiString string | AbiArray "string list"

text \<open>A parsed artifact file: \<open>.abi\<close> and \<open>.bytecode.object\<close>. The outer option of \<open>bytecode\<close>
  is the member \<open>bytecode\<close>, the inner one its member \<open>object\<close>.\<close>

record artifact =
  abi_member :: abi
  bytecode :: "string option option"

record Contract =
  target :: string
  interface :: abi
  runner :: signer

datatype tx = TransactionResponse (tx_hash: string)

datatype ctor_args = CtorArgs jsstring jsstring int string string

record EnforcedOptionParam =
  eid :: nat
  msgType :: nat
  options :: string

record SendParam =
  dstEid :: nat
  to :: string
  amountLD :: int
  minAmountLD :: int
  extraOptions :: string
  composeMsg :: string
  oftCmd :: string

record MessagingFee =
  nativeFee :: int
  lzTokenFee :: int

datatype call =
    ReadFile string
  | Deploy Contract string string
  | Wait tx
  | LastDeployedAddress Contract
  | SetPeer Contract nat string
  | SetEnforcedOptions Contract "EnforcedOptionParam list"
  | QuoteSend Contract SendParam bool
  | Send Contract SendParam MessagingFee string int

record world =
  OWNER_ADDRESS :: "string option"
  ARBITRUM_SEPOLIA_RPC_URL :: string
  BASE_SEPOLIA_RPC_URL :: string
  ARBITRUM_FACTORY_ADDRESS :: "string option"
  BASE_FACTORY_ADDRESS :: "string option"
  Wallet_error :: "error option"
  wallet_address :: string
  Interface_error :: "abi \<Rightarrow> error option"
  encodeDeploy :: "abi \<Rightarrow> ctor_args \<Rightarrow> error + string"
  readFile_JSON :: "call list \<Rightarrow> string \<Rightarrow> error + artifact"
  deploy :: "call list \<Rightarrow> Contract \<Rightarrow> string \<Rightarrow> string \<Rightarrow> error + tx"
  wait :: "call list \<Rightarrow> tx \<Rightarrow> error + unit"
  lastDeployedAddress :: "call list \<Rightarrow> Contract \<Rightarrow> error + string"
  setPeer :: "call list \<Rightarrow> Contract \<Rightarrow> nat \<Rightarrow> string \<Rightarrow> error + tx"
  setEnforcedOptions :: "call list \<Rightarrow> Contract \<Rightarrow> EnforcedOptionParam list \<Rightarrow> error + tx"
  quoteSend :: "call list \<Rightarrow> Contract \<Rightarrow> SendParam \<Rightarrow> bool \<Rightarrow> error + int \<times> int"
  send :: "call list \<Rightarrow> Contract \<Rightarrow> SendParam \<Rightarrow> MessagingFee \<Rightarrow> string \<Rightarrow> int \<Rightarrow> error + tx"

section \<open>utils.ts\<close>

record NetworkConfig =
  name :: string
  rpc :: string
  chainId :: nat
  lzEndpoint :: string
  lzEid :: nat

text \<open>The table \<open>NETWORKS\<close>. The tool schemas admit only its keys as chain names, so the
  lookup of any other name is modelled as absent.\<close>

definition networkKeys :: "string list" where
  "networkKeys = [''ArbitrumSepolia'', ''baseSepolia'']"

definition NETWORKS :: "world \<Rightarrow> string \<Rightarrow> NetworkConfig option" where
  "NETWORKS w k =
     (if k = ''ArbitrumSepolia'' then
        Some \<lparr>name = ''ArbitrumSepolia'', rpc = ARBITRUM_SEPOLIA_RPC_URL w, chainId = 421614,
              lzEndpoint = ''0x6EDCE65403992e310A62460808c4b910D972f10f'', lzEid = 40231\<rparr>
      else if k = ''baseSepolia'' then
        Some \<lparr>name = ''baseSepolia'', rpc = BASE_SEPOLIA_RPC_URL w, chainId = 84532,
              lzEndpoint = ''0x6EDCE65403992e310A62460808c4b910D972f10f'', lzEid = 40245\<rparr>
      else None)"

definition getNetworkConfig :: "world \<Rightarrow> string \<Rightarrow> error + NetworkConfig" where
  "getNetworkConfig w networkName =
     (case NETWORKS w networkName of
        None \<Rightarrow> Inl (Error (''Network configuration not found for '' @ networkName))
      | Some network \<Rightarrow> Inr network)"

text \<open>\<open>getSigner\<close>: the provider is created lazily and cannot fail here; the wallet can, on a
  malformed private key.\<close>

definition getSigner :: "world \<Rightarrow> string \<Rightarrow> error + signer" where
  "getSigner w networkName =
     (case getNetworkConfig w networkName of
        Inl e \<Rightarrow> Inl e
      | Inr networkConfig \<Rightarrow>
          (case Wallet_error w of
             Some e \<Rightarrow> Inl e
           | None \<Rightarrow> Inr (Wallet (rpc networkConfig))))"

definition formatAddressForLayerZero :: "string \<Rightarrow> error + string" where
  "formatAddressForLayerZero address = zeroPadValue address 32"

text \<open>A well-formed 20-byte account address, as a string: \<open>0x\<close> and forty hexadecimal
  digits of either case.\<close>

definition is_hex_digit :: "char \<Rightarrow> bool" where
  "is_hex_digit c = (hex_digit_val c \<noteq> None)"

definition well_formed_address :: "string \<Rightarrow> bool" where
  "well_formed_address a =
     (length a = 42 \<and> take 2 a = ''0x'' \<and> list_all is_hex_digit (drop 2 a))"

text \<open>The strings \<open>getBytes\<close> accepts, described on the characters alone, and the lower-case
  form of a hexadecimal digit.\<close>

definition is_BytesLike :: "string \<Rightarrow> bool" where
  "is_BytesLike v =
     (length v \<ge> 2 \<and> v ! 0 = CHR ''0'' \<and> (v ! 1 = CHR ''x'' \<or> v ! 1 = CHR ''X'')
      \<and> even (length v) \<and> list_all is_hex_digit (drop 2 v))"

definition lower_hex :: "char \<Rightarrow> char" where
  "lower_hex c =
     (if c = CHR ''A'' then CHR ''a'' else if c = CHR ''B'' then CHR ''b''
      else if c = CHR ''C'' then CHR ''c'' else if c = CHR ''D'' then CHR ''d''
      else if c = CHR ''E'' then CHR ''e'' else if c = CHR ''F'' then CHR ''f'' else c)"

section \<open>index.ts: data, state and control\<close>

record DeployedContractData =
  chainName :: string
  address :: string
  contractInstance :: Contract
  data_lzEid :: nat
  networkConfig :: NetworkConfig

text \<open>An entry of \<open>deployedContractsSummary\<close>; \<open>contractAddress\<close> is \<open>null\<close> and \<open>error\<close> is
  present on a failed deployment.\<close>

record summary_entry =
  summary_chainName :: string
  contractAddress :: "string option"
  deploymentStatus :: string
  summary_error :: "string option"

text \<open>The arrays the deployment handler mutates, and the calls made to the world.\<close>

record state =
  results :: "jsstring list"
  deployedContractsSummary :: "summary_entry list"
  deployedContractsData :: "DeployedContractData list"
  peeringResults :: "string list"
  enforcedOptionsResults :: "string list"
  calls :: "call list"

definition initial_state :: state where
  "initial_state =
     \<lparr>results = [], deployedContractsSummary = [], deployedContractsData = [],
      peeringResults = [], enforcedOptionsResults = [], calls = []\<rparr>"

text \<open>The object printed by \<open>JSON.stringify\<close> in the success payload of the deployment
  handler, and the one of the bridge handler.\<close>

record report =
  overallStatus :: string
  deployedContracts :: "summary_entry list"
  report_peeringResults :: "string list"
  report_enforcedOptionsResults :: "string list"
  detailedExecutionLog :: "jsstring list"

record receipt =
  transactionHash :: string
  receipt_fromChain :: string
  receipt_toChain :: string
  amountSent :: string
  sender :: string
  receiver :: string
  estimatedNativeFee :: string

text \<open>
  What a handler hands back: \<open>ErrorText t\<close> is \<open>{content: [{type: "text", text: t}],
  isError: true}\<close>; the other two payloads carry no \<open>isError\<close>. A handler whose promise
  rejects has \<open>Thrown\<close> the error instead of returning a payload.
\<close>

datatype payload = ErrorText string | DeployReport report | BridgeReceipt receipt

datatype outcome = Returned payload | Thrown error

fun isError :: "payload \<Rightarrow> bool" where
  "isError (ErrorText t) = True"
| "isError (DeployReport r) = False"
| "isError (BridgeReceipt r) = False"

text \<open>A statement sequence: it runs on the state and either throws (\<open>Inl\<close>) or yields a
  value (\<open>Inr\<close>); the state changes made before a throw stay.\<close>

type_synonym 'a action = "state \<Rightarrow> (error + 'a) \<times> state"

definition ret :: "'a \<Rightarrow> 'a action" where
  "ret x st = (Inr x, st)"

definition lift :: "error + 'a \<Rightarrow> 'a action" where
  "lift v st = (v, st)"

definition and_then :: "'a action \<Rightarrow> ('a \<Rightarrow> 'b action) \<Rightarrow> 'b action" where
  "and_then m f st = (case m st of (Inl e, st') \<Rightarrow> (Inl e, st') | (Inr x, st') \<Rightarrow> f x st')"

definition try_catch :: "'a action \<Rightarrow> (error \<Rightarrow> 'a action) \<Rightarrow> 'a action" where
  "try_catch m h st = (case m st of (Inl e, st') \<Rightarrow> h e st' | (Inr x, st') \<Rightarrow> (Inr x, st'))"

definition ask :: "call \<Rightarrow> (call list \<Rightarrow> error + 'a) \<Rightarrow> 'a action" where
  "ask c answer st = (answer (calls st), st\<lparr>calls := calls st @ [c]\<rparr>)"

definition results_push :: "jsstring \<Rightarrow> unit action" where
  "results_push s st = (Inr (), st\<lparr>results := results st @ [s]\<rparr>)"

definition peeringResults_push :: "string \<Rightarrow> unit action" where
  "peeringResults_push s st = (Inr (), st\<lparr>peeringResults := peeringResults st @ [s]\<rparr>)"

definition enforcedOptionsResults_push :: "string \<Rightarrow> unit action" where
  "enforcedOptionsResults_push s st =
     (Inr (), st\<lparr>enforcedOptionsResults := enforcedOptionsResults st @ [s]\<rparr>)"

definition deployedContractsData_push :: "DeployedContractData \<Rightarrow> unit action" where
  "deployedContractsData_push d st =
     (Inr (), st\<lparr>deployedContractsData := deployedContractsData st @ [d]\<rparr>)"

definition deployedContractsSummary_push :: "summary_entry \<Rightarrow> unit action" where
  "deployedContractsSummary_push s st =
     (Inr (), st\<lparr>deployedContractsSummary := deployedContractsSummary st @ [s]\<rparr>)"

text \<open>The awaited operations of the handlers, each a call to the world.\<close>

definition readFile_parse :: "world \<Rightarrow> string \<Rightarrow> artifact action" where
  "readFile_parse w path = ask (ReadFile path) (\<lambda>h. readFile_JSON w h path)"

definition factory_deploy :: "world \<Rightarrow> Contract \<Rightarrow> string \<Rightarrow> string \<Rightarrow> tx action" where
  "factory_deploy w c code salt = ask (Deploy c code salt) (\<lambda>h. deploy w h c code salt)"

definition tx_wait :: "world \<Rightarrow> tx \<Rightarrow> unit action" where
  "tx_wait w t = ask (Wait t) (\<lambda>h. wait w h t)"

definition factory_lastDeployedAddress :: "world \<Rightarrow> Contract \<Rightarrow> string action" where
  "factory_lastDeployedAddress w c = ask (LastDeployedAddress c) (\<lambda>h. lastDeployedAddress w h c)"

definition contract_setPeer :: "world \<Rightarrow> Contract \<Rightarrow> nat \<Rightarrow> string \<Rightarrow> tx action" where
  "contract_setPeer w c e peer = ask (SetPeer c e peer) (\<lambda>h. setPeer w h c e peer)"

definition contract_setEnforcedOptions ::
  "world \<Rightarrow> Contract \<Rightarrow> EnforcedOptionParam list \<Rightarrow> tx action" where
  "contract_setEnforcedOptions w c opts =
     ask (SetEnforcedOptions c opts) (\<lambda>h. setEnforcedOptions w h c opts)"

definition contract_quoteSend ::
  "world \<Rightarrow> Contract \<Rightarrow> SendParam \<Rightarrow> bool \<Rightarrow> (int \<times> int) action" where
  "contract_quoteSend w c p payInLz = ask (QuoteSend c p payInLz) (\<lambda>h. quoteSend w h c p payInLz)"

definition contract_send ::
  "world \<Rightarrow> Contract \<Rightarrow> SendParam \<Rightarrow> MessagingFee \<Rightarrow> string \<Rightarrow> int \<Rightarrow> tx action" where
  "contract_send w c p fee refund val =
     ask (Send c p fee refund val) (\<lambda>h. send w h c p fee refund val)"

text \<open>\<open>new ethers.Interface(abi)\<close> and \<open>new Contract(address, abi, signer)\<close>: the second
  builds the interface of the ABI and fails where the first does.\<close>

definition new_Interface :: "world \<Rightarrow> abi \<Rightarrow> error + abi" where
  "new_Interface w a = (case Interface_error w a of Some e \<Rightarrow> Inl e | None \<Rightarrow> Inr a)"

definition new_Contract :: "world \<Rightarrow> string \<Rightarrow> abi \<Rightarrow> signer \<Rightarrow> error + Contract" where
  "new_Contract w addr a s =
     (case Interface_error w a of
        Some e \<Rightarrow> Inl e
      | None \<Rightarrow> Inr \<lparr>target = addr, interface = a, runner = s\<rparr>)"

text \<open>String helpers: \<open>Array.prototype.join\<close>, \<open>String.prototype.includes\<close> and
  \<open>String.prototype.startsWith\<close>.\<close>

fun join :: "string \<Rightarrow> string list \<Rightarrow> string" where
  "join sep [] = []"
| "join sep [x] = x"
| "join sep (x # y # ys) = x @ sep @ join sep (y # ys)"

fun includes_str :: "'a list \<Rightarrow> 'a list \<Rightarrow> bool" where
  "includes_str [] t = (t = [])"
| "includes_str (c # s) t = (take (length t) (c # s) = t \<or> includes_str s t)"

definition startsWith :: "string \<Rightarrow> string \<Rightarrow> bool" where
  "startsWith s t = (take (length t) s = t)"

definition newline :: string where
  "newline = [CHR 0x0A]"

definition oftPath :: string where
  "oftPath = join [CHR 0x5C] [''D:'', ''Dev'', ''layerzero-mcp'', ''artifacts'', ''MyOFT'', ''MyOFT.json'']"

definition factoryPath :: string where
  "factoryPath =
     join [CHR 0x5C] [''D:'', ''Dev'', ''layerzero-mcp'', ''artifacts'', ''factory'', ''CREATE2Factory.json'']"

definition FACTORY_ADDRESSES :: "world \<Rightarrow> string \<Rightarrow> string option" where
  "FACTORY_ADDRESSES w k =
     (if k = ''ArbitrumSepolia'' then ARBITRUM_FACTORY_ADDRESS w
      else if k = ''baseSepolia'' then BASE_FACTORY_ADDRESS w
      else None)"

section \<open>index.ts: the tool deploy-and-configure-oft-multichain\<close>

text \<open>The parameters of the tool; \<open>'d\<close> is the type of \<open>decimals\<close>, optional in a request and
  a number once the schema has filled in the default.\<close>

record 'd deploy_params =
  tokenName :: jsstring
  tokenSymbol :: jsstring
  initialTotalSupply :: string
  decimals :: 'd
  targetChains :: "string list"
  owner :: "string option"

text \<open>The schema \<open>deployAndConfigureOftParams\<close>: \<open>decimals\<close> is an integer from 0 to 18 and
  defaults to 18; \<open>targetChains\<close> holds at least one name, each a key of \<open>NETWORKS\<close>.\<close>

definition deployAndConfigureOftParams ::
  "int option deploy_params \<Rightarrow> error + int deploy_params" where
  "deployAndConfigureOftParams p =
     (if (case decimals p of Some d \<Rightarrow> d < 0 | None \<Rightarrow> False) then
        Inl (Error ''decimals: Number must be greater than or equal to 0'')
      else if (case decimals p of Some d \<Rightarrow> d > 18 | None \<Rightarrow> False) then
        Inl (Error ''decimals: Number must be less than or equal to 18'')
      else if \<not> list_all (\<lambda>c. c \<in> set networkKeys) (targetChains p) then
        Inl (Error ''targetChains: Invalid enum value'')
      else if length (targetChains p) < 1 then
        Inl (Error ''targetChains: Array must contain at least 1 element(s)'')
      else
        Inr \<lparr>tokenName = tokenName p, tokenSymbol = tokenSymbol p,
             initialTotalSupply = initialTotalSupply p,
             decimals = (case decimals p of Some d \<Rightarrow> d | None \<Rightarrow> 18),
             targetChains = targetChains p, owner = owner p\<rparr>)"

text \<open>Phase A. The result \<open>Inl p\<close> is the early \<open>return p\<close>; \<open>Inr (OFT_ABI, OFT_BYTECODE,
  envOwnerAddress)\<close> continues. Reading or parsing the artifact, or a missing \<open>bytecode\<close>
  member, throws outside any \<open>try\<close>.\<close>

definition phase_A ::
  "world \<Rightarrow> int deploy_params \<Rightarrow> (payload + abi \<times> string \<times> string) action" where
  "phase_A w params =
     and_then (results_push (code_units ''Phase A: Initial Checks & Setup started.'')) (\<lambda>_.
     case OWNER_ADDRESS w of
       None \<Rightarrow>
         and_then (results_push (code_units ''Error: OWNER_ADDRESS is not set in environment variables.'')) (\<lambda>_.
         ret (Inl (ErrorText ''Error: OWNER_ADDRESS is not set in environment variables.'')))
     | Some envOwnerAddress \<Rightarrow>
         if envOwnerAddress = [] then
           and_then (results_push (code_units ''Error: OWNER_ADDRESS is not set in environment variables.'')) (\<lambda>_.
           ret (Inl (ErrorText ''Error: OWNER_ADDRESS is not set in environment variables.'')))
         else
           and_then (results_push (code_units (''OWNER_ADDRESS found: '' @ envOwnerAddress))) (\<lambda>_.
           and_then (readFile_parse w oftPath) (\<lambda>MyOFT.
           and_then (lift (case bytecode MyOFT of
                             None \<Rightarrow> Inl (Error ''Cannot read properties of undefined'')
                           | Some obj \<Rightarrow> Inr obj)) (\<lambda>OFT_BYTECODE0.
           let OFT_ABI = abi_member MyOFT in
           if OFT_ABI = AbiString ''ABI_PLACEHOLDER''
              \<or> OFT_BYTECODE0 = Some ''BYTECODE_PLACEHOLDER''
              \<or> OFT_ABI = AbiUndefined
              \<or> OFT_BYTECODE0 = None
              \<or> (case OFT_ABI of AbiString s \<Rightarrow> length s = 0 | AbiArray xs \<Rightarrow> length xs = 0
                  | AbiUndefined \<Rightarrow> False)
              \<or> (case OFT_BYTECODE0 of Some s \<Rightarrow> length s = 0 | None \<Rightarrow> False)
           then
             and_then (results_push
               (code_units ''Error: OFT_ABI or OFT_BYTECODE are placeholders. Please replace them in layerzero-mcp.ts.'')) (\<lambda>_.
             ret (Inl (ErrorText
               ''Error: OFT_ABI or OFT_BYTECODE are placeholders. Please replace them in layerzero-mcp.ts.'')))
           else
             and_then (results_push (code_units ''OFT_ABI and OFT_BYTECODE are not placeholders.'')) (\<lambda>_.
             let OFT_BYTECODE1 = (case OFT_BYTECODE0 of Some s \<Rightarrow> s | None \<Rightarrow> []);
                 OFT_BYTECODE = (if \<not> startsWith OFT_BYTECODE1 ''0x'' then ''0x'' @ OFT_BYTECODE1
                                 else OFT_BYTECODE1)
             in
             if length (targetChains params) = 0 then
               and_then (results_push (code_units ''Error: targetChains array is empty.'')) (\<lambda>_.
               ret (Inl (ErrorText
                 ''Error: Failed to Deploy OFT: Error: targetChains array is empty. Please provide at least one target chain.'')))
             else
               and_then (results_push
                 (code_units (''Target chains for deployment: '' @ join '', '' (targetChains params)))) (\<lambda>_.
               and_then (results_push (code_units ''Initialization complete.'')) (\<lambda>_.
               ret (Inr (OFT_ABI, OFT_BYTECODE, envOwnerAddress)))))))))"

text \<open>The body of the \<open>try\<close> of the deployment loop, for one chain.\<close>

definition deploy_try ::
  "world \<Rightarrow> int deploy_params \<Rightarrow> abi \<Rightarrow> string \<Rightarrow> string \<Rightarrow> string \<Rightarrow> unit action" where
  "deploy_try w params OFT_ABI OFT_BYTECODE deployOwner chainName' =
     and_then (lift (getSigner w chainName')) (\<lambda>signer.
     and_then (lift (getNetworkConfig w chainName')) (\<lambda>networkConfig'.
     and_then (results_push
       (code_units (''  Signer and network config obtained for '' @ chainName' @ ''. RPC: '' @ rpc networkConfig'
        @ '', LZ EID: '' @ decimal_of_nat (lzEid networkConfig')))) (\<lambda>_.
     and_then (lift (parseUnits (initialTotalSupply params) 0)) (\<lambda>parsedSupply.
     and_then (results_push
       (code_units ''  Token: '' @ tokenName params @ code_units '' ('' @ tokenSymbol params
        @ code_units (''), Supply: '' @ initialTotalSupply params @ '' (parsed: ''
                      @ decimal_of_int parsedSupply @ ''), Decimals: ''
                      @ decimal_of_int (decimals params)))) (\<lambda>_.
     and_then (lift (case FACTORY_ADDRESSES w chainName' of
                       None \<Rightarrow> Inl (Error (''Factory address not defined for '' @ chainName'))
                     | Some a \<Rightarrow>
                         if a = [] then Inl (Error (''Factory address not defined for '' @ chainName'))
                         else Inr a)) (\<lambda>factoryAddress.
     and_then (readFile_parse w factoryPath) (\<lambda>factoryJSON.
     and_then (lift (new_Contract w factoryAddress (abi_member factoryJSON) signer)) (\<lambda>factory.
     and_then (results_push (code_units ''  Contract factory created.'')) (\<lambda>_.
     and_then (lift (toUtf8Bytes (tokenName params @ code_units '':'' @ tokenSymbol params))) (\<lambda>bytes.
     let salt = keccak256 bytes in
     and_then (lift (new_Interface w OFT_ABI)) (\<lambda>iface.
     and_then (lift (encodeDeploy w iface
                       (CtorArgs (tokenName params) (tokenSymbol params) parsedSupply
                          (lzEndpoint networkConfig') deployOwner))) (\<lambda>constructorArgs.
     and_then (lift (solidityPacked OFT_BYTECODE constructorArgs)) (\<lambda>bytecodeWithArgs.
     and_then (results_push
       (code_units (''  Deploying with CREATE2 on '' @ chainName' @ '' using salt: '' @ salt))) (\<lambda>_.
     and_then (factory_deploy w factory bytecodeWithArgs salt) (\<lambda>tx'.
     and_then (tx_wait w tx') (\<lambda>_.
     and_then (factory_lastDeployedAddress w factory) (\<lambda>computedAddress.
     and_then (results_push
       (code_units (''  SUCCESS: Deployed via CREATE2 at computed address: '' @ computedAddress))) (\<lambda>_.
     and_then (lift (new_Contract w computedAddress OFT_ABI signer)) (\<lambda>contractInstance'.
     and_then (deployedContractsData_push
       \<lparr>chainName = chainName', address = computedAddress, contractInstance = contractInstance',
        data_lzEid = lzEid networkConfig', networkConfig = networkConfig'\<rparr>) (\<lambda>_.
     deployedContractsSummary_push
       \<lparr>summary_chainName = chainName', contractAddress = Some computedAddress,
        deploymentStatus = ''Success'', summary_error = None\<rparr>))))))))))))))))))))"

text \<open>The \<open>catch\<close> of the deployment loop. It encodes the constructor arguments and packs the
  bytecode again for its message, outside any \<open>try\<close>, before it returns the error payload.\<close>

definition deploy_catch ::
  "world \<Rightarrow> int deploy_params \<Rightarrow> abi \<Rightarrow> string \<Rightarrow> string \<Rightarrow> string \<Rightarrow> error \<Rightarrow> payload action" where
  "deploy_catch w params OFT_ABI OFT_BYTECODE deployOwner chainName' err =
     and_then (lift (new_Interface w OFT_ABI)) (\<lambda>iface.
     and_then (lift (parseUnits (initialTotalSupply params) 0)) (\<lambda>parsedSupply.
     and_then (lift (getNetworkConfig w chainName')) (\<lambda>networkConfig'.
     and_then (lift (encodeDeploy w iface
                       (CtorArgs (tokenName params) (tokenSymbol params) parsedSupply
                          (lzEndpoint networkConfig') deployOwner))) (\<lambda>constructorArgs.
     and_then (lift (solidityPacked OFT_BYTECODE constructorArgs)) (\<lambda>bytecodeWithArgs.
     and_then (lift (toUtf8Bytes (tokenName params @ code_units '':'' @ tokenSymbol params))) (\<lambda>bytes.
     let errorMessage =
           ''  FAILURE: Deploying on '' @ chainName' @ '': '' @ message_or_toString err
           @ '', salt: '' @ newline @ ''        '' @ keccak256 bytes
           @ '', bytecode: '' @ bytecodeWithArgs
     in
     and_then (results_push (code_units errorMessage)) (\<lambda>_.
     and_then (deployedContractsSummary_push
       \<lparr>summary_chainName = chainName', contractAddress = None,
        deploymentStatus = ''Failed'', summary_error = Some (message_or_toString err)\<rparr>) (\<lambda>_.
     ret (ErrorText (''Error: Failed to Deploy OFT: '' @ errorMessage))))))))))"

text \<open>One iteration of \<open>for (const chainName of params.targetChains)\<close>: \<open>Some p\<close> is the
  \<open>return p\<close> of the \<open>catch\<close>, \<open>None\<close> goes on to the next chain.\<close>

definition deploy_chain ::
  "world \<Rightarrow> int deploy_params \<Rightarrow> abi \<Rightarrow> string \<Rightarrow> string \<Rightarrow> string \<Rightarrow> payload option action" where
  "deploy_chain w params OFT_ABI OFT_BYTECODE deployOwner chainName' =
     and_then (results_push (code_units (''Attempting deployment on '' @ chainName' @ ''...''))) (\<lambda>_.
     try_catch
       (and_then (deploy_try w params OFT_ABI OFT_BYTECODE deployOwner chainName') (\<lambda>_. ret None))
       (\<lambda>err. and_then (deploy_catch w params OFT_ABI OFT_BYTECODE deployOwner chainName' err)
                 (\<lambda>p. ret (Some p))))"

fun deploy_loop ::
  "world \<Rightarrow> int deploy_params \<Rightarrow> abi \<Rightarrow> string \<Rightarrow> string \<Rightarrow> string list \<Rightarrow> payload option action" where
  "deploy_loop w params OFT_ABI OFT_BYTECODE deployOwner [] = ret None"
| "deploy_loop w params OFT_ABI OFT_BYTECODE deployOwner (c # cs) =
     and_then (deploy_chain w params OFT_ABI OFT_BYTECODE deployOwner c) (\<lambda>r.
     case r of
       Some p \<Rightarrow> ret (Some p)
     | None \<Rightarrow> deploy_loop w params OFT_ABI OFT_BYTECODE deployOwner cs)"

definition phase_B ::
  "world \<Rightarrow> int deploy_params \<Rightarrow> abi \<Rightarrow> string \<Rightarrow> string \<Rightarrow> payload option action" where
  "phase_B w params OFT_ABI OFT_BYTECODE envOwnerAddress =
     and_then (results_push (code_units (newline @ ''Phase B: Deployment Phase started.''))) (\<lambda>_.
     let deployOwner = (case owner params of
                          Some own \<Rightarrow> if own = [] then envOwnerAddress else own
                        | None \<Rightarrow> envOwnerAddress)
     in
     and_then (results_push (code_units (''Deployment owner set to: '' @ deployOwner))) (\<lambda>_.
     and_then (deploy_loop w params OFT_ABI OFT_BYTECODE deployOwner (targetChains params)) (\<lambda>r.
     case r of
       Some p \<Rightarrow> ret (Some p)
     | None \<Rightarrow> and_then (results_push (code_units ''Deployment Phase completed.'')) (\<lambda>_. ret None))))"

text \<open>Phase C. One pair \<open>(A, B)\<close> of the double loop, after the \<open>continue\<close> test.\<close>

definition peer_logPrefix :: "DeployedContractData \<Rightarrow> DeployedContractData \<Rightarrow> string" where
  "peer_logPrefix contractAData contractBData =
     ''  Peering '' @ chainName contractAData @ '' (EID: '' @ decimal_of_nat (data_lzEid contractAData)
     @ '') with '' @ chainName contractBData @ '' (EID: '' @ decimal_of_nat (data_lzEid contractBData)
     @ '', Address: '' @ address contractBData @ ''):''"

definition peer_pair ::
  "world \<Rightarrow> DeployedContractData \<Rightarrow> DeployedContractData \<Rightarrow> payload option action" where
  "peer_pair w contractAData contractBData =
     (let logPrefix = peer_logPrefix contractAData contractBData in
      try_catch
        (and_then (lift (formatAddressForLayerZero (address contractBData))) (\<lambda>peerAddressBytes32.
         and_then (peeringResults_push
           (logPrefix @ '' Formatting peer address '' @ address contractBData @ '' to ''
            @ peerAddressBytes32)) (\<lambda>_.
         and_then (contract_setPeer w (contractInstance contractAData) (data_lzEid contractBData)
                     peerAddressBytes32) (\<lambda>tx'.
         and_then (peeringResults_push
           (logPrefix @ '' setPeer transaction sent. Waiting for confirmation... TxHash: ''
            @ tx_hash tx')) (\<lambda>_.
         and_then (tx_wait w tx') (\<lambda>_.
         let successMsg = logPrefix @ '' SUCCESS.'' in
         and_then (results_push (code_units successMsg)) (\<lambda>_.
         and_then (peeringResults_push successMsg) (\<lambda>_.
         ret None))))))))
        (\<lambda>err.
         let errorMsg = logPrefix @ '' FAILURE: '' @ message_or_toString err in
         and_then (results_push (code_units errorMsg)) (\<lambda>_.
         and_then (peeringResults_push errorMsg) (\<lambda>_.
         ret (Some (ErrorText (''Error: Failed to Deploy OFT: '' @ errorMsg)))))))"

fun peer_inner ::
  "world \<Rightarrow> DeployedContractData \<Rightarrow> DeployedContractData list \<Rightarrow> payload option action" where
  "peer_inner w contractAData [] = ret None"
| "peer_inner w contractAData (contractBData # rest) =
     (if chainName contractAData = chainName contractBData then peer_inner w contractAData rest
      else
        and_then (peer_pair w contractAData contractBData) (\<lambda>r.
        case r of
          Some p \<Rightarrow> ret (Some p)
        | None \<Rightarrow> peer_inner w contractAData rest))"

fun peer_outer ::
  "world \<Rightarrow> DeployedContractData list \<Rightarrow> DeployedContractData list \<Rightarrow> payload option action" where
  "peer_outer w all [] = ret None"
| "peer_outer w all (contractAData # rest) =
     and_then (peer_inner w contractAData all) (\<lambda>r.
     case r of
       Some p \<Rightarrow> ret (Some p)
     | None \<Rightarrow> peer_outer w all rest)"

definition phase_C :: "world \<Rightarrow> payload option action" where
  "phase_C w =
     and_then (results_push (code_units (newline @ ''Phase C: Peering Phase started.''))) (\<lambda>_.
     and_then (\<lambda>st. (Inr (deployedContractsData st), st)) (\<lambda>data.
     and_then
       (if length data < 2 then
          (let msg = ''Skipping peering phase: Less than 2 contracts successfully deployed.'' in
           and_then (results_push (code_units msg)) (\<lambda>_.
           and_then (peeringResults_push msg) (\<lambda>_. ret None)))
        else
          and_then (results_push
            (code_units (''Found '' @ decimal_of_nat (length data)
             @ '' successfully deployed contracts for peering.''))) (\<lambda>_.
          peer_outer w data data)) (\<lambda>r.
     case r of
       Some p \<Rightarrow> ret (Some p)
     | None \<Rightarrow> and_then (results_push (code_units ''Peering Phase completed.'')) (\<lambda>_. ret None))))"

text \<open>Phase D.\<close>

definition standardOptionsHex :: string where
  "standardOptionsHex = ''0x00030100110100000000000000000000000000030d40''"

fun optionsToSet_of :: "DeployedContractData \<Rightarrow> DeployedContractData list \<Rightarrow> EnforcedOptionParam list" where
  "optionsToSet_of contractData [] = []"
| "optionsToSet_of contractData (peerData # rest) =
     (if chainName contractData = chainName peerData then optionsToSet_of contractData rest
      else \<lparr>eid = data_lzEid peerData, msgType = 1, options = standardOptionsHex\<rparr>
           # optionsToSet_of contractData rest)"

definition options_logPrefix :: "DeployedContractData \<Rightarrow> string" where
  "options_logPrefix contractData =
     ''  Configuring enforced options on '' @ chainName contractData @ '' (Address: ''
     @ address contractData @ ''):''"

definition options_contract ::
  "world \<Rightarrow> DeployedContractData list \<Rightarrow> DeployedContractData \<Rightarrow> payload option action" where
  "options_contract w all contractData =
     (let logPrefix = options_logPrefix contractData in
      try_catch
        (let optionsToSet = optionsToSet_of contractData all in
         if length optionsToSet > 0 then
           and_then (enforcedOptionsResults_push
             (logPrefix @ '' Preparing to set options for '' @ decimal_of_nat (length optionsToSet)
              @ '' peers: '' @ join '', '' (map (\<lambda>opt. ''EID '' @ decimal_of_nat (eid opt)) optionsToSet))) (\<lambda>_.
           and_then (contract_setEnforcedOptions w (contractInstance contractData) optionsToSet) (\<lambda>tx'.
           and_then (enforcedOptionsResults_push
             (logPrefix @ '' setEnforcedOptions transaction sent. Waiting for confirmation... TxHash: ''
              @ tx_hash tx')) (\<lambda>_.
           and_then (tx_wait w tx') (\<lambda>_.
           let successMsg = logPrefix @ '' SUCCESS: Set enforced options for ''
                            @ decimal_of_nat (length optionsToSet) @ '' peers.'' in
           and_then (results_push (code_units successMsg)) (\<lambda>_.
           and_then (enforcedOptionsResults_push successMsg) (\<lambda>_.
           ret None))))))
         else
           (let noPeersMsg = logPrefix @ '' No peers to set enforced options for.'' in
            and_then (results_push (code_units noPeersMsg)) (\<lambda>_.
            and_then (enforcedOptionsResults_push noPeersMsg) (\<lambda>_.
            ret None))))
        (\<lambda>err.
         let errorMsg = logPrefix @ '' FAILURE: '' @ message_or_toString err in
         and_then (results_push (code_units errorMsg)) (\<lambda>_.
         and_then (enforcedOptionsResults_push errorMsg) (\<lambda>_.
         ret (Some (ErrorText (''Error: Failed to Deploy OFT: '' @ errorMsg)))))))"

fun options_loop ::
  "world \<Rightarrow> DeployedContractData list \<Rightarrow> DeployedContractData list \<Rightarrow> payload option action" where
  "options_loop w all [] = ret None"
| "options_loop w all (contractData # rest) =
     and_then (options_contract w all contractData) (\<lambda>r.
     case r of
       Some p \<Rightarrow> ret (Some p)
     | None \<Rightarrow> options_loop w all rest)"

definition phase_D :: "world \<Rightarrow> payload option action" where
  "phase_D w =
     and_then (results_push (code_units (newline @ ''Phase D: Enforced Options Phase started.''))) (\<lambda>_.
     and_then (results_push
       (code_units (''Standard options hex for enforced options: '' @ standardOptionsHex))) (\<lambda>_.
     and_then (\<lambda>st. (Inr (deployedContractsData st), st)) (\<lambda>data.
     and_then
       (if length data = 0 then
          (let msg = ''Skipping enforced options phase: No contracts successfully deployed.'' in
           and_then (results_push (code_units msg)) (\<lambda>_.
           and_then (enforcedOptionsResults_push msg) (\<lambda>_. ret None)))
        else options_loop w data data) (\<lambda>r.
     case r of
       Some p \<Rightarrow> ret (Some p)
     | None \<Rightarrow> and_then (results_push (code_units ''Enforced Options Phase completed.'')) (\<lambda>_. ret None)))))"

text \<open>Phase E.\<close>

definition overallStatus_of :: "state \<Rightarrow> string" where
  "overallStatus_of st =
     (if list_ex (\<lambda>s. deploymentStatus s = ''Failed'') (deployedContractsSummary st)
         \<or> list_ex (\<lambda>r. includes_str r (code_units ''FAILURE'')) (results st)
      then ''Deployment and configuration process completed.''
           @ '' Some errors occurred. Check detailed logs.''
      else if length (deployedContractsData st) = 0 then ''Deployment failed on all target chains.''
      else ''Successfully deployed and configured on all attempted chains where deployment succeeded.'')"

definition phase_E :: "payload action" where
  "phase_E =
     and_then (results_push (code_units (newline @ ''Phase E: Preparing results.''))) (\<lambda>_.
     and_then (\<lambda>st. (Inr (overallStatus_of st), st)) (\<lambda>overallStatus'.
     and_then (results_push (code_units (''Overall Status: '' @ overallStatus'))) (\<lambda>_.
     (\<lambda>st. (Inr (DeployReport
                 \<lparr>overallStatus = overallStatus',
                  deployedContracts = deployedContractsSummary st,
                  report_peeringResults = peeringResults st,
                  report_enforcedOptionsResults = enforcedOptionsResults st,
                  detailedExecutionLog = results st\<rparr>), st)))))"

text \<open>The handler up to the end of the deployment phase, and from the peering phase on.\<close>

definition phases_AB :: "world \<Rightarrow> int deploy_params \<Rightarrow> payload option action" where
  "phases_AB w params =
     and_then (phase_A w params) (\<lambda>a.
     case a of
       Inl p \<Rightarrow> ret (Some p)
     | Inr (OFT_ABI, OFT_BYTECODE, envOwnerAddress) \<Rightarrow>
         phase_B w params OFT_ABI OFT_BYTECODE envOwnerAddress)"

definition phases_CDE :: "world \<Rightarrow> payload action" where
  "phases_CDE w =
     and_then (phase_C w) (\<lambda>c.
     case c of
       Some p \<Rightarrow> ret p
     | None \<Rightarrow>
         and_then (phase_D w) (\<lambda>d.
         case d of
           Some p \<Rightarrow> ret p
         | None \<Rightarrow> phase_E))"

definition deploy_handler :: "world \<Rightarrow> int deploy_params \<Rightarrow> payload action" where
  "deploy_handler w params =
     and_then (phases_AB w params) (\<lambda>b.
     case b of
       Some p \<Rightarrow> ret p
     | None \<Rightarrow> phases_CDE w)"

definition run :: "payload action \<Rightarrow> outcome \<times> state" where
  "run m = (case m initial_state of
              (Inl e, st) \<Rightarrow> (Thrown e, st)
            | (Inr p, st) \<Rightarrow> (Returned p, st))"

definition deployAndConfigure :: "world \<Rightarrow> int deploy_params \<Rightarrow> outcome \<times> state" where
  "deployAndConfigure w params = run (deploy_handler w params)"

section \<open>index.ts: the tool bridge-oft\<close>

record bridge_params =
  tokenAddress :: string
  amount :: string
  fromChain :: string
  toChain :: string
  receiverAddress :: string
  params_extraOptions :: string

text \<open>The test \<open>OFT_ABI === "ABI_PLACEHOLDER" || OFT_ABI === undefined || OFT_ABI.length === 0\<close>.\<close>

definition placeholder_abi :: "abi \<Rightarrow> bool" where
  "placeholder_abi OFT_ABI =
     (OFT_ABI = AbiString ''ABI_PLACEHOLDER''
      \<or> OFT_ABI = AbiUndefined
      \<or> (case OFT_ABI of AbiString s \<Rightarrow> length s = 0 | AbiArray xs \<Rightarrow> length xs = 0
          | AbiUndefined \<Rightarrow> False))"

definition bridge_try :: "world \<Rightarrow> bridge_params \<Rightarrow> payload action" where
  "bridge_try w params =
     and_then (readFile_parse w oftPath) (\<lambda>MyOFT.
     let OFT_ABI = abi_member MyOFT in
     if placeholder_abi OFT_ABI then
       ret (ErrorText
         ''Error: Placeholder ABI detected. Please replace OFT_ABI in layerzero-mcp.ts with your actual contract ABI to interact with existing contracts.'')
     else if fromChain params = toChain params then
       ret (ErrorText ''Error: Source and destination chains cannot be the same.'')
     else
       and_then (lift (getSigner w (fromChain params))) (\<lambda>signer.
       and_then (lift (getNetworkConfig w (fromChain params))) (\<lambda>fromNetworkConfig.
       and_then (lift (getNetworkConfig w (toChain params))) (\<lambda>toNetworkConfig.
       let amountDecimals = 18 in
       and_then (lift (parseUnits (amount params) amountDecimals)) (\<lambda>amountBigInt.
       and_then (lift (new_Contract w (tokenAddress params) OFT_ABI signer)) (\<lambda>contract.
       and_then (lift (formatAddressForLayerZero (receiverAddress params))) (\<lambda>formattedReceiverAddress.
       let sendParam =
             \<lparr>dstEid = lzEid toNetworkConfig, to = formattedReceiverAddress,
              amountLD = amountBigInt, minAmountLD = amountBigInt,
              extraOptions = (if params_extraOptions params = [] then ''0x''
                              else params_extraOptions params),
              composeMsg = ''0x'', oftCmd = ''0x''\<rparr>
       in
       and_then (contract_quoteSend w contract sendParam False) (\<lambda>(nativeFee', lzFee).
       let messagingFee = \<lparr>nativeFee = nativeFee', lzTokenFee = 0\<rparr> in
       and_then (contract_send w contract sendParam messagingFee (wallet_address w) nativeFee') (\<lambda>tx'.
       and_then (tx_wait w tx') (\<lambda>_.
       and_then (lift (formatUnits nativeFee')) (\<lambda>fee.
       ret (BridgeReceipt
              \<lparr>transactionHash = tx_hash tx', receipt_fromChain = fromChain params,
               receipt_toChain = toChain params, amountSent = amount params,
               sender = wallet_address w, receiver = receiverAddress params,
               estimatedNativeFee = fee\<rparr>))))))))))))"

definition bridge_handler :: "world \<Rightarrow> bridge_params \<Rightarrow> payload action" where
  "bridge_handler w params =
     try_catch (bridge_try w params)
       (\<lambda>err. ret (ErrorText (''Error: Failed to bridge OFT: '' @ message_or_toString err)))"

definition bridge :: "world \<Rightarrow> bridge_params \<Rightarrow> outcome \<times> state" where
  "bridge w params = run (bridge_handler w params)"

section \<open>What the calls of a run look like\<close>

text \<open>The salts handed to the factory, the parameters handed to \<open>quoteSend\<close> and \<open>send\<close>, and
  the kinds of calls, read off a list of calls.\<close>

fun deploy_salts :: "call list \<Rightarrow> string list" where
  "deploy_salts [] = []"
| "deploy_salts (Deploy c code salt # cs) = salt # deploy_salts cs"
| "deploy_salts (x # cs) = deploy_salts cs"

fun deploy_codes :: "call list \<Rightarrow> string list" where
  "deploy_codes [] = []"
| "deploy_codes (Deploy c code salt # cs) = code # deploy_codes cs"
| "deploy_codes (x # cs) = deploy_codes cs"

fun send_params :: "call list \<Rightarrow> SendParam list" where
  "send_params [] = []"
| "send_params (QuoteSend c p b # cs) = p # send_params cs"
| "send_params (Send c p fee refund val # cs) = p # send_params cs"
| "send_params (x # cs) = send_params cs"

fun is_Deploy :: "call \<Rightarrow> bool" where
  "is_Deploy (Deploy c code salt) = True"
| "is_Deploy x = False"

fun is_SetPeer :: "call \<Rightarrow> bool" where
  "is_SetPeer (SetPeer c e p) = True"
| "is_SetPeer x = False"

fun is_SetEnforcedOptions :: "call \<Rightarrow> bool" where
  "is_SetEnforcedOptions (SetEnforcedOptions c opts) = True"
| "is_SetEnforcedOptions x = False"

text \<open>The calls of the deployment phase: file reads and the three factory operations.\<close>

fun is_deployment_call :: "call \<Rightarrow> bool" where
  "is_deployment_call (ReadFile p) = True"
| "is_deployment_call (Deploy c code salt) = True"
| "is_deployment_call (Wait t) = True"
| "is_deployment_call (LastDeployedAddress c) = True"
| "is_deployment_call x = False"

section \<open>Worlds and requests used as examples\<close>

text \<open>A world in which every operation succeeds.\<close>

definition happy_world :: world where
  "happy_world =
     \<lparr>OWNER_ADDRESS = Some ''0x00000000000000000000000000000000000000aa'',
      ARBITRUM_SEPOLIA_RPC_URL = ''https://arb'',
      BASE_SEPOLIA_RPC_URL = ''https://base'',
      ARBITRUM_FACTORY_ADDRESS = Some ''0x754a2643Ce68e0e34510B1E246254f93946AE3a1'',
      BASE_FACTORY_ADDRESS = Some ''0x754a2643Ce68e0e34510B1E246254f93946AE3a1'',
      Wallet_error = None,
      wallet_address = ''0x00000000000000000000000000000000000000bb'',
      Interface_error = (\<lambda>a. None),
      encodeDeploy = (\<lambda>a args. Inr ''0x00''),
      readFile_JSON = (\<lambda>h p. Inr \<lparr>abi_member = AbiArray [''constructor''],
                                     bytecode = Some (Some ''60'')\<rparr>),
      deploy = (\<lambda>h c code s. Inr (TransactionResponse ''0x01'')),
      wait = (\<lambda>h t. Inr ()),
      lastDeployedAddress = (\<lambda>h c. Inr ''0x1111111111111111111111111111111111111111''),
      setPeer = (\<lambda>h c e p. Inr (TransactionResponse ''0x02'')),
      setEnforcedOptions = (\<lambda>h c opts. Inr (TransactionResponse ''0x03'')),
      quoteSend = (\<lambda>h c p b. Inr (1000000000000000, 0)),
      send = (\<lambda>h c p f r v. Inr (TransactionResponse ''0x04''))\<rparr>"

definition request :: "string \<Rightarrow> string \<Rightarrow> string list \<Rightarrow> int deploy_params" where
  "request n supply cs =
     \<lparr>tokenName = code_units n, tokenSymbol = code_units ''GMA'', initialTotalSupply = supply,
      decimals = 18,
      targetChains = cs, owner = None\<rparr>"

definition bridge_request :: "string \<Rightarrow> string \<Rightarrow> bridge_params" where
  "bridge_request src dst =
     \<lparr>tokenAddress = ''0x1111111111111111111111111111111111111111'', amount = ''50'',
      fromChain = src, toChain = dst,
      receiverAddress = ''0x00000000000000000000000000000000000000cc'',
      params_extraOptions = ''0x''\<rparr>"

section \<open>Invariants of statement sequences\<close>

text \<open>\<open>only_calls P m\<close>: whatever the state, \<open>m\<close> leaves the earlier calls in place and adds
  only calls that satisfy \<open>P\<close>.\<close>

definition only_calls :: "(call \<Rightarrow> bool) \<Rightarrow> 'a action \<Rightarrow> bool" where
  "only_calls P m = (\<forall>st. \<exists>cs. calls (snd (m st)) = calls st @ cs \<and> list_all P cs)"

text \<open>\<open>salted n s salt\<close>: the name \<open>n\<close>, a colon and the symbol \<open>s\<close> have UTF-8 bytes, and
  \<open>salt\<close> is their Keccak-256 digest. \<open>salt_ok n s c\<close>: a call that, if it is a deployment,
  carries such a salt.\<close>

definition salted :: "jsstring \<Rightarrow> jsstring \<Rightarrow> string \<Rightarrow> bool" where
  "salted n s salt =
     (case toUtf8Bytes (n @ code_units '':'' @ s) of
        Inl e \<Rightarrow> False
      | Inr bytes \<Rightarrow> salt = keccak256 bytes)"

fun salt_ok :: "jsstring \<Rightarrow> jsstring \<Rightarrow> call \<Rightarrow> bool" where
  "salt_ok n s (Deploy f code salt) = salted n s salt"
| "salt_ok n s c = True"

text \<open>A world whose token artifact still holds the placeholder ABI.\<close>

definition placeholder_world :: world where
  "placeholder_world =
     happy_world\<lparr>readFile_JSON := (\<lambda>h p. Inr \<lparr>abi_member = AbiString ''ABI_PLACEHOLDER'',
                                                   bytecode = Some (Some ''60'')\<rparr>)\<rparr>"

text \<open>Two states that differ at most in the log \<open>results\<close>, and two statement sequences that,
  started in such states, end in such states (\<open>log_blind_run\<close>) with the same outcome
  (\<open>log_blind\<close>).\<close>

definition same_but_log :: "state \<Rightarrow> state \<Rightarrow> bool" where
  "same_but_log st st' =
     (deployedContractsSummary st = deployedContractsSummary st'
      \<and> deployedContractsData st = deployedContractsData st'
      \<and> peeringResults st = peeringResults st'
      \<and> enforcedOptionsResults st = enforcedOptionsResults st'
      \<and> calls st = calls st')"

definition log_blind :: "'a action \<Rightarrow> 'a action \<Rightarrow> bool" where
  "log_blind m m' =
     (\<forall>st st'. same_but_log st st' \<longrightarrow>
        fst (m st) = fst (m' st') \<and> same_but_log (snd (m st)) (snd (m' st')))"

definition log_blind_run :: "'a action \<Rightarrow> 'a action \<Rightarrow> bool" where
  "log_blind_run m m' =
     (\<forall>st st'. same_but_log st st' \<longrightarrow> same_but_log (snd (m st)) (snd (m' st')))"

text \<open>A request as it arrives, before the schema has filled in the default of \<open>decimals\<close>.\<close>

definition raw_request :: "int option \<Rightarrow> int option deploy_params" where
  "raw_request d =
     \<lparr>tokenName = code_units ''Gamma'', tokenSymbol = code_units ''GMA'',
      initialTotalSupply = ''1000000'',
      decimals = d, targetChains = [''ArbitrumSepolia'', ''baseSepolia''], owner = None\<rparr>"

text \<open>The deployment phase of a request, run from the initial state: its outcome (\<open>Inr None\<close>
  when every deployment succeeded and the handler goes on) and the state it leaves.\<close>

definition deployment_phase :: "world \<Rightarrow> int deploy_params \<Rightarrow> (error + payload option) \<times> state" where
  "deployment_phase w params = phases_AB w params initial_state"

text \<open>\<open>keeps_config_logs m\<close>: \<open>m\<close> leaves \<open>peeringResults\<close> and \<open>enforcedOptionsResults\<close> as
  they are. \<open>yields Q m\<close>: a value \<open>m\<close> yields satisfies \<open>Q\<close>.\<close>

definition keeps_config_logs :: "'a action \<Rightarrow> bool" where
  "keeps_config_logs m =
     (\<forall>st. peeringResults (snd (m st)) = peeringResults st
           \<and> enforcedOptionsResults (snd (m st)) = enforcedOptionsResults st)"

definition yields :: "('a \<Rightarrow> bool) \<Rightarrow> 'a action \<Rightarrow> bool" where
  "yields Q m = (\<forall>st. case fst (m st) of Inl e \<Rightarrow> True | Inr x \<Rightarrow> Q x)"

text \<open>An early return of a phase is an error payload.\<close>

fun early_error :: "payload option \<Rightarrow> bool" where
  "early_error None = True"
| "early_error (Some p) = isError p"

text \<open>A deployment that fails on the second chain, and a peering that fails.\<close>

definition second_deploy_fails :: world where
  "second_deploy_fails =
     happy_world\<lparr>deploy := (\<lambda>h c code s. if list_ex is_Deploy h then Inl (Error ''boom'')
                                           else Inr (TransactionResponse ''0x01''))\<rparr>"















text \<open>A world whose encoder of constructor arguments prints the supply, in decimal digits
  (an even number of them, so that they read as bytes).\<close>

definition printing_world :: world where
  "printing_world =
     happy_world\<lparr>encodeDeploy := (\<lambda>a args. case args of CtorArgs n s supply endpoint own \<Rightarrow>
        (let digits = decimal_of_int supply
         in Inr (''0x'' @ (if even (length digits) then digits else CHR ''0'' # digits))))\<rparr>"


section \<open>Properties of the byte and hexadecimal functions\<close>

lemma and15: "((x::byte) AND 0x0f) = take_bit 4 x" by (simp add: take_bit_eq_mask mask_eq_exp_minus_1)
lemma lb: "unat ((v::byte) AND 0x0f) = unat v mod 16"
  unfolding and15 by (simp add: take_bit_eq_mod unat_mod_distrib)
lemma d240: "drop_bit 4 (240::byte) = 15" by simp
lemma hb: "unat (drop_bit 4 ((v::byte) AND 0xf0)) = unat v div 16"
proof -
  have "drop_bit 4 (v AND 0xf0) = take_bit 4 (drop_bit 4 v)"
    unfolding drop_bit_and d240 and15 ..
  moreover have "unat v < 256" using unsigned_less[of v] by simp
  ultimately show ?thesis
    by (simp add: take_bit_eq_mod drop_bit_eq_div unat_mod_distrib unat_div_distrib)
qed
lemma hex_of_byte_nat:
  "hex_of_byte v = [HexCharacters ! (unat v div 16), HexCharacters ! (unat v mod 16)]"
  unfolding hex_of_byte_def hb lb ..

lemma hex_digits_unfold:
  "hex_digits = [(CHR ''0'', 0), (CHR ''1'', 1), (CHR ''2'', 2), (CHR ''3'', 3), (CHR ''4'', 4),
     (CHR ''5'', 5), (CHR ''6'', 6), (CHR ''7'', 7), (CHR ''8'', 8), (CHR ''9'', 9),
     (CHR ''a'', 10), (CHR ''b'', 11), (CHR ''c'', 12), (CHR ''d'', 13), (CHR ''e'', 14), (CHR ''f'', 15),
     (CHR ''A'', 10), (CHR ''B'', 11), (CHR ''C'', 12), (CHR ''D'', 13), (CHR ''E'', 14), (CHR ''F'', 15)]"
  by (simp add: hex_digits_def upt_rec[of _ "numeral _"])

lemma hex_digit_val_cases:
  "hex_digit_val c = Some h \<Longrightarrow> (c, h) \<in> set hex_digits"
  unfolding hex_digit_val_def by (rule map_of_SomeD)

lemma HexCharacters_nth:
  "HexCharacters ! 0 = CHR ''0''" "HexCharacters ! 1 = CHR ''1''" "HexCharacters ! 2 = CHR ''2''"
  "HexCharacters ! 3 = CHR ''3''" "HexCharacters ! 4 = CHR ''4''" "HexCharacters ! 5 = CHR ''5''"
  "HexCharacters ! 6 = CHR ''6''" "HexCharacters ! 7 = CHR ''7''" "HexCharacters ! 8 = CHR ''8''"
  "HexCharacters ! 9 = CHR ''9''" "HexCharacters ! 10 = CHR ''a''" "HexCharacters ! 11 = CHR ''b''"
  "HexCharacters ! 12 = CHR ''c''" "HexCharacters ! 13 = CHR ''d''" "HexCharacters ! 14 = CHR ''e''"
  "HexCharacters ! 15 = CHR ''f''"
  by (simp_all add: HexCharacters_def)

lemma lower_hex_simps:
  "lower_hex (CHR ''0'') = CHR ''0''" "lower_hex (CHR ''1'') = CHR ''1''"
  "lower_hex (CHR ''2'') = CHR ''2''" "lower_hex (CHR ''3'') = CHR ''3''"
  "lower_hex (CHR ''4'') = CHR ''4''" "lower_hex (CHR ''5'') = CHR ''5''"
  "lower_hex (CHR ''6'') = CHR ''6''" "lower_hex (CHR ''7'') = CHR ''7''"
  "lower_hex (CHR ''8'') = CHR ''8''" "lower_hex (CHR ''9'') = CHR ''9''"
  "lower_hex (CHR ''a'') = CHR ''a''" "lower_hex (CHR ''b'') = CHR ''b''"
  "lower_hex (CHR ''c'') = CHR ''c''" "lower_hex (CHR ''d'') = CHR ''d''"
  "lower_hex (CHR ''e'') = CHR ''e''" "lower_hex (CHR ''f'') = CHR ''f''"
  "lower_hex (CHR ''A'') = CHR ''a''" "lower_hex (CHR ''B'') = CHR ''b''"
  "lower_hex (CHR ''C'') = CHR ''c''" "lower_hex (CHR ''D'') = CHR ''d''"
  "lower_hex (CHR ''E'') = CHR ''e''" "lower_hex (CHR ''F'') = CHR ''f''"
  by (simp_all add: lower_hex_def)

lemma hex_char_lower: "hex_digit_val c = Some h \<Longrightarrow> HexCharacters ! h = lower_hex c"
  apply (drule hex_digit_val_cases)
  apply (simp only: hex_digits_unfold set_simps insert_iff empty_iff Pair_inject prod.inject)
  apply (elim disjE conjE FalseE)
  apply (simp_all only: HexCharacters_nth lower_hex_simps)
  done

lemma hex_digit_val_table:
  "hex_digit_val (CHR ''0'') = Some 0" "hex_digit_val (CHR ''1'') = Some 1"
  "hex_digit_val (CHR ''2'') = Some 2" "hex_digit_val (CHR ''3'') = Some 3"
  "hex_digit_val (CHR ''4'') = Some 4" "hex_digit_val (CHR ''5'') = Some 5"
  "hex_digit_val (CHR ''6'') = Some 6" "hex_digit_val (CHR ''7'') = Some 7"
  "hex_digit_val (CHR ''8'') = Some 8" "hex_digit_val (CHR ''9'') = Some 9"
  "hex_digit_val (CHR ''a'') = Some 10" "hex_digit_val (CHR ''b'') = Some 11"
  "hex_digit_val (CHR ''c'') = Some 12" "hex_digit_val (CHR ''d'') = Some 13"
  "hex_digit_val (CHR ''e'') = Some 14" "hex_digit_val (CHR ''f'') = Some 15"
  "hex_digit_val (CHR ''A'') = Some 10" "hex_digit_val (CHR ''B'') = Some 11"
  "hex_digit_val (CHR ''C'') = Some 12" "hex_digit_val (CHR ''D'') = Some 13"
  "hex_digit_val (CHR ''E'') = Some 14" "hex_digit_val (CHR ''F'') = Some 15"
  by (simp_all add: hex_digit_val_def hex_digits_unfold)

lemma hdv:
  assumes "n < 16"
  shows "hex_digit_val (HexCharacters ! n) = Some n"
proof -
  have "n \<in> {0, 1, 2, 3, 4, 5, 6, 7} \<or> n \<in> {8, 9, 10, 11, 12, 13, 14, 15}"
    using assms by (simp; arith)
  then show ?thesis
    by (elim disjE insertE emptyE) (simp_all only: HexCharacters_nth hex_digit_val_table)
qed

lemma hex_digit_val_less: "hex_digit_val c = Some h \<Longrightarrow> h < 16"
  apply (drule hex_digit_val_cases)
  apply (simp only: hex_digits_unfold set_simps insert_iff empty_iff Pair_inject prod.inject)
  apply (elim disjE conjE FalseE)
  apply simp_all
  done

lemma hex_of_byte_pair:
  assumes "hex_digit_val c = Some h" "hex_digit_val d = Some l"
  shows "hex_of_byte (16 * of_nat h + of_nat l) = [lower_hex c, lower_hex d]"
proof -
  have h: "h < 16" and l: "l < 16" using assms hex_digit_val_less by auto
  then have lt: "16 * h + l < 256" by simp
  have "unat (of_nat (16 * h + l) :: byte) = (16 * h + l) mod 2 ^ LENGTH(8)"
    by (simp only: unat_of_nat)
  then have u: "unat (of_nat (16 * h + l) :: byte) = 16 * h + l" using lt by simp
  have "hex_of_byte (of_nat (16 * h + l)) = [lower_hex c, lower_hex d]"
    unfolding hex_of_byte_nat u using h l assms by (simp add: hex_char_lower)
  then show ?thesis by simp
qed

lemma parse_hex_pairs_print:
  "parse_hex_pairs s = Some bs \<Longrightarrow> concat (map hex_of_byte bs) = map lower_hex s"
  by (induction s arbitrary: bs rule: parse_hex_pairs.induct)
     (auto split: option.splits simp: hex_of_byte_pair)

lemma parse_hex_pairs_length:
  "parse_hex_pairs s = Some bs \<Longrightarrow> length s = 2 * length bs"
  by (induction s arbitrary: bs rule: parse_hex_pairs.induct) (auto split: option.splits)

lemma parse_hex_pairs_Some_iff:
  "(\<exists>bs. parse_hex_pairs s = Some bs) \<longleftrightarrow> even (length s) \<and> list_all is_hex_digit s"
  by (induction s rule: parse_hex_pairs.induct) (auto simp: is_hex_digit_def split: option.splits)

lemma getBytes_Inr_iff:
  "(\<exists>bs. getBytes v = Inr bs) \<longleftrightarrow> is_BytesLike v"
proof (cases v)
  case Nil
  then show ?thesis by (simp add: getBytes_def is_BytesLike_def)
next
  case (Cons z r)
  show ?thesis
  proof (cases r)
    case Nil
    then show ?thesis using Cons by (simp add: getBytes_def is_BytesLike_def)
  next
    case (Cons x rest)
    have "(\<exists>bs. getBytes v = Inr bs) \<longleftrightarrow>
          z = CHR ''0'' \<and> (x = CHR ''x'' \<or> x = CHR ''X'') \<and> (\<exists>bs. parse_hex_pairs rest = Some bs)"
      using \<open>v = z # r\<close> Cons by (auto simp: getBytes_def split: option.splits)
    then show ?thesis using \<open>v = z # r\<close> Cons
      by (auto simp: parse_hex_pairs_Some_iff is_BytesLike_def)
  qed
qed

lemma getBytes_Inl:
  "getBytes v = Inl e \<Longrightarrow> e = EthersError INVALID_ARGUMENT ''invalid BytesLike value''"
  by (auto simp: getBytes_def split: list.splits if_splits option.splits)

lemma getBytes_shape:
  "getBytes v = Inr bs \<Longrightarrow> length v = 2 + 2 * length bs \<and> hexlify bs = ''0x'' @ map lower_hex (drop 2 v)"
  by (auto simp: getBytes_def hexlify_def parse_hex_pairs_print parse_hex_pairs_length
           split: list.splits if_splits option.splits)

lemma parse_hex_of_byte:
  "parse_hex_pairs (hex_of_byte v @ rest) = map_option ((#) v) (parse_hex_pairs rest)"
proof -
  have "unat v < 256" using unsigned_less[of v] by simp
  then have a: "unat v div 16 < 16" and b: "unat v mod 16 < 16" by simp_all
  have c: "(of_nat (16 * (unat v div 16) + unat v mod 16) :: byte) = v"
    by simp
  show ?thesis
    unfolding hex_of_byte_nat
    by (cases "parse_hex_pairs rest") (simp_all add: hdv[OF a] hdv[OF b] c)
qed

lemma parse_hex_concat: "parse_hex_pairs (concat (map hex_of_byte bs)) = Some bs"
  by (induction bs) (simp_all add: parse_hex_of_byte)

lemma getBytes_hexlify: "getBytes (hexlify bs) = Inr bs"
  by (simp add: getBytes_def hexlify_def parse_hex_concat)

lemma length_hexlify: "length (hexlify bs) = 2 + 2 * length bs"
  by (induction bs) (simp_all add: hexlify_def hex_of_byte_def)

lemma hexlify_replicate_0: "hexlify (replicate n 0 @ bs) = ''0x'' @ replicate (2 * n) (CHR ''0'') @ drop 2 (hexlify bs)"
  by (induction n) (simp_all add: hexlify_def hex_of_byte_def HexCharacters_def)

lemma well_formed_address_BytesLike:
  "well_formed_address a \<Longrightarrow> is_BytesLike a \<and> length a = 42"
  by (auto simp: well_formed_address_def is_BytesLike_def nth_Cons'
           dest!: arg_cong[where f="\<lambda>s. (s ! 0, s ! 1)"])

lemma formatAddressForLayerZero_chars:
  "formatAddressForLayerZero a =
     (if \<not> is_BytesLike a then Inl (EthersError INVALID_ARGUMENT ''invalid BytesLike value'')
      else if length a > 66 then Inl (EthersError BUFFER_OVERRUN ''padding exceeds data length'')
      else Inr (''0x'' @ replicate (66 - length a) (CHR ''0'') @ map lower_hex (drop 2 a)))"
proof (cases "getBytes a")
  case (Inl e)
  then have "\<not> is_BytesLike a" using getBytes_Inr_iff[of a] by auto
  then show ?thesis using Inl getBytes_Inl[OF Inl]
    by (simp add: formatAddressForLayerZero_def zeroPadValue_def)
next
  case (Inr bs)
  then have b: "is_BytesLike a" using getBytes_Inr_iff[of a] by auto
  note sh = getBytes_shape[OF Inr]
  have "2 * (32 - length bs) = 66 - length a" using sh by simp
  then show ?thesis using Inr b sh
    by (auto simp add: formatAddressForLayerZero_def zeroPadValue_def hexlify_replicate_0)
qed

section \<open>The address codec\<close>

text \<open>
  Claim C8. On every well-formed 20-byte account address \<open>formatAddressForLayerZero\<close>
  returns a value of exactly 32 bytes; its first 12 bytes are zero and its last 20 bytes are
  the bytes of the address.
\<close>

theorem formatAddressForLayerZero_bytes:
  assumes "well_formed_address a"
  shows "\<exists>r bs. formatAddressForLayerZero a = Inr r \<and> getBytes r = Inr bs \<and> length bs = 32
           \<and> take 12 bs = replicate 12 0 \<and> getBytes a = Inr (drop 12 bs)
           \<and> length (drop 12 bs) = 20"
proof -
  have "is_BytesLike a" using assms well_formed_address_BytesLike by blast
  then obtain ab where ab: "getBytes a = Inr ab" using getBytes_Inr_iff by blast
  then have len: "length ab = 20" using getBytes_shape[OF ab] assms
    by (simp add: well_formed_address_def)
  have "formatAddressForLayerZero a = Inr (hexlify (replicate 12 0 @ ab))"
    by (simp add: formatAddressForLayerZero_def zeroPadValue_def ab len)
  then show ?thesis using ab len by (simp add: getBytes_hexlify)
qed

lemma lzEndpoint_well_formed:
  "well_formed_address ''0x6EDCE65403992e310A62460808c4b910D972f10f''"
  by (simp add: well_formed_address_def is_hex_digit_def hex_digit_val_table)

theorem formatAddressForLayerZero_bytes_witness:
  "well_formed_address ''0x6EDCE65403992e310A62460808c4b910D972f10f''
   \<and> (\<exists>r bs. formatAddressForLayerZero ''0x6EDCE65403992e310A62460808c4b910D972f10f'' = Inr r
         \<and> getBytes r = Inr bs \<and> length bs = 32 \<and> take 12 bs = replicate 12 0
         \<and> getBytes ''0x6EDCE65403992e310A62460808c4b910D972f10f'' = Inr (drop 12 bs)
         \<and> length (drop 12 bs) = 20)"
  using lzEndpoint_well_formed formatAddressForLayerZero_bytes [OF lzEndpoint_well_formed]
  by (intro conjI)

text \<open>
  Claim C9, as stated, asks that every input that is not a well-formed 20-byte address be
  rejected. The function checks no such thing: it pads any hexadecimal byte string of at
  most 32 bytes. A two-byte value is padded, not refused.
\<close>

theorem formatAddressForLayerZero_accepts_short_value:
  "\<not> well_formed_address ''0x1234''
   \<and> formatAddressForLayerZero ''0x1234''
       = Inr ''0x0000000000000000000000000000000000000000000000000000000000001234''"
proof -
  have b: "is_BytesLike ''0x1234''"
    by (simp add: is_BytesLike_def is_hex_digit_def hex_digit_val_table)
  have r: "replicate 60 (CHR ''0'') = ''000000000000000000000000000000000000000000000000000000000000''"
    by (simp add: numeral_eq_Suc)
  have "formatAddressForLayerZero ''0x1234''
       = Inr ''0x0000000000000000000000000000000000000000000000000000000000001234''"
    unfolding formatAddressForLayerZero_chars using b by (simp add: r lower_hex_simps)
  then show ?thesis by (simp add: well_formed_address_def)
qed

text \<open>
  Claim C9, amended. \<open>formatAddressForLayerZero\<close> is a total function of its argument alone.
  It succeeds exactly on the strings made of \<open>0x\<close> (or \<open>0X\<close>) and an even number of at most
  64 hexadecimal digits, among them every well-formed 20-byte address, and returns \<open>0x\<close>,
  zeros up to 64 digits, and the digits in lower case. On every other string it fails, with
  the library's invalid-argument error when the string is not such a hexadecimal string and
  with its buffer-overrun error when the string holds more than 32 bytes.
\<close>

theorem formatAddressForLayerZero_total:
  "formatAddressForLayerZero a =
     (if \<not> is_BytesLike a then Inl (EthersError INVALID_ARGUMENT ''invalid BytesLike value'')
      else if length a > 66 then Inl (EthersError BUFFER_OVERRUN ''padding exceeds data length'')
      else Inr (''0x'' @ replicate (66 - length a) (CHR ''0'') @ map lower_hex (drop 2 a)))
   \<and> (well_formed_address a \<longrightarrow> is_BytesLike a \<and> length a \<le> 66)"
  using formatAddressForLayerZero_chars [of a] well_formed_address_BytesLike [of a] by simp

theorem formatAddressForLayerZero_total_witness:
  "well_formed_address ''0x6EDCE65403992e310A62460808c4b910D972f10f''
   \<and> is_BytesLike ''0x6EDCE65403992e310A62460808c4b910D972f10f''
   \<and> formatAddressForLayerZero ''0x6EDCE65403992e310A62460808c4b910D972f10f''
       = Inr ''0x0000000000000000000000006edce65403992e310a62460808c4b910d972f10f''"
proof -
  note t = formatAddressForLayerZero_total [of "''0x6EDCE65403992e310A62460808c4b910D972f10f''"]
  have b: "is_BytesLike ''0x6EDCE65403992e310A62460808c4b910D972f10f''"
    using t lzEndpoint_well_formed by blast
  have r: "replicate 24 (CHR ''0'') = ''000000000000000000000000''"
    by (simp add: numeral_eq_Suc)
  have "formatAddressForLayerZero ''0x6EDCE65403992e310A62460808c4b910D972f10f''
       = Inr ''0x0000000000000000000000006edce65403992e310a62460808c4b910d972f10f''"
    using b t by (simp add: r lower_hex_simps)
  then show ?thesis using b lzEndpoint_well_formed by simp
qed

section \<open>The length of the digest\<close>


lemma length_keccak_round: "length (keccak_round a rc) = 25"
  by (simp add: keccak_round_def keccak_chi_def Let_def)

lemma length_foldl_keccak_round: "length a = 25 \<Longrightarrow> length (foldl keccak_round a rcs) = 25"
  by (induction rcs arbitrary: a) (simp_all add: length_keccak_round)

lemma length_keccak_absorb: "length a = 25 \<Longrightarrow> length (keccak_absorb a block) = 25"
  unfolding keccak_absorb_def keccak_f_def
  by (rule length_foldl_keccak_round) (simp add: numeral_eq_Suc)

lemma length_keccak_blocks: "length a = 25 \<Longrightarrow> length (keccak_blocks a bs) = 25"
proof (induction a bs rule: keccak_blocks.induct)
  case (1 a bs)
  show ?case
  proof (cases "bs = []")
    case True
    then show ?thesis using 1 by (simp add: keccak_blocks.simps)
  next
    case False
    then show ?thesis using 1 by (subst keccak_blocks.simps) (simp add: length_keccak_absorb)
  qed
qed

lemma length_concat_bytes_of_lane: "length (concat (map bytes_of_lane ls)) = 8 * length ls"
  by (induction ls) (simp_all add: bytes_of_lane_def)

lemma length_keccak256_bytes: "length (keccak256_bytes m) = 32"
  by (simp add: keccak256_bytes_def length_concat_bytes_of_lane length_keccak_blocks)

lemma getBytes_keccak256: "getBytes (keccak256 m) = Inr (keccak256_bytes m)"
  by (simp add: keccak256_def getBytes_hexlify)

section \<open>Properties of the fixed-point parser\<close>


lemma pad_decimal_shape:
  "\<exists>k. pad_decimal d n = d @ replicate k (CHR ''0'') \<and> length (pad_decimal d n) \<ge> n
       \<and> (length d \<ge> n \<longrightarrow> k = 0)"
proof (induction d n rule: pad_decimal.induct)
  case (1 decimal decimals)
  show ?case
  proof (cases "length decimal < decimals")
    case True
    then obtain k where k: "pad_decimal (decimal @ ''0000'') decimals = (decimal @ ''0000'') @ replicate k (CHR ''0'')"
        "length (pad_decimal (decimal @ ''0000'') decimals) \<ge> decimals"
      using 1 by blast
    have "''0000'' @ replicate k (CHR ''0'') = replicate (4 + k) (CHR ''0'')"
      by (simp add: numeral_eq_Suc)
    then have "pad_decimal decimal decimals = decimal @ replicate (4 + k) (CHR ''0'')"
      using True k(1) by (subst pad_decimal.simps) simp
    moreover have "length (pad_decimal decimal decimals) \<ge> decimals"
      using True k(2) by (subst pad_decimal.simps) simp
    ultimately show ?thesis using True by auto
  next
    case False
    then have "pad_decimal decimal decimals = decimal" by (subst pad_decimal.simps) simp
    then show ?thesis using False by simp
  qed
qed

lemma foldl_digits_shift:
  "foldl (\<lambda>a c. 10 * a + digit_val c) a ys
     = a * 10 ^ length ys + foldl (\<lambda>a c. 10 * a + digit_val c) 0 ys"
proof (induction ys rule: rev_induct)
  case Nil
  then show ?case by simp
next
  case (snoc y ys)
  have "foldl (\<lambda>a c. 10 * a + digit_val c) a (ys @ [y])
      = 10 * foldl (\<lambda>a c. 10 * a + digit_val c) a ys + digit_val y" by simp
  also have "\<dots> = 10 * (a * 10 ^ length ys + foldl (\<lambda>a c. 10 * a + digit_val c) 0 ys) + digit_val y"
    by (simp only: snoc)
  also have "\<dots> = a * 10 ^ length (ys @ [y]) + foldl (\<lambda>a c. 10 * a + digit_val c) 0 (ys @ [y])"
    by (simp add: distrib_left mult.assoc mult.left_commute)
  finally show ?case .
qed

lemma nat_of_digits_append:
  "nat_of_digits (xs @ ys) = nat_of_digits xs * 10 ^ length ys + nat_of_digits ys"
  unfolding nat_of_digits_def foldl_append by (rule foldl_digits_shift)

lemma nat_of_digits_zeros: "nat_of_digits (replicate k (CHR ''0'')) = 0"
  by (induction k) (simp_all add: nat_of_digits_def digit_val_def)

lemma take_drop_pad:
  assumes "length fs \<le> n"
  shows "take n (pad_decimal fs n) = fs @ replicate (n - length fs) (CHR ''0'')"
    and "list_all (\<lambda>c. c = CHR ''0'') (drop n (pad_decimal fs n))"
proof -
  obtain k where k: "pad_decimal fs n = fs @ replicate k (CHR ''0'')" "length (pad_decimal fs n) \<ge> n"
    using pad_decimal_shape[of fs n] by blast
  then have "n - length fs \<le> k" by simp
  then show "take n (pad_decimal fs n) = fs @ replicate (n - length fs) (CHR ''0'')"
    using assms k(1) by (simp add: min_def)
  show "list_all (\<lambda>c. c = CHR ''0'') (drop n (pad_decimal fs n))"
    using assms k(1) by (simp add: list_all_iff)
qed

lemma match_fixed_digits:
  assumes "list_all is_digit ws" "ws \<noteq> []"
  shows "match_fixed ws = Some (False, ws, [])"
    and "list_all is_digit fs \<Longrightarrow> match_fixed (ws @ ''.'' @ fs) = Some (False, ws, fs)"
proof -
  obtain c r where ws: "ws = c # r" using assms(2) by (cases ws) auto
  then have c: "is_digit c" using assms(1) by simp
  then have nm: "c \<noteq> CHR ''-''" by (auto simp: is_digit_def)
  have nd: "\<not> is_digit (CHR ''.'')" by (simp add: is_digit_def)
  have a: "\<forall>x \<in> set ws. is_digit x" using assms(1) by (simp add: list_all_iff)
  have t1: "takeWhile is_digit ws = ws" "dropWhile is_digit ws = []" using a by simp_all
  have t2: "takeWhile is_digit (ws @ ''.'' @ fs) = ws" "dropWhile is_digit (ws @ ''.'' @ fs) = ''.'' @ fs"
    using a nd by (simp_all add: takeWhile_append2 dropWhile_append2)
  show "match_fixed ws = Some (False, ws, [])"
    using t1 nm unfolding match_fixed_def by (simp add: ws)
  have "(case ws @ ''.'' @ fs of [] \<Rightarrow> (False, ws @ ''.'' @ fs)
         | c # r \<Rightarrow> if c = CHR ''-'' then (True, r) else (False, ws @ ''.'' @ fs)) = (False, ws @ ''.'' @ fs)"
    using nm by (simp add: ws)
  then show "list_all is_digit fs \<Longrightarrow> match_fixed (ws @ ''.'' @ fs) = Some (False, ws, fs)"
    unfolding match_fixed_def using t2 by simp
qed

lemma parseUnits_fixed_point:
  assumes "list_all is_digit ws" "ws \<noteq> []" "list_all is_digit fs" "length fs \<le> n" "n \<le> 80"
    and "int (nat_of_digits ws * 10 ^ n + nat_of_digits fs * 10 ^ (n - length fs)) < 2 ^ 511"
  shows "parseUnits (ws @ ''.'' @ fs) n
         = Inr (int (nat_of_digits ws * 10 ^ n + nat_of_digits fs * 10 ^ (n - length fs)))"
proof -
  have v: "nat_of_digits (ws @ take n (pad_decimal fs n))
         = nat_of_digits ws * 10 ^ n + nat_of_digits fs * 10 ^ (n - length fs)"
    using assms(4)
    by (simp add: take_drop_pad(1) nat_of_digits_append nat_of_digits_zeros)
  have z: "list_all (\<lambda>c. c = CHR ''0'') (drop n (pad_decimal fs n))"
    using take_drop_pad(2)[OF assms(4)] .
  have neg: "- (2 ^ 511) \<le> int (nat_of_digits ws * 10 ^ n + nat_of_digits fs * 10 ^ (n - length fs))"
    by (rule order_trans[of _ 0]) simp_all
  show ?thesis
    unfolding parseUnits_def match_fixed_digits(2)[OF assms(1-3)]
    using assms(2,5,6) z neg by (simp add: v Let_def)
qed

lemma parseUnits_whole:
  assumes "list_all is_digit ws" "ws \<noteq> []" "n \<le> 80"
    and "int (nat_of_digits ws * 10 ^ n) < 2 ^ 511"
  shows "parseUnits ws n = Inr (int (nat_of_digits ws * 10 ^ n))"
proof -
  have v: "nat_of_digits (ws @ take n (pad_decimal [] n)) = nat_of_digits ws * 10 ^ n"
    using take_drop_pad(1)[of "[]" n]
    by (simp add: nat_of_digits_append nat_of_digits_zeros)
  have z: "list_all (\<lambda>c. c = CHR ''0'') (drop n (pad_decimal [] n))"
    using take_drop_pad(2)[of "[]" n] by simp
  have neg: "- (2 ^ 511) \<le> int (nat_of_digits ws * 10 ^ n)"
    by (rule order_trans[of _ 0]) simp_all
  show ?thesis
    unfolding parseUnits_def match_fixed_digits(1)[OF assms(1,2)]
    using assms(2,3,4) z neg by (simp add: v Let_def)
qed

section \<open>Code units and UTF-8\<close>

lemma unat_code_unit: "unat (of_nat (of_char c) :: code_unit) = of_char c"
proof -
  have "(of_char c :: nat) < 256" by (rule nat_of_char_less_256)
  then have "(of_char c :: nat) < 65536" by (rule less_trans) simp
  then show ?thesis by (simp add: unat_of_nat)
qed

lemma unat_80: "unat (0x80 :: code_unit) = 128"
  by simp

lemma code_unit_small:
  assumes "(of_char c :: nat) < 128"
  shows "(of_nat (of_char c) :: code_unit) < 0x80"
  unfolding word_less_nat_alt unat_code_unit unat_80 using assms .

lemma ucast_code_unit: "(ucast (of_nat (of_char c) :: code_unit) :: byte) = of_nat (of_char c)"
proof -
  have "(ucast (of_nat (of_char c) :: code_unit) :: byte) = of_nat (unat (of_nat (of_char c) :: code_unit))"
    by (simp only: of_nat_unat)
  then show ?thesis by (simp only: unat_code_unit)
qed

lemma code_units_append: "code_units (a @ b) = code_units a @ code_units b"
  by (simp add: code_units_def)

lemma code_units_join: "code_units a @ code_units b = code_units (a @ b)"
  "code_units a @ code_units b @ l = code_units (a @ b) @ l"
  by (simp_all add: code_units_def)

lemma code_unit_inj: "(of_nat (of_char c) :: code_unit) = of_nat (of_char d) \<longleftrightarrow> c = d"
proof
  assume "(of_nat (of_char c) :: code_unit) = of_nat (of_char d)"
  then have "unat (of_nat (of_char c) :: code_unit) = unat (of_nat (of_char d) :: code_unit)"
    by (rule arg_cong)
  then have "(of_char c :: nat) = of_char d" by (simp only: unat_code_unit)
  then show "c = d" by simp
qed simp

lemma code_units_eq: "code_units a = code_units b \<longleftrightarrow> a = b"
  unfolding code_units_def
  by (rule inj_map_eq_map) (simp add: inj_on_def code_unit_inj)

lemma code_units_take: "take n (code_units a) = code_units (take n a)"
  by (simp add: code_units_def take_map)

lemma length_code_units: "length (code_units a) = length a"
  by (simp add: code_units_def)

lemma code_units_Nil: "code_units a = [] \<longleftrightarrow> a = []"
  by (simp add: code_units_def)

lemma includes_str_code_units: "includes_str (code_units a) (code_units b) = includes_str a b"
proof (induction a)
  case Nil
  then show ?case by (simp add: code_units_def)
next
  case (Cons c a)
  have t: "take (length (code_units b)) (code_units (c # a)) = code_units b
          \<longleftrightarrow> take (length b) (c # a) = b"
    by (simp only: code_units_take code_units_eq length_code_units)
  have "code_units (c # a) = of_nat (of_char c) # code_units a" by (simp add: code_units_def)
  then show ?case using Cons t by (simp del: take_Suc_Cons)
qed

text \<open>On code units below \<open>0x80\<close> the encoding is the string itself, byte by byte.\<close>

lemma toUtf8Bytes_ascii_units:
  "list_all (\<lambda>c. c < 0x80) s \<Longrightarrow> toUtf8Bytes s = Inr (map ucast s)"
  by (induction s rule: toUtf8Bytes.induct) (simp_all add: utf8_push_def)

lemma toUtf8Bytes_ascii:
  assumes "list_all (\<lambda>c. (of_char c :: nat) < 128) s"
  shows "toUtf8Bytes (code_units s) = Inr (map (\<lambda>c. of_nat (of_char c)) s)"
proof -
  have "list_all (\<lambda>c. c < 0x80) (code_units s)"
    using assms code_unit_small by (simp add: code_units_def list_all_iff)
  then have "toUtf8Bytes (code_units s) = Inr (map ucast (code_units s))"
    by (rule toUtf8Bytes_ascii_units)
  also have "map ucast (code_units s) = map (\<lambda>c. of_nat (of_char c) :: byte) s"
    by (simp add: code_units_def ucast_code_unit)
  finally show ?thesis .
qed

lemma toUtf8Bytes_examples:
  "toUtf8Bytes [0x24, 0xE9, 0x20AC, 0xD83D, 0xDE00, 0xDC00]
     = Inr [0x24, 0xc3, 0xa9, 0xe2, 0x82, 0xac, 0xf0, 0x9f, 0x98, 0x80, 0xed, 0xb0, 0x80]"
  "toUtf8Bytes [0x47, 0xD83D] = Inl (EthersError INVALID_ARGUMENT ''invalid surrogate pair'')"
  "toUtf8Bytes [0xD83D, 0x47] = Inl (EthersError INVALID_ARGUMENT ''invalid surrogate pair'')"
  by (simp_all add: utf8_push_def)

section \<open>Evaluation of Keccak-256\<close>

text \<open>A rotation of a lane as two shifts, and the three steps of a round on a state given
  lane by lane.\<close>

lemma word_rotl_lane:
  fixes w :: lane
  assumes "n < 64"
  shows "word_rotl n w = push_bit n w OR drop_bit (64 - n) w"
proof (rule bit_word_eqI)
  fix k assume "k < LENGTH(64)"
  then have k: "k < 64" by simp
  show "bit (word_rotl n w) k = bit (push_bit n w OR drop_bit (64 - n) w) k"
  proof (cases "n \<le> k")
    case True
    then have "(k + (64 - n)) mod 64 = k - n" using k assms
      by (simp add: mod_if)
    moreover have "\<not> bit w (64 - n + k)" using True
      by (simp add: bit_word_iff_drop_bit_and [where ?'a = 64] bit_imp_le_length)
    ultimately show ?thesis using k assms True
      by (simp add: bit_word_rotl_iff bit_or_iff bit_push_bit_iff bit_drop_bit_eq)
  next
    case False
    then have "k + (64 - n) < 64" using assms by arith
    then have "(k + (64 - n)) mod 64 = 64 - n + k" by (simp add: add.commute)
    then show ?thesis using k assms False
      by (simp add: bit_word_rotl_iff bit_or_iff bit_push_bit_iff bit_drop_bit_eq)
  qed
qed

lemma keccak_theta_lanes:
  assumes "c0 = a0 XOR a5 XOR a10 XOR a15 XOR a20" "c1 = a1 XOR a6 XOR a11 XOR a16 XOR a21"
    "c2 = a2 XOR a7 XOR a12 XOR a17 XOR a22" "c3 = a3 XOR a8 XOR a13 XOR a18 XOR a23"
    "c4 = a4 XOR a9 XOR a14 XOR a19 XOR a24"
    "d0 = c4 XOR word_rotl 1 c1" "d1 = c0 XOR word_rotl 1 c2" "d2 = c1 XOR word_rotl 1 c3"
    "d3 = c2 XOR word_rotl 1 c4" "d4 = c3 XOR word_rotl 1 c0"
  shows "keccak_theta
     [a0, a1, a2, a3, a4, a5, a6, a7, a8, a9, a10, a11, a12,
      a13, a14, a15, a16, a17, a18, a19, a20, a21, a22, a23, a24]
   = [a0 XOR d0, a1 XOR d1, a2 XOR d2, a3 XOR d3, a4 XOR d4,
      a5 XOR d0, a6 XOR d1, a7 XOR d2, a8 XOR d3, a9 XOR d4,
      a10 XOR d0, a11 XOR d1, a12 XOR d2, a13 XOR d3, a14 XOR d4,
      a15 XOR d0, a16 XOR d1, a17 XOR d2, a18 XOR d3, a19 XOR d4,
      a20 XOR d0, a21 XOR d1, a22 XOR d2, a23 XOR d3, a24 XOR d4]"
  unfolding assms by (simp add: keccak_theta_def Let_def upt_rec)

lemma keccak_rho_pi_lanes:
  "keccak_rho_pi
     [a0, a1, a2, a3, a4, a5, a6, a7, a8, a9, a10, a11, a12,
     a13, a14, a15, a16, a17, a18, a19, a20, a21, a22, a23, a24]
   = [word_rotl 0 a0, word_rotl 44 a6, word_rotl 43 a12, word_rotl 21 a18, word_rotl 14 a24,
     word_rotl 28 a3, word_rotl 20 a9, word_rotl 3 a10, word_rotl 45 a16, word_rotl 61 a22,
     word_rotl 1 a1, word_rotl 6 a7, word_rotl 25 a13, word_rotl 8 a19, word_rotl 18 a20,
     word_rotl 27 a4, word_rotl 36 a5, word_rotl 10 a11, word_rotl 15 a17, word_rotl 56 a23,
     word_rotl 62 a2, word_rotl 55 a8, word_rotl 39 a14, word_rotl 41 a15, word_rotl 2 a21]"
  by (simp add: keccak_rho_pi_def keccak_rot_def Let_def upt_rec)

lemma keccak_chi_lanes:
  "keccak_chi
     [a0, a1, a2, a3, a4, a5, a6, a7, a8, a9, a10, a11, a12,
     a13, a14, a15, a16, a17, a18, a19, a20, a21, a22, a23, a24]
   = [a0 XOR (NOT a1 AND a2), a1 XOR (NOT a2 AND a3), a2 XOR (NOT a3 AND a4),
     a3 XOR (NOT a4 AND a0), a4 XOR (NOT a0 AND a1), a5 XOR (NOT a6 AND a7),
     a6 XOR (NOT a7 AND a8), a7 XOR (NOT a8 AND a9), a8 XOR (NOT a9 AND a5),
     a9 XOR (NOT a5 AND a6), a10 XOR (NOT a11 AND a12), a11 XOR (NOT a12 AND a13),
     a12 XOR (NOT a13 AND a14), a13 XOR (NOT a14 AND a10), a14 XOR (NOT a10 AND a11),
     a15 XOR (NOT a16 AND a17), a16 XOR (NOT a17 AND a18), a17 XOR (NOT a18 AND a19),
     a18 XOR (NOT a19 AND a15), a19 XOR (NOT a15 AND a16), a20 XOR (NOT a21 AND a22),
     a21 XOR (NOT a22 AND a23), a22 XOR (NOT a23 AND a24), a23 XOR (NOT a24 AND a20),
     a24 XOR (NOT a20 AND a21)]"
  by (simp add: keccak_chi_def Let_def upt_rec)

text \<open>The digest of the nine bytes \<open>Gamma:GMA\<close>, round by round.\<close>

lemma keccak_pad_Gamma_GMA:
  "keccak_pad [0x47, 0x61, 0x6d, 0x6d, 0x61, 0x3a, 0x47, 0x4d, 0x41]
   = [0x47, 0x61, 0x6d, 0x6d, 0x61, 0x3a, 0x47, 0x4d, 0x41, 0x01, 0x00, 0x00, 0x00, 0x00, 0x00, 0x00,
     0x00, 0x00, 0x00, 0x00, 0x00, 0x00, 0x00, 0x00, 0x00, 0x00, 0x00, 0x00, 0x00, 0x00, 0x00, 0x00,
     0x00, 0x00, 0x00, 0x00, 0x00, 0x00, 0x00, 0x00, 0x00, 0x00, 0x00, 0x00, 0x00, 0x00, 0x00, 0x00,
     0x00, 0x00, 0x00, 0x00, 0x00, 0x00, 0x00, 0x00, 0x00, 0x00, 0x00, 0x00, 0x00, 0x00, 0x00, 0x00,
     0x00, 0x00, 0x00, 0x00, 0x00, 0x00, 0x00, 0x00, 0x00, 0x00, 0x00, 0x00, 0x00, 0x00, 0x00, 0x00,
     0x00, 0x00, 0x00, 0x00, 0x00, 0x00, 0x00, 0x00, 0x00, 0x00, 0x00, 0x00, 0x00, 0x00, 0x00, 0x00,
     0x00, 0x00, 0x00, 0x00, 0x00, 0x00, 0x00, 0x00, 0x00, 0x00, 0x00, 0x00, 0x00, 0x00, 0x00, 0x00,
     0x00, 0x00, 0x00, 0x00, 0x00, 0x00, 0x00, 0x00, 0x00, 0x00, 0x00, 0x00, 0x00, 0x00, 0x00, 0x00,
     0x00, 0x00, 0x00, 0x00, 0x00, 0x00, 0x00, 0x80]"
  by code_simp

lemma keccak_lanes_Gamma_GMA:
  "map (\<lambda>(s, m). s XOR m)
     (zip (replicate 25 0)
        (lanes_of_block 17
           [0x47, 0x61, 0x6d, 0x6d, 0x61, 0x3a, 0x47, 0x4d, 0x41, 0x01, 0x00, 0x00, 0x00, 0x00, 0x00, 0x00,
            0x00, 0x00, 0x00, 0x00, 0x00, 0x00, 0x00, 0x00, 0x00, 0x00, 0x00, 0x00, 0x00, 0x00, 0x00, 0x00,
            0x00, 0x00, 0x00, 0x00, 0x00, 0x00, 0x00, 0x00, 0x00, 0x00, 0x00, 0x00, 0x00, 0x00, 0x00, 0x00,
            0x00, 0x00, 0x00, 0x00, 0x00, 0x00, 0x00, 0x00, 0x00, 0x00, 0x00, 0x00, 0x00, 0x00, 0x00, 0x00,
            0x00, 0x00, 0x00, 0x00, 0x00, 0x00, 0x00, 0x00, 0x00, 0x00, 0x00, 0x00, 0x00, 0x00, 0x00, 0x00,
            0x00, 0x00, 0x00, 0x00, 0x00, 0x00, 0x00, 0x00, 0x00, 0x00, 0x00, 0x00, 0x00, 0x00, 0x00, 0x00,
            0x00, 0x00, 0x00, 0x00, 0x00, 0x00, 0x00, 0x00, 0x00, 0x00, 0x00, 0x00, 0x00, 0x00, 0x00, 0x00,
            0x00, 0x00, 0x00, 0x00, 0x00, 0x00, 0x00, 0x00, 0x00, 0x00, 0x00, 0x00, 0x00, 0x00, 0x00, 0x00,
            0x00, 0x00, 0x00, 0x00, 0x00, 0x00, 0x00, 0x80]
         @ replicate 8 0))
   = [0x4D473A616D6D6147, 0x0000000000000141, 0x0000000000000000, 0x0000000000000000,
     0x0000000000000000, 0x0000000000000000, 0x0000000000000000, 0x0000000000000000,
     0x0000000000000000, 0x0000000000000000, 0x0000000000000000, 0x0000000000000000,
     0x0000000000000000, 0x0000000000000000, 0x0000000000000000, 0x0000000000000000,
     0x8000000000000000, 0x0000000000000000, 0x0000000000000000, 0x0000000000000000,
     0x0000000000000000, 0x0000000000000000, 0x0000000000000000, 0x0000000000000000,
     0x0000000000000000]"
  by code_simp

lemma keccak_round_Gamma_GMA_1:
  "keccak_round
     [0x4D473A616D6D6147, 0x0000000000000141, 0x0000000000000000, 0x0000000000000000,
     0x0000000000000000, 0x0000000000000000, 0x0000000000000000, 0x0000000000000000,
     0x0000000000000000, 0x0000000000000000, 0x0000000000000000, 0x0000000000000000,
     0x0000000000000000, 0x0000000000000000, 0x0000000000000000, 0x0000000000000000,
     0x8000000000000000, 0x0000000000000000, 0x0000000000000000, 0x0000000000000000,
     0x0000000000000000, 0x0000000000000000, 0x0000000000000000, 0x0000000000000000,
     0x0000000000000000]
     0x0000000000000001
   = [0x4D4D32616D6D63C5, 0xD61474D473A616D6, 0x9D3ABAB6B0A3A6A3, 0x404708414D4C4144,
     0x0F20F222A221B2B1, 0x0000000000001418, 0xE0055404CFA58142, 0x1000000000001418,
     0xAC28F9A8E74C2DAD, 0x7C2DADAC28E9A8CF, 0x9A8E74C2DADAC00C, 0x8E74C2DADAC2DEFA,
     0x00000000000C0000, 0x14FAB6180A104E96, 0x000000000A0C1060, 0x0A3F5391C1516E93,
     0x000028300020C000, 0x1CE985B5B5851D35, 0x16D6D6147474B3A6, 0x0000282000000000,
     0x0D61474D473A613D, 0x0004000000000000, 0x5879AEC8F28FE470, 0x4005060000000040,
     0x351CE985B5B5851D]"
  by (simp add: keccak_round_def keccak_theta_lanes keccak_rho_pi_lanes keccak_chi_lanes word_rotl_lane)

lemma keccak_round_Gamma_GMA_2:
  "keccak_round
     [0x4D4D32616D6D63C5, 0xD61474D473A616D6, 0x9D3ABAB6B0A3A6A3, 0x404708414D4C4144,
     0x0F20F222A221B2B1, 0x0000000000001418, 0xE0055404CFA58142, 0x1000000000001418,
     0xAC28F9A8E74C2DAD, 0x7C2DADAC28E9A8CF, 0x9A8E74C2DADAC00C, 0x8E74C2DADAC2DEFA,
     0x00000000000C0000, 0x14FAB6180A104E96, 0x000000000A0C1060, 0x0A3F5391C1516E93,
     0x000028300020C000, 0x1CE985B5B5851D35, 0x16D6D6147474B3A6, 0x0000282000000000,
     0x0D61474D473A613D, 0x0004000000000000, 0x5879AEC8F28FE470, 0x4005060000000040,
     0x351CE985B5B5851D]
     0x0000000000008082
   = [0x7E8DDD3DB0FE70F9, 0x6AC10A645A9EA09D, 0x23D06FA5773B0A61, 0x38251E784F0B5BEC,
     0x36C7829A5B1ECF98, 0xCD82A5E2C11C20D9, 0x7669FB5492AE245B, 0x40E155EF37C60E94,
     0x95F04871CB7319CE, 0x95EBFB633D17FCC5, 0x2BBE8A7D0EE014AB, 0x4F286FF28B6E9175,
     0x0B6E6836FEAE6EF7, 0x77AB3BEFD581762F, 0x244B8A2173836F99, 0xB86BA28EAAC7A409,
     0x8B0AA9A5E510B9FF, 0xFAC9483857CCE163, 0xF0885FC2FBB6DC0A, 0xBB0590CAD8BD47A3,
     0x5E7D94D47BA24BFD, 0x2DF2C8D25A1F151D, 0xE0E9C6859E51AFD6, 0x57A28A295F11DD45,
     0x2FB187897A45BA09]"
  by (simp add: keccak_round_def keccak_theta_lanes keccak_rho_pi_lanes keccak_chi_lanes word_rotl_lane)

lemma keccak_round_Gamma_GMA_3:
  "keccak_round
     [0x7E8DDD3DB0FE70F9, 0x6AC10A645A9EA09D, 0x23D06FA5773B0A61, 0x38251E784F0B5BEC,
     0x36C7829A5B1ECF98, 0xCD82A5E2C11C20D9, 0x7669FB5492AE245B, 0x40E155EF37C60E94,
     0x95F04871CB7319CE, 0x95EBFB633D17FCC5, 0x2BBE8A7D0EE014AB, 0x4F286FF28B6E9175,
     0x0B6E6836FEAE6EF7, 0x77AB3BEFD581762F, 0x244B8A2173836F99, 0xB86BA28EAAC7A409,
     0x8B0AA9A5E510B9FF, 0xFAC9483857CCE163, 0xF0885FC2FBB6DC0A, 0xBB0590CAD8BD47A3,
     0x5E7D94D47BA24BFD, 0x2DF2C8D25A1F151D, 0xE0E9C6859E51AFD6, 0x57A28A295F11DD45,
     0x2FB187897A45BA09]
     0x800000000000808A
   = [0x0626D6E9183321FC, 0x1E70ED511862C53C, 0xB4E83465CD7586A0, 0x44BED1BF85362A1D,
     0xF5DD5CF7362D27EB, 0xF16687DA7ED1F08A, 0xC2E00A69A5809B85, 0x8066856F288A3036,
     0xEB7DC0F25C53A4A5, 0x757E4104F0178084, 0xD2BBAA1CB6CA2315, 0xC016B2196ED74970,
     0x138995AEC8866618, 0xDF8318413A2C1F3A, 0x3094C18E28F7CD3C, 0x37947F493072F7CE,
     0xCF5E31D3C21989A0, 0xCC4A792513C99366, 0x725F25F0B9EBBF8C, 0xE6497A9D954F3A9B,
     0x02067AD2F06174AD, 0xF6099C2E50CB3D3D, 0xDB0644F244DCEEDD, 0x2DEFA0800316DF87,
     0x0E4AD28C6C1BD420]"
  by (simp add: keccak_round_def keccak_theta_lanes keccak_rho_pi_lanes keccak_chi_lanes word_rotl_lane)

lemma keccak_round_Gamma_GMA_4:
  "keccak_round
     [0x0626D6E9183321FC, 0x1E70ED511862C53C, 0xB4E83465CD7586A0, 0x44BED1BF85362A1D,
     0xF5DD5CF7362D27EB, 0xF16687DA7ED1F08A, 0xC2E00A69A5809B85, 0x8066856F288A3036,
     0xEB7DC0F25C53A4A5, 0x757E4104F0178084, 0xD2BBAA1CB6CA2315, 0xC016B2196ED74970,
     0x138995AEC8866618, 0xDF8318413A2C1F3A, 0x3094C18E28F7CD3C, 0x37947F493072F7CE,
     0xCF5E31D3C21989A0, 0xCC4A792513C99366, 0x725F25F0B9EBBF8C, 0xE6497A9D954F3A9B,
     0x02067AD2F06174AD, 0xF6099C2E50CB3D3D, 0xDB0644F244DCEEDD, 0x2DEFA0800316DF87,
     0x0E4AD28C6C1BD420]
     0x8000000080008000
   = [0xD58153710FE9227C, 0xA143FFA3D871BA1C, 0x21B0F239DB6C5190, 0x9E6CC48AE13BEC3E,
     0x42E8AD7601E85458, 0x4567FAEF8869D82D, 0x75109CED1BC78182, 0x0947FE4BD4AD5BAE,
     0x7D595F9137B1A6DF, 0x742ED18AE65C7001, 0x9D58E706C7A29D6D, 0xBF985A7E801C0E16,
     0x40CEF765EC2B05D5, 0x6B0DCBEDAD288A41, 0xFC98802EDBA84655, 0x1FF77BA3C75FBB6E,
     0xE073FC2D070031D2, 0x87D42278D7CE6A81, 0x54D2C101FD11EB39, 0xC2ADC85D035649FB,
     0x297C65971CA6B891, 0x6035AB58A8A1B440, 0x897F1B2D0BD80D3E, 0xE84D284808AF9BE9,
     0x1BD8CBFA70A45F5E]"
  by (simp add: keccak_round_def keccak_theta_lanes keccak_rho_pi_lanes keccak_chi_lanes word_rotl_lane)

lemma keccak_round_Gamma_GMA_5:
  "keccak_round
     [0xD58153710FE9227C, 0xA143FFA3D871BA1C, 0x21B0F239DB6C5190, 0x9E6CC48AE13BEC3E,
     0x42E8AD7601E85458, 0x4567FAEF8869D82D, 0x75109CED1BC78182, 0x0947FE4BD4AD5BAE,
     0x7D595F9137B1A6DF, 0x742ED18AE65C7001, 0x9D58E706C7A29D6D, 0xBF985A7E801C0E16,
     0x40CEF765EC2B05D5, 0x6B0DCBEDAD288A41, 0xFC98802EDBA84655, 0x1FF77BA3C75FBB6E,
     0xE073FC2D070031D2, 0x87D42278D7CE6A81, 0x54D2C101FD11EB39, 0xC2ADC85D035649FB,
     0x297C65971CA6B891, 0x6035AB58A8A1B440, 0x897F1B2D0BD80D3E, 0xE84D284808AF9BE9,
     0x1BD8CBFA70A45F5E]
     0x000000000000808B
   = [0x9D11168FFB42166B, 0x725C181D042C5DE1, 0x8E6D6E52EF5AECE0, 0xB41BE6A157F2A25F,
     0x3689BA738D265F5B, 0x6D1BB6518D669E00, 0xA674FF6CFA73DE58, 0x4A0EA7C018A10C12,
     0x54B734DD65823866, 0x13B3E9E2ED6C3B84, 0xA4A45700F0B11C22, 0x81B877E157C2D922,
     0x933C14528E5021DB, 0xC6D0E9BAB4B0054A, 0x58FEA537B7757435, 0x87F301ED9A81498A,
     0xE48CC97614799398, 0xC231D1905E69F836, 0x1FE302974D3CA22F, 0x97A44204E5C41F0B,
     0xA9DDAA0EE8D3847A, 0xA0DEEA1118FB5213, 0x119FC99F18C4643F, 0xED17E7B744671AF1,
     0x1C97B9F02600482F]"
  by (simp add: keccak_round_def keccak_theta_lanes keccak_rho_pi_lanes keccak_chi_lanes word_rotl_lane)

lemma keccak_round_Gamma_GMA_6:
  "keccak_round
     [0x9D11168FFB42166B, 0x725C181D042C5DE1, 0x8E6D6E52EF5AECE0, 0xB41BE6A157F2A25F,
     0x3689BA738D265F5B, 0x6D1BB6518D669E00, 0xA674FF6CFA73DE58, 0x4A0EA7C018A10C12,
     0x54B734DD65823866, 0x13B3E9E2ED6C3B84, 0xA4A45700F0B11C22, 0x81B877E157C2D922,
     0x933C14528E5021DB, 0xC6D0E9BAB4B0054A, 0x58FEA537B7757435, 0x87F301ED9A81498A,
     0xE48CC97614799398, 0xC231D1905E69F836, 0x1FE302974D3CA22F, 0x97A44204E5C41F0B,
     0xA9DDAA0EE8D3847A, 0xA0DEEA1118FB5213, 0x119FC99F18C4643F, 0xED17E7B744671AF1,
     0x1C97B9F02600482F]
     0x0000000080000001
   = [0x0447FC3C2DD56724, 0xB3D975D170806913, 0x8FFC815E1DE341E7, 0xB7AB55BC92CCBF1B,
     0x7443514425349F4D, 0xAC116F6B2FD80FDF, 0xB7F4A58A75E3B22C, 0x1F9065ED67AE6A6B,
     0x6E1C35F7EA5AF246, 0xC6C10864647E962E, 0x027B1E7A5086F433, 0xBB4A66A8B2B656EE,
     0xA18EC1F3E90FBC64, 0x2C159EA3D805D8B6, 0xB7CEB8DF7461F0F3, 0x33D89F4800DA2FE5,
     0x3B7A8EEB94895AFD, 0x6E81036CECAB6943, 0x5C8CE4643696B556, 0x44A2689B5A5757C0,
     0x5DCFB912351C8A22, 0x679E5CF4DBAF99F5, 0xF4F44376F361934F, 0x0B7BC0B517CAA988,
     0x6EE4B2AF82E3F6FA]"
  by (simp add: keccak_round_def keccak_theta_lanes keccak_rho_pi_lanes keccak_chi_lanes word_rotl_lane)

lemma keccak_round_Gamma_GMA_7:
  "keccak_round
     [0x0447FC3C2DD56724, 0xB3D975D170806913, 0x8FFC815E1DE341E7, 0xB7AB55BC92CCBF1B,
     0x7443514425349F4D, 0xAC116F6B2FD80FDF, 0xB7F4A58A75E3B22C, 0x1F9065ED67AE6A6B,
     0x6E1C35F7EA5AF246, 0xC6C10864647E962E, 0x027B1E7A5086F433, 0xBB4A66A8B2B656EE,
     0xA18EC1F3E90FBC64, 0x2C159EA3D805D8B6, 0xB7CEB8DF7461F0F3, 0x33D89F4800DA2FE5,
     0x3B7A8EEB94895AFD, 0x6E81036CECAB6943, 0x5C8CE4643696B556, 0x44A2689B5A5757C0,
     0x5DCFB912351C8A22, 0x679E5CF4DBAF99F5, 0xF4F44376F361934F, 0x0B7BC0B517CAA988,
     0x6EE4B2AF82E3F6FA]
     0x8000000080008081
   = [0x764B1E1F812742BC, 0x2526A646001081D7, 0x1594A355B3AB7092, 0x356D280F0C5D83F2,
     0x0E9A932D8F3411B3, 0x0CDAE77A93938530, 0xCF32A6BB484AFA10, 0x7BC7E13247F909F2,
     0x8303510F49C7395A, 0xE95B82F9614DF3F7, 0x90880A2E10891EBA, 0x2CCD54B232817408,
     0xF11FC78831F13819, 0xC37E443703BDEACC, 0x0225F1141CEA7749, 0xDB52083094F33ECC,
     0xBBFCACA451F193C7, 0x681BDB23CED0B880, 0x6AF888C2984BE65C, 0x18F25C963948BD66,
     0xCA35343C1BA3C75D, 0x3E9DDEA2959E4637, 0x0A2DE886E01B4CDB, 0x4FC0F997C0F8B729,
     0xE3603F591395DCCD]"
  by (simp add: keccak_round_def keccak_theta_lanes keccak_rho_pi_lanes keccak_chi_lanes word_rotl_lane)

lemma keccak_round_Gamma_GMA_8:
  "keccak_round
     [0x764B1E1F812742BC, 0x2526A646001081D7, 0x1594A355B3AB7092, 0x356D280F0C5D83F2,
     0x0E9A932D8F3411B3, 0x0CDAE77A93938530, 0xCF32A6BB484AFA10, 0x7BC7E13247F909F2,
     0x8303510F49C7395A, 0xE95B82F9614DF3F7, 0x90880A2E10891EBA, 0x2CCD54B232817408,
     0xF11FC78831F13819, 0xC37E443703BDEACC, 0x0225F1141CEA7749, 0xDB52083094F33ECC,
     0xBBFCACA451F193C7, 0x681BDB23CED0B880, 0x6AF888C2984BE65C, 0x18F25C963948BD66,
     0xCA35343C1BA3C75D, 0x3E9DDEA2959E4637, 0x0A2DE886E01B4CDB, 0x4FC0F997C0F8B729,
     0xE3603F591395DCCD]
     0x8000000000008009
   = [0x6B4DD1970F88AEED, 0x7BF77BABD443D15B, 0x060520B71AE8BD9B, 0x96F8A7D646556FE7,
     0x7B6F299E77724076, 0xE94AA07D4A2DAA95, 0xB246C2717A18F8AC, 0x086E2514A162C180,
     0x9B66B27662E1C84C, 0xDD3CFAC35CE0A2F8, 0x8D7A1B24F3581662, 0x28D985E11B8C53F0,
     0x0CB0116F5C0597A9, 0x26D67A15A7B5AA9E, 0xEC071EC31631254B, 0x14CA53ABCD7B5A9A,
     0xCB4E788B5DC6CB2B, 0x5ED5D0ED366AA0B7, 0xB286A6201D0EB7FD, 0x2C8A5B49D21B898A,
     0xBD8586F45C1D0EAF, 0x32C56A742C871951, 0x061A5E916811DF98, 0xA97A2AB0AD8A9040,
     0xFE79BDC399882244]"
  by (simp add: keccak_round_def keccak_theta_lanes keccak_rho_pi_lanes keccak_chi_lanes word_rotl_lane)

lemma keccak_round_Gamma_GMA_9:
  "keccak_round
     [0x6B4DD1970F88AEED, 0x7BF77BABD443D15B, 0x060520B71AE8BD9B, 0x96F8A7D646556FE7,
     0x7B6F299E77724076, 0xE94AA07D4A2DAA95, 0xB246C2717A18F8AC, 0x086E2514A162C180,
     0x9B66B27662E1C84C, 0xDD3CFAC35CE0A2F8, 0x8D7A1B24F3581662, 0x28D985E11B8C53F0,
     0x0CB0116F5C0597A9, 0x26D67A15A7B5AA9E, 0xEC071EC31631254B, 0x14CA53ABCD7B5A9A,
     0xCB4E788B5DC6CB2B, 0x5ED5D0ED366AA0B7, 0xB286A6201D0EB7FD, 0x2C8A5B49D21B898A,
     0xBD8586F45C1D0EAF, 0x32C56A742C871951, 0x061A5E916811DF98, 0xA97A2AB0AD8A9040,
     0xFE79BDC399882244]
     0x000000000000008A
   = [0x802886A2F3D29F8E, 0xBD728A53FCB822E7, 0xC3260BA956CBCFDE, 0x9505955F7E6A2999,
     0x2122214BE52CE048, 0xE1A57AFEFFDB66BD, 0xF8469712DEBC3FF0, 0x0BAB69092319D0D1,
     0xD48BDB1EB8C56396, 0xA3B013C3F951BC1C, 0xD11DE3FB00737CBD, 0x39306AA23FAB7F4C,
     0x9BC4C3CC69CB1BEE, 0x499E2C19A82C715C, 0xE984880076F450D3, 0xC06A0E0EF07F654C,
     0xC708EC8404B16D0F, 0x4AFE653BF8E398BB, 0x9C2DC5EA2EE8F28F, 0xD9C340A62A7814DF,
     0x9FE2324E661D5008, 0xEFF40F0C6311B682, 0x4272CE48CAD4F325, 0xD04CA7755A426C49,
     0xE3638E20F2D773D2]"
  by (simp add: keccak_round_def keccak_theta_lanes keccak_rho_pi_lanes keccak_chi_lanes word_rotl_lane)

lemma keccak_round_Gamma_GMA_10:
  "keccak_round
     [0x802886A2F3D29F8E, 0xBD728A53FCB822E7, 0xC3260BA956CBCFDE, 0x9505955F7E6A2999,
     0x2122214BE52CE048, 0xE1A57AFEFFDB66BD, 0xF8469712DEBC3FF0, 0x0BAB69092319D0D1,
     0xD48BDB1EB8C56396, 0xA3B013C3F951BC1C, 0xD11DE3FB00737CBD, 0x39306AA23FAB7F4C,
     0x9BC4C3CC69CB1BEE, 0x499E2C19A82C715C, 0xE984880076F450D3, 0xC06A0E0EF07F654C,
     0xC708EC8404B16D0F, 0x4AFE653BF8E398BB, 0x9C2DC5EA2EE8F28F, 0xD9C340A62A7814DF,
     0x9FE2324E661D5008, 0xEFF40F0C6311B682, 0x4272CE48CAD4F325, 0xD04CA7755A426C49,
     0xE3638E20F2D773D2]
     0x0000000000000088
   = [0x422F4A48055ACF10, 0xC5184B4C4600210F, 0xBD0AB40C53C14774, 0xB52959014C879124,
     0x375A3736A7F0AE4F, 0xD100001714CAE7BD, 0xEC9F7676C8EB0713, 0x595DF11E92C324F8,
     0x6067F3F95D217F1A, 0x3F707FF53190183B, 0xD841FF945BDAFD2F, 0x6C7C191F51D81B36,
     0x0F9C9D036F4B6F08, 0xC386D5003590DE61, 0x9E66809A20B99CC5, 0x1F09A764659E9AB6,
     0xEE2DF9A99F00681B, 0x8B754BE7FE55C102, 0x643E5B7DB5E8D050, 0xA20EADD4ED30409D,
     0x87874F3266A34B48, 0x7626855C96797AAD, 0x274A4ABF67B5C6BE, 0x8EBDD0F15885206C,
     0xA588F35A1D0F727F]"
  by (simp add: keccak_round_def keccak_theta_lanes keccak_rho_pi_lanes keccak_chi_lanes word_rotl_lane)

lemma keccak_round_Gamma_GMA_11:
  "keccak_round
     [0x422F4A48055ACF10, 0xC5184B4C4600210F, 0xBD0AB40C53C14774, 0xB52959014C879124,
     0x375A3736A7F0AE4F, 0xD100001714CAE7BD, 0xEC9F7676C8EB0713, 0x595DF11E92C324F8,
     0x6067F3F95D217F1A, 0x3F707FF53190183B, 0xD841FF945BDAFD2F, 0x6C7C191F51D81B36,
     0x0F9C9D036F4B6F08, 0xC386D5003590DE61, 0x9E66809A20B99CC5, 0x1F09A764659E9AB6,
     0xEE2DF9A99F00681B, 0x8B754BE7FE55C102, 0x643E5B7DB5E8D050, 0xA20EADD4ED30409D,
     0x87874F3266A34B48, 0x7626855C96797AAD, 0x274A4ABF67B5C6BE, 0x8EBDD0F15885206C,
     0xA588F35A1D0F727F]
     0x0000000080008009
   = [0x7E076D68FF404962, 0xA0109BA14917944C, 0xBA0699555F70A55D, 0xF3419DAD38E08B8F,
     0x6E5583AFAE2E6904, 0xFF266FAB38551AD2, 0x27B6921D08864AB3, 0x935BCE05C96CDA37,
     0xE068F6EFBBC055E6, 0xA0D53F04C66B481D, 0xF32CEA8CB0076007, 0x0E7059C18F22E967,
     0xEF0FCA8BCD4D7E47, 0x97C3D23445C847FB, 0xAD8232353F2A3E6D, 0xD3B26BB6EF620303,
     0xC3AD117FB1AA6117, 0x55D8C1FFF4E6C8D3, 0x79EF7E469E28DCC9, 0xDBE2D86D06629407,
     0x62336DED354B7216, 0x1B13930B8E73A720, 0xA62E2EE6769668BD, 0x9FB9F86B438E3D14,
     0xA83DAB4C4B4122A4]"
  by (simp add: keccak_round_def keccak_theta_lanes keccak_rho_pi_lanes keccak_chi_lanes word_rotl_lane)

lemma keccak_round_Gamma_GMA_12:
  "keccak_round
     [0x7E076D68FF404962, 0xA0109BA14917944C, 0xBA0699555F70A55D, 0xF3419DAD38E08B8F,
     0x6E5583AFAE2E6904, 0xFF266FAB38551AD2, 0x27B6921D08864AB3, 0x935BCE05C96CDA37,
     0xE068F6EFBBC055E6, 0xA0D53F04C66B481D, 0xF32CEA8CB0076007, 0x0E7059C18F22E967,
     0xEF0FCA8BCD4D7E47, 0x97C3D23445C847FB, 0xAD8232353F2A3E6D, 0xD3B26BB6EF620303,
     0xC3AD117FB1AA6117, 0x55D8C1FFF4E6C8D3, 0x79EF7E469E28DCC9, 0xDBE2D86D06629407,
     0x62336DED354B7216, 0x1B13930B8E73A720, 0xA62E2EE6769668BD, 0x9FB9F86B438E3D14,
     0xA83DAB4C4B4122A4]
     0x000000008000000A
   = [0xD759B7CC55F823E1, 0xC0AD38F22D14DF75, 0xDBFA3342C853A135, 0x334E4645C49DBE97,
     0x32AFCAAD5FEB5372, 0x15500F962AF4E133, 0x834A11567278D685, 0x8B44090050D15C53,
     0x55366AF92B0C359A, 0x446FA062672C1B3D, 0x10A96108A5DE10E6, 0x94F3B086F4DEC489,
     0x8154C1628D11F877, 0x47931F6756E9253E, 0x1357B9CBE05F81FD, 0x3E70F6E15D5B8D84,
     0x2A651C3CD6F30018, 0x1842E430F8AB1891, 0x30D0090844A0E1E4, 0xF90EA765550E56B7,
     0x03840D7AB4612AB7, 0x73683FFCC5AF2853, 0x002DD18C13E22BAF, 0xF61299D3DE651526,
     0x4B2450EF4DA48852]"
  by (simp add: keccak_round_def keccak_theta_lanes keccak_rho_pi_lanes keccak_chi_lanes word_rotl_lane)

lemma keccak_round_Gamma_GMA_13:
  "keccak_round
     [0xD759B7CC55F823E1, 0xC0AD38F22D14DF75, 0xDBFA3342C853A135, 0x334E4645C49DBE97,
     0x32AFCAAD5FEB5372, 0x15500F962AF4E133, 0x834A11567278D685, 0x8B44090050D15C53,
     0x55366AF92B0C359A, 0x446FA062672C1B3D, 0x10A96108A5DE10E6, 0x94F3B086F4DEC489,
     0x8154C1628D11F877, 0x47931F6756E9253E, 0x1357B9CBE05F81FD, 0x3E70F6E15D5B8D84,
     0x2A651C3CD6F30018, 0x1842E430F8AB1891, 0x30D0090844A0E1E4, 0xF90EA765550E56B7,
     0x03840D7AB4612AB7, 0x73683FFCC5AF2853, 0x002DD18C13E22BAF, 0xF61299D3DE651526,
     0x4B2450EF4DA48852]
     0x000000008000808B
   = [0x3DD7C68FC5137E4C, 0x9CDF9E2656E8AFA3, 0x01DD3628B3CD1B9C, 0xC167E75A8C9E27A3,
     0x2DB75B0254C31DA9, 0xDB9BB86174D33C1E, 0x4D023CDDE8465FF5, 0xD13D6730280822CC,
     0xE08A108774289305, 0xEC0CE1B755AA0D8F, 0x75A58855EA91555A, 0xC0BC29ABD2E72072,
     0xBCD4AE51E053F918, 0x8660FF156366C592, 0xF2DC6691CF550089, 0xF8D02FFE624B7343,
     0xBDF3C30849E5C5DD, 0x12AD34EA59F794AB, 0x5425119F84790C64, 0xA7B32D1FDF045795,
     0x36EC32E94EF4D8B9, 0xEDB8889C286A881F, 0x0D46818569AF2CF6, 0x6A815E23FD7E6D88,
     0xB5CFC4269FC6C52A]"
  by (simp add: keccak_round_def keccak_theta_lanes keccak_rho_pi_lanes keccak_chi_lanes word_rotl_lane)

lemma keccak_round_Gamma_GMA_14:
  "keccak_round
     [0x3DD7C68FC5137E4C, 0x9CDF9E2656E8AFA3, 0x01DD3628B3CD1B9C, 0xC167E75A8C9E27A3,
     0x2DB75B0254C31DA9, 0xDB9BB86174D33C1E, 0x4D023CDDE8465FF5, 0xD13D6730280822CC,
     0xE08A108774289305, 0xEC0CE1B755AA0D8F, 0x75A58855EA91555A, 0xC0BC29ABD2E72072,
     0xBCD4AE51E053F918, 0x8660FF156366C592, 0xF2DC6691CF550089, 0xF8D02FFE624B7343,
     0xBDF3C30849E5C5DD, 0x12AD34EA59F794AB, 0x5425119F84790C64, 0xA7B32D1FDF045795,
     0x36EC32E94EF4D8B9, 0xEDB8889C286A881F, 0x0D46818569AF2CF6, 0x6A815E23FD7E6D88,
     0xB5CFC4269FC6C52A]
     0x800000000000008B
   = [0x849152133360E65B, 0x6162DE749C1FC805, 0x9F2ADACC4602E510, 0xBAC31B465A4CFB86,
     0x142029D7AF16B5D0, 0xDBE2B1B8DB0BE864, 0x59958AF64BB4F9E7, 0xB99EBF07FF378632,
     0xA108A4FB7C9D1952, 0x2FD2D3F3140CF297, 0x4D496B8E2A7DD7E0, 0xB0DF57F818370EE9,
     0x1828E77ECEEF45B4, 0x75B5B252661F29F1, 0x89F16A6D95947682, 0x379F6B6CF8DB8EF8,
     0xBA2A9C220D1CDF4E, 0x5D410CFA7F33E4FA, 0xFFE7CB4F142E92A2, 0xB55B7C7D3BAB0C17,
     0xFB3D14617C833BF2, 0xC869958F5D158CF9, 0x21FE1BA82F3A5EF0, 0xF1353CB763BEBF0C,
     0x5F0F7C6B21731718]"
  by (simp add: keccak_round_def keccak_theta_lanes keccak_rho_pi_lanes keccak_chi_lanes word_rotl_lane)

lemma keccak_round_Gamma_GMA_15:
  "keccak_round
     [0x849152133360E65B, 0x6162DE749C1FC805, 0x9F2ADACC4602E510, 0xBAC31B465A4CFB86,
     0x142029D7AF16B5D0, 0xDBE2B1B8DB0BE864, 0x59958AF64BB4F9E7, 0xB99EBF07FF378632,
     0xA108A4FB7C9D1952, 0x2FD2D3F3140CF297, 0x4D496B8E2A7DD7E0, 0xB0DF57F818370EE9,
     0x1828E77ECEEF45B4, 0x75B5B252661F29F1, 0x89F16A6D95947682, 0x379F6B6CF8DB8EF8,
     0xBA2A9C220D1CDF4E, 0x5D410CFA7F33E4FA, 0xFFE7CB4F142E92A2, 0xB55B7C7D3BAB0C17,
     0xFB3D14617C833BF2, 0xC869958F5D158CF9, 0x21FE1BA82F3A5EF0, 0xF1353CB763BEBF0C,
     0x5F0F7C6B21731718]
     0x8000000000008089
   = [0x8D3086EB6890ACBB, 0x1A0BAA1780608024, 0x2720F59CDAC2397E, 0xE2DBBB684551B827,
     0x48CB06B8CF6F20A1, 0xF5563039E484F8E2, 0xCA5AF0E27B6FA4FC, 0x4C4EF3511BCB7DFE,
     0x01565F1E6C1C209E, 0x4951506E20B95BF7, 0x633885655BEB2BDE, 0x6B3845838FF8E340,
     0x165704BEF30A3A9C, 0xF7523A8063DB1668, 0xCE45A57DA5059AD2, 0x80AAE4578F01FACC,
     0xFE703A7FF4B3649C, 0x062E40C73568D3EE, 0x79A5C35BA2E91BB1, 0x0352A0A99E1EC577,
     0xAB02182F4BEC9539, 0x69F3C41CD8D9D988, 0x2B25F1AB741D5107, 0xEFFC9F3E11D5A8CB,
     0x4EF0E7A5C3E20412]"
  by (simp add: keccak_round_def keccak_theta_lanes keccak_rho_pi_lanes keccak_chi_lanes word_rotl_lane)

lemma keccak_round_Gamma_GMA_16:
  "keccak_round
     [0x8D3086EB6890ACBB, 0x1A0BAA1780608024, 0x2720F59CDAC2397E, 0xE2DBBB684551B827,
     0x48CB06B8CF6F20A1, 0xF5563039E484F8E2, 0xCA5AF0E27B6FA4FC, 0x4C4EF3511BCB7DFE,
     0x01565F1E6C1C209E, 0x4951506E20B95BF7, 0x633885655BEB2BDE, 0x6B3845838FF8E340,
     0x165704BEF30A3A9C, 0xF7523A8063DB1668, 0xCE45A57DA5059AD2, 0x80AAE4578F01FACC,
     0xFE703A7FF4B3649C, 0x062E40C73568D3EE, 0x79A5C35BA2E91BB1, 0x0352A0A99E1EC577,
     0xAB02182F4BEC9539, 0x69F3C41CD8D9D988, 0x2B25F1AB741D5107, 0xEFFC9F3E11D5A8CB,
     0x4EF0E7A5C3E20412]
     0x8000000000008003
   = [0xCF90C837CC81BB47, 0x24D385ACC570B5E8, 0xC77A3EF6811620A2, 0x214F08501865BD83,
     0xFEEC029317476BCF, 0x91079C529F14760A, 0xC71FF3EC7B8AA3A4, 0xC4DFDD64E67DFB2F,
     0x80271D9C7270E429, 0xC66021975B700BBF, 0x950820DE567EE5F9, 0x73C5D8ED00070179,
     0x207FF4F2BE46F5C8, 0x3C8DA44978E629B0, 0xD0CE6FC50380CAA9, 0x2E2601A765560077,
     0x7958D7A20EF4FF44, 0x8230F9ED1A6F0BFF, 0xD27EC7FAF90B972C, 0xFCABE555E5EC9615,
     0x4270C47F8C06EE18, 0xFC36EFE2A7B91E0C, 0x80425B9627C4783C, 0x2A6E2AFD0D67BA7A,
     0x718BBC349700D005]"
  by (simp add: keccak_round_def keccak_theta_lanes keccak_rho_pi_lanes keccak_chi_lanes word_rotl_lane)

lemma keccak_round_Gamma_GMA_17:
  "keccak_round
     [0xCF90C837CC81BB47, 0x24D385ACC570B5E8, 0xC77A3EF6811620A2, 0x214F08501865BD83,
     0xFEEC029317476BCF, 0x91079C529F14760A, 0xC71FF3EC7B8AA3A4, 0xC4DFDD64E67DFB2F,
     0x80271D9C7270E429, 0xC66021975B700BBF, 0x950820DE567EE5F9, 0x73C5D8ED00070179,
     0x207FF4F2BE46F5C8, 0x3C8DA44978E629B0, 0xD0CE6FC50380CAA9, 0x2E2601A765560077,
     0x7958D7A20EF4FF44, 0x8230F9ED1A6F0BFF, 0xD27EC7FAF90B972C, 0xFCABE555E5EC9615,
     0x4270C47F8C06EE18, 0xFC36EFE2A7B91E0C, 0x80425B9627C4783C, 0x2A6E2AFD0D67BA7A,
     0x718BBC349700D005]
     0x8000000000008002
   = [0x0035BD8A5AEB6972, 0xEDC3B238138CA5AA, 0x055967CF96E04796, 0xB40D7707B9870B4F,
     0x3D5E680A203F9278, 0xB86DC7BB7E831776, 0xDD747B15B5D60149, 0xDEA14925FC062CC5,
     0xE07672A8219CFC08, 0x6EDBE68B5FE5869A, 0xA1D7B1A1808D900F, 0x5CAEB38F38ADDE04,
     0x15C9C77AF107D355, 0xCD5B95DA45456EDE, 0xE43E7AFD84CC55F7, 0x954DF9DBA7F4E9B3,
     0x59E763FDC8A7468A, 0x70CFE612C5E0EA7D, 0x7A069D39A3A92F9E, 0x2C6300B0EE995436,
     0xE675CC7B82EEDB1F, 0xD6B52543E1A51A50, 0x16B57B655C20C51E, 0x5C458CC680B5AAFF,
     0x7A38F35A6929AFCC]"
  by (simp add: keccak_round_def keccak_theta_lanes keccak_rho_pi_lanes keccak_chi_lanes word_rotl_lane)

lemma keccak_round_Gamma_GMA_18:
  "keccak_round
     [0x0035BD8A5AEB6972, 0xEDC3B238138CA5AA, 0x055967CF96E04796, 0xB40D7707B9870B4F,
     0x3D5E680A203F9278, 0xB86DC7BB7E831776, 0xDD747B15B5D60149, 0xDEA14925FC062CC5,
     0xE07672A8219CFC08, 0x6EDBE68B5FE5869A, 0xA1D7B1A1808D900F, 0x5CAEB38F38ADDE04,
     0x15C9C77AF107D355, 0xCD5B95DA45456EDE, 0xE43E7AFD84CC55F7, 0x954DF9DBA7F4E9B3,
     0x59E763FDC8A7468A, 0x70CFE612C5E0EA7D, 0x7A069D39A3A92F9E, 0x2C6300B0EE995436,
     0xE675CC7B82EEDB1F, 0xD6B52543E1A51A50, 0x16B57B655C20C51E, 0x5C458CC680B5AAFF,
     0x7A38F35A6929AFCC]
     0x8000000000000080
   = [0xB707422760A693B7, 0xE7394ECCD6CE932A, 0x97C0A9462DDF19D2, 0xDA089AB9EDA32A5E,
     0xAB9C797514D6A40D, 0xC52AEEEBD1F35048, 0xF49AA98A7240045A, 0x346D50F19E612684,
     0xF2945A6A93902927, 0x6367298DA0EA366B, 0x8FE51B9D2C618E01, 0x875C832EF97CC252,
     0xA37E57905B43A5D4, 0x4FF852162CB12BC7, 0x8F4AC6A867A3445E, 0x2CEDD16A76BAB037,
     0x1CF21F214BF3D767, 0x3FA3CE434192A8D2, 0xE645D6408858F606, 0x9525C0F68C7AD808,
     0x068D5672BF66D526, 0x1943B1A4D7E1184E, 0x3AB8A05699608BAE, 0x741B5B64500CBF6D,
     0xEB10627190EE88FA]"
  by (simp add: keccak_round_def keccak_theta_lanes keccak_rho_pi_lanes keccak_chi_lanes word_rotl_lane)

lemma keccak_round_Gamma_GMA_19:
  "keccak_round
     [0xB707422760A693B7, 0xE7394ECCD6CE932A, 0x97C0A9462DDF19D2, 0xDA089AB9EDA32A5E,
     0xAB9C797514D6A40D, 0xC52AEEEBD1F35048, 0xF49AA98A7240045A, 0x346D50F19E612684,
     0xF2945A6A93902927, 0x6367298DA0EA366B, 0x8FE51B9D2C618E01, 0x875C832EF97CC252,
     0xA37E57905B43A5D4, 0x4FF852162CB12BC7, 0x8F4AC6A867A3445E, 0x2CEDD16A76BAB037,
     0x1CF21F214BF3D767, 0x3FA3CE434192A8D2, 0xE645D6408858F606, 0x9525C0F68C7AD808,
     0x068D5672BF66D526, 0x1943B1A4D7E1184E, 0x3AB8A05699608BAE, 0x741B5B64500CBF6D,
     0xEB10627190EE88FA]
     0x000000000000800A
   = [0xA61DC76B28692170, 0xF5F0DA82791874EC, 0x7BA382300739D828, 0xD3BA8B094DD2118F,
     0xD6A0BC7A3FAE785F, 0xC43E79E84B84E512, 0x7FE236D016B399D5, 0xEFD5962D0D5DF6E5,
     0x9585295937A98ED2, 0xE3F04CAF2DB68A84, 0x7405FDEE9453A096, 0x9D53F352AFD7CB1B,
     0x8745192FD97605E7, 0x6DBFB4ED3CFB82EF, 0x5C13CCA194E03F52, 0x35FE828233CEB134,
     0xDAACE994B3ACDC79, 0x96CC1E26AF23116E, 0xAD0ACEEF7EB8827C, 0xC502F2AF39CE5A42,
     0xEB0697183E24F9BC, 0x06C7FE7C933EC41A, 0x4752286A9445ECA1, 0x4A134577DAC41C7C,
     0x11282E464DC30935]"
  by (simp add: keccak_round_def keccak_theta_lanes keccak_rho_pi_lanes keccak_chi_lanes word_rotl_lane)

lemma keccak_round_Gamma_GMA_20:
  "keccak_round
     [0xA61DC76B28692170, 0xF5F0DA82791874EC, 0x7BA382300739D828, 0xD3BA8B094DD2118F,
     0xD6A0BC7A3FAE785F, 0xC43E79E84B84E512, 0x7FE236D016B399D5, 0xEFD5962D0D5DF6E5,
     0x9585295937A98ED2, 0xE3F04CAF2DB68A84, 0x7405FDEE9453A096, 0x9D53F352AFD7CB1B,
     0x8745192FD97605E7, 0x6DBFB4ED3CFB82EF, 0x5C13CCA194E03F52, 0x35FE828233CEB134,
     0xDAACE994B3ACDC79, 0x96CC1E26AF23116E, 0xAD0ACEEF7EB8827C, 0xC502F2AF39CE5A42,
     0xEB0697183E24F9BC, 0x06C7FE7C933EC41A, 0x4752286A9445ECA1, 0x4A134577DAC41C7C,
     0x11282E464DC30935]
     0x800000008000000A
   = [0x05402AAF1B508724, 0x758E43636DEF2BC4, 0x4B470CAA314176E2, 0x1D4E44EF27C2EE8A,
     0x272517E594B2B3C3, 0xFD849EB955BC551C, 0xC46A2CC51CDA2D77, 0x79C0440D1DDA1FCA,
     0x6FBD4E4559A7D626, 0xA0FA435D3E69F2F3, 0x70AB3D414A43E827, 0x54A906A602B3F96F,
     0xC872D8C38AAD82F8, 0x476BA42F1AC9E38A, 0x9A5036BE7FB710A5, 0xD442D519AD5E1D65,
     0x0AD2F3F4E43DCA6F, 0x3FFD4AB08BF8AAD6, 0x174F551A902D466A, 0x6E624F5962F7D9F5,
     0x100EAC24D9E99C82, 0x61926FD48A9C9332, 0x7B7B6542FB763775, 0xCCC616198E653443,
     0xC81F2813E0191585]"
  by (simp add: keccak_round_def keccak_theta_lanes keccak_rho_pi_lanes keccak_chi_lanes word_rotl_lane)

lemma keccak_round_Gamma_GMA_21:
  "keccak_round
     [0x05402AAF1B508724, 0x758E43636DEF2BC4, 0x4B470CAA314176E2, 0x1D4E44EF27C2EE8A,
     0x272517E594B2B3C3, 0xFD849EB955BC551C, 0xC46A2CC51CDA2D77, 0x79C0440D1DDA1FCA,
     0x6FBD4E4559A7D626, 0xA0FA435D3E69F2F3, 0x70AB3D414A43E827, 0x54A906A602B3F96F,
     0xC872D8C38AAD82F8, 0x476BA42F1AC9E38A, 0x9A5036BE7FB710A5, 0xD442D519AD5E1D65,
     0x0AD2F3F4E43DCA6F, 0x3FFD4AB08BF8AAD6, 0x174F551A902D466A, 0x6E624F5962F7D9F5,
     0x100EAC24D9E99C82, 0x61926FD48A9C9332, 0x7B7B6542FB763775, 0xCCC616198E653443,
     0xC81F2813E0191585]
     0x8000000080008081
   = [0x3AB8F533F31A8443, 0x27AA8D4BF270AC17, 0x52F37860E7335F90, 0xA034B3013E5A8B5C,
     0x4C5654FBBAFE878B, 0x0FE36A1A117D1B14, 0xE1524EC0034B4BE4, 0xFE163A443C10DE5B,
     0xA36B5550E29AE028, 0x8532A8AD02F378BD, 0x8AD1F949410BD196, 0xCF9A8ADD4F38D712,
     0x4A66395D748D2DA7, 0xB65703B0620B2A3A, 0x7DA8D0A53DA2DB95, 0x8854BB33AAA35855,
     0x87506F25A7D32D3B, 0xFF26C75F7E6A0981, 0xB23C1BC3CF2C366D, 0xFC0D152713A3DB7B,
     0x367E60A3B46612AD, 0xC9CB17FCF1F004CC, 0xF127AD7E0A9EE646, 0x259B4E47F65CCB8B,
     0x8C5A97115E431DF5]"
  by (simp add: keccak_round_def keccak_theta_lanes keccak_rho_pi_lanes keccak_chi_lanes word_rotl_lane)

lemma keccak_round_Gamma_GMA_22:
  "keccak_round
     [0x3AB8F533F31A8443, 0x27AA8D4BF270AC17, 0x52F37860E7335F90, 0xA034B3013E5A8B5C,
     0x4C5654FBBAFE878B, 0x0FE36A1A117D1B14, 0xE1524EC0034B4BE4, 0xFE163A443C10DE5B,
     0xA36B5550E29AE028, 0x8532A8AD02F378BD, 0x8AD1F949410BD196, 0xCF9A8ADD4F38D712,
     0x4A66395D748D2DA7, 0xB65703B0620B2A3A, 0x7DA8D0A53DA2DB95, 0x8854BB33AAA35855,
     0x87506F25A7D32D3B, 0xFF26C75F7E6A0981, 0xB23C1BC3CF2C366D, 0xFC0D152713A3DB7B,
     0x367E60A3B46612AD, 0xC9CB17FCF1F004CC, 0xF127AD7E0A9EE646, 0x259B4E47F65CCB8B,
     0x8C5A97115E431DF5]
     0x8000000000008080
   = [0x63B630A9E95518D8, 0x4C98362F5DA221A5, 0xC74A6ACE8B0146DB, 0x82C08D7772AE6528,
     0x1B2DEBBCAE43EBE8, 0x2A19F4D8C4181FC5, 0xE295EBC8D076DCC7, 0x07F1B19B89912CFE,
     0xF4C36AB61E0C9AA4, 0x0EF63EA35FDB70C2, 0x2C5D395CF6DA1E73, 0x0D96E2929BAFA63E,
     0xD2738D5B953F909C, 0xA9C6A7FFBA25AB7C, 0xB5E471850B947552, 0x9262F99A1E3C4487,
     0x94253DDA68087280, 0xC8165310954DF170, 0xCB3D5D06BFA3BA73, 0x7E482E46D43FA14C,
     0x9583CAEB22101FB5, 0xB461670C9934ECB6, 0x8119A5DFA21F9C68, 0xC911E18E7AE4D210,
     0x0DDE07F32A72BE8A]"
  by (simp add: keccak_round_def keccak_theta_lanes keccak_rho_pi_lanes keccak_chi_lanes word_rotl_lane)

lemma keccak_round_Gamma_GMA_23:
  "keccak_round
     [0x63B630A9E95518D8, 0x4C98362F5DA221A5, 0xC74A6ACE8B0146DB, 0x82C08D7772AE6528,
     0x1B2DEBBCAE43EBE8, 0x2A19F4D8C4181FC5, 0xE295EBC8D076DCC7, 0x07F1B19B89912CFE,
     0xF4C36AB61E0C9AA4, 0x0EF63EA35FDB70C2, 0x2C5D395CF6DA1E73, 0x0D96E2929BAFA63E,
     0xD2738D5B953F909C, 0xA9C6A7FFBA25AB7C, 0xB5E471850B947552, 0x9262F99A1E3C4487,
     0x94253DDA68087280, 0xC8165310954DF170, 0xCB3D5D06BFA3BA73, 0x7E482E46D43FA14C,
     0x9583CAEB22101FB5, 0xB461670C9934ECB6, 0x8119A5DFA21F9C68, 0xC911E18E7AE4D210,
     0x0DDE07F32A72BE8A]
     0x0000000080000001
   = [0x37C37AC2CB17E33E, 0x591DE3D893232273, 0xC9BB8B53F884A2AF, 0x5522B9F9F7F5D78F,
     0x51E3BC8195E85144, 0x8DBEC83E27C74B3C, 0xEB6836CA98D1E28D, 0x7653DEA1E8B82CC3,
     0x0B7EC82A75E4FAB3, 0xD56291E2844B3485, 0x322DD14CF7CE1947, 0xF9011D12DCB56F8A,
     0xF02515CE52CAA42A, 0x864E1988ED9DFE42, 0xFF4DA76B935922DA, 0x9B069E8E07139C3D,
     0xAB2CC0EFE079530D, 0xA1A531EDAE6C81C2, 0x746D80412E9BFC54, 0xA855C53AF13AB9A6,
     0x3EB3299653F17AAD, 0x581D6BE0FEAC19F7, 0x92E69F960188C76B, 0xDC7FC40CE95E5DAD,
     0x87F3A124F9D807F3]"
  by (simp add: keccak_round_def keccak_theta_lanes keccak_rho_pi_lanes keccak_chi_lanes word_rotl_lane)

lemma keccak_round_Gamma_GMA_24:
  "keccak_round
     [0x37C37AC2CB17E33E, 0x591DE3D893232273, 0xC9BB8B53F884A2AF, 0x5522B9F9F7F5D78F,
     0x51E3BC8195E85144, 0x8DBEC83E27C74B3C, 0xEB6836CA98D1E28D, 0x7653DEA1E8B82CC3,
     0x0B7EC82A75E4FAB3, 0xD56291E2844B3485, 0x322DD14CF7CE1947, 0xF9011D12DCB56F8A,
     0xF02515CE52CAA42A, 0x864E1988ED9DFE42, 0xFF4DA76B935922DA, 0x9B069E8E07139C3D,
     0xAB2CC0EFE079530D, 0xA1A531EDAE6C81C2, 0x746D80412E9BFC54, 0xA855C53AF13AB9A6,
     0x3EB3299653F17AAD, 0x581D6BE0FEAC19F7, 0x92E69F960188C76B, 0xDC7FC40CE95E5DAD,
     0x87F3A124F9D807F3]
     0x8000000080008008
   = [0xD20646C9523B776B, 0x9692C1F5476ED050, 0x5D2555D13374CF56, 0x5759B74DC4FC56B7,
     0x8DD092AA7773AB9E, 0x84C9A49EAD078899, 0x43CB3A7E128FEC85, 0xF63BFA2B759948E9,
     0x3B09CFF3D11F8EB4, 0x33566FB681997AFD, 0x5BCBCBFE0D5372E5, 0x9FF960DAE74B914B,
     0xC4147FF1423C4A1B, 0x87C2A80887639B32, 0x824D0B3141F06946, 0x3D428D6669D1454A,
     0xEE849C68D5CF7B33, 0x3E5CF165919605B4, 0x247553B749607CFC, 0x1CAD366EF23E7FF2,
     0xF06FC51E1B703CCB, 0x696F96E8AC2A6B9E, 0x56FEF9EA63834710, 0x9936FD7F9D4C2E35,
     0x33959DFC8DD41CC2]"
  by (simp add: keccak_round_def keccak_theta_lanes keccak_rho_pi_lanes keccak_chi_lanes word_rotl_lane)

lemma keccak_f_Gamma_GMA:
  "keccak_f
     [0x4D473A616D6D6147, 0x0000000000000141, 0x0000000000000000, 0x0000000000000000,
     0x0000000000000000, 0x0000000000000000, 0x0000000000000000, 0x0000000000000000,
     0x0000000000000000, 0x0000000000000000, 0x0000000000000000, 0x0000000000000000,
     0x0000000000000000, 0x0000000000000000, 0x0000000000000000, 0x0000000000000000,
     0x8000000000000000, 0x0000000000000000, 0x0000000000000000, 0x0000000000000000,
     0x0000000000000000, 0x0000000000000000, 0x0000000000000000, 0x0000000000000000,
     0x0000000000000000]
   = [0xD20646C9523B776B, 0x9692C1F5476ED050, 0x5D2555D13374CF56, 0x5759B74DC4FC56B7,
     0x8DD092AA7773AB9E, 0x84C9A49EAD078899, 0x43CB3A7E128FEC85, 0xF63BFA2B759948E9,
     0x3B09CFF3D11F8EB4, 0x33566FB681997AFD, 0x5BCBCBFE0D5372E5, 0x9FF960DAE74B914B,
     0xC4147FF1423C4A1B, 0x87C2A80887639B32, 0x824D0B3141F06946, 0x3D428D6669D1454A,
     0xEE849C68D5CF7B33, 0x3E5CF165919605B4, 0x247553B749607CFC, 0x1CAD366EF23E7FF2,
     0xF06FC51E1B703CCB, 0x696F96E8AC2A6B9E, 0x56FEF9EA63834710, 0x9936FD7F9D4C2E35,
     0x33959DFC8DD41CC2]"
  unfolding keccak_f_def keccak_RC_def
  by (simp only: foldl_Cons foldl_Nil keccak_round_Gamma_GMA_1 keccak_round_Gamma_GMA_2 keccak_round_Gamma_GMA_3 keccak_round_Gamma_GMA_4 keccak_round_Gamma_GMA_5 keccak_round_Gamma_GMA_6 keccak_round_Gamma_GMA_7 keccak_round_Gamma_GMA_8 keccak_round_Gamma_GMA_9 keccak_round_Gamma_GMA_10 keccak_round_Gamma_GMA_11 keccak_round_Gamma_GMA_12 keccak_round_Gamma_GMA_13 keccak_round_Gamma_GMA_14 keccak_round_Gamma_GMA_15 keccak_round_Gamma_GMA_16 keccak_round_Gamma_GMA_17 keccak_round_Gamma_GMA_18 keccak_round_Gamma_GMA_19 keccak_round_Gamma_GMA_20 keccak_round_Gamma_GMA_21 keccak_round_Gamma_GMA_22 keccak_round_Gamma_GMA_23 keccak_round_Gamma_GMA_24)

lemma keccak_block_Gamma_GMA:
  "take 136 [0x47, 0x61, 0x6d, 0x6d, 0x61, 0x3a, 0x47, 0x4d, 0x41, 0x01, 0x00, 0x00, 0x00, 0x00, 0x00, 0x00,
      0x00, 0x00, 0x00, 0x00, 0x00, 0x00, 0x00, 0x00, 0x00, 0x00, 0x00, 0x00, 0x00, 0x00, 0x00, 0x00,
      0x00, 0x00, 0x00, 0x00, 0x00, 0x00, 0x00, 0x00, 0x00, 0x00, 0x00, 0x00, 0x00, 0x00, 0x00, 0x00,
      0x00, 0x00, 0x00, 0x00, 0x00, 0x00, 0x00, 0x00, 0x00, 0x00, 0x00, 0x00, 0x00, 0x00, 0x00, 0x00,
      0x00, 0x00, 0x00, 0x00, 0x00, 0x00, 0x00, 0x00, 0x00, 0x00, 0x00, 0x00, 0x00, 0x00, 0x00, 0x00,
      0x00, 0x00, 0x00, 0x00, 0x00, 0x00, 0x00, 0x00, 0x00, 0x00, 0x00, 0x00, 0x00, 0x00, 0x00, 0x00,
      0x00, 0x00, 0x00, 0x00, 0x00, 0x00, 0x00, 0x00, 0x00, 0x00, 0x00, 0x00, 0x00, 0x00, 0x00, 0x00,
      0x00, 0x00, 0x00, 0x00, 0x00, 0x00, 0x00, 0x00, 0x00, 0x00, 0x00, 0x00, 0x00, 0x00, 0x00, 0x00,
      0x00, 0x00, 0x00, 0x00, 0x00, 0x00, 0x00, 0x80]
   = [0x47, 0x61, 0x6d, 0x6d, 0x61, 0x3a, 0x47, 0x4d, 0x41, 0x01, 0x00, 0x00, 0x00, 0x00, 0x00, 0x00,
     0x00, 0x00, 0x00, 0x00, 0x00, 0x00, 0x00, 0x00, 0x00, 0x00, 0x00, 0x00, 0x00, 0x00, 0x00, 0x00,
     0x00, 0x00, 0x00, 0x00, 0x00, 0x00, 0x00, 0x00, 0x00, 0x00, 0x00, 0x00, 0x00, 0x00, 0x00, 0x00,
     0x00, 0x00, 0x00, 0x00, 0x00, 0x00, 0x00, 0x00, 0x00, 0x00, 0x00, 0x00, 0x00, 0x00, 0x00, 0x00,
     0x00, 0x00, 0x00, 0x00, 0x00, 0x00, 0x00, 0x00, 0x00, 0x00, 0x00, 0x00, 0x00, 0x00, 0x00, 0x00,
     0x00, 0x00, 0x00, 0x00, 0x00, 0x00, 0x00, 0x00, 0x00, 0x00, 0x00, 0x00, 0x00, 0x00, 0x00, 0x00,
     0x00, 0x00, 0x00, 0x00, 0x00, 0x00, 0x00, 0x00, 0x00, 0x00, 0x00, 0x00, 0x00, 0x00, 0x00, 0x00,
     0x00, 0x00, 0x00, 0x00, 0x00, 0x00, 0x00, 0x00, 0x00, 0x00, 0x00, 0x00, 0x00, 0x00, 0x00, 0x00,
     0x00, 0x00, 0x00, 0x00, 0x00, 0x00, 0x00, 0x80]"
  "drop 136 [0x47, 0x61, 0x6d, 0x6d, 0x61, 0x3a, 0x47, 0x4d, 0x41, 0x01, 0x00, 0x00, 0x00, 0x00, 0x00, 0x00,
      0x00, 0x00, 0x00, 0x00, 0x00, 0x00, 0x00, 0x00, 0x00, 0x00, 0x00, 0x00, 0x00, 0x00, 0x00, 0x00,
      0x00, 0x00, 0x00, 0x00, 0x00, 0x00, 0x00, 0x00, 0x00, 0x00, 0x00, 0x00, 0x00, 0x00, 0x00, 0x00,
      0x00, 0x00, 0x00, 0x00, 0x00, 0x00, 0x00, 0x00, 0x00, 0x00, 0x00, 0x00, 0x00, 0x00, 0x00, 0x00,
      0x00, 0x00, 0x00, 0x00, 0x00, 0x00, 0x00, 0x00, 0x00, 0x00, 0x00, 0x00, 0x00, 0x00, 0x00, 0x00,
      0x00, 0x00, 0x00, 0x00, 0x00, 0x00, 0x00, 0x00, 0x00, 0x00, 0x00, 0x00, 0x00, 0x00, 0x00, 0x00,
      0x00, 0x00, 0x00, 0x00, 0x00, 0x00, 0x00, 0x00, 0x00, 0x00, 0x00, 0x00, 0x00, 0x00, 0x00, 0x00,
      0x00, 0x00, 0x00, 0x00, 0x00, 0x00, 0x00, 0x00, 0x00, 0x00, 0x00, 0x00, 0x00, 0x00, 0x00, 0x00,
      0x00, 0x00, 0x00, 0x00, 0x00, 0x00, 0x00, 0x80]
   = []"
  by simp_all

lemma keccak_blocks_Gamma_GMA:
  "keccak_blocks (replicate 25 0)
     [0x47, 0x61, 0x6d, 0x6d, 0x61, 0x3a, 0x47, 0x4d, 0x41, 0x01, 0x00, 0x00, 0x00, 0x00, 0x00, 0x00,
     0x00, 0x00, 0x00, 0x00, 0x00, 0x00, 0x00, 0x00, 0x00, 0x00, 0x00, 0x00, 0x00, 0x00, 0x00, 0x00,
     0x00, 0x00, 0x00, 0x00, 0x00, 0x00, 0x00, 0x00, 0x00, 0x00, 0x00, 0x00, 0x00, 0x00, 0x00, 0x00,
     0x00, 0x00, 0x00, 0x00, 0x00, 0x00, 0x00, 0x00, 0x00, 0x00, 0x00, 0x00, 0x00, 0x00, 0x00, 0x00,
     0x00, 0x00, 0x00, 0x00, 0x00, 0x00, 0x00, 0x00, 0x00, 0x00, 0x00, 0x00, 0x00, 0x00, 0x00, 0x00,
     0x00, 0x00, 0x00, 0x00, 0x00, 0x00, 0x00, 0x00, 0x00, 0x00, 0x00, 0x00, 0x00, 0x00, 0x00, 0x00,
     0x00, 0x00, 0x00, 0x00, 0x00, 0x00, 0x00, 0x00, 0x00, 0x00, 0x00, 0x00, 0x00, 0x00, 0x00, 0x00,
     0x00, 0x00, 0x00, 0x00, 0x00, 0x00, 0x00, 0x00, 0x00, 0x00, 0x00, 0x00, 0x00, 0x00, 0x00, 0x00,
     0x00, 0x00, 0x00, 0x00, 0x00, 0x00, 0x00, 0x80]
   = [0xD20646C9523B776B, 0x9692C1F5476ED050, 0x5D2555D13374CF56, 0x5759B74DC4FC56B7,
     0x8DD092AA7773AB9E, 0x84C9A49EAD078899, 0x43CB3A7E128FEC85, 0xF63BFA2B759948E9,
     0x3B09CFF3D11F8EB4, 0x33566FB681997AFD, 0x5BCBCBFE0D5372E5, 0x9FF960DAE74B914B,
     0xC4147FF1423C4A1B, 0x87C2A80887639B32, 0x824D0B3141F06946, 0x3D428D6669D1454A,
     0xEE849C68D5CF7B33, 0x3E5CF165919605B4, 0x247553B749607CFC, 0x1CAD366EF23E7FF2,
     0xF06FC51E1B703CCB, 0x696F96E8AC2A6B9E, 0x56FEF9EA63834710, 0x9936FD7F9D4C2E35,
     0x33959DFC8DD41CC2]"
  by (subst keccak_blocks.simps, simp only: keccak_block_Gamma_GMA keccak_absorb_def keccak_lanes_Gamma_GMA keccak_f_Gamma_GMA,
      subst keccak_blocks.simps, simp)

lemma keccak_digest_Gamma_GMA:
  "hexlify (concat (map bytes_of_lane (take 4
     [0xD20646C9523B776B, 0x9692C1F5476ED050, 0x5D2555D13374CF56, 0x5759B74DC4FC56B7,
     0x8DD092AA7773AB9E, 0x84C9A49EAD078899, 0x43CB3A7E128FEC85, 0xF63BFA2B759948E9,
     0x3B09CFF3D11F8EB4, 0x33566FB681997AFD, 0x5BCBCBFE0D5372E5, 0x9FF960DAE74B914B,
     0xC4147FF1423C4A1B, 0x87C2A80887639B32, 0x824D0B3141F06946, 0x3D428D6669D1454A,
     0xEE849C68D5CF7B33, 0x3E5CF165919605B4, 0x247553B749607CFC, 0x1CAD366EF23E7FF2,
     0xF06FC51E1B703CCB, 0x696F96E8AC2A6B9E, 0x56FEF9EA63834710, 0x9936FD7F9D4C2E35,
     0x33959DFC8DD41CC2])))
   = ''0x6b773b52c94606d250d06e47f5c1929656cf7433d155255db756fcc44db75957''"
  by code_simp

lemma keccak256_Gamma_GMA:
  "keccak256 [0x47, 0x61, 0x6d, 0x6d, 0x61, 0x3a, 0x47, 0x4d, 0x41]
   = ''0x6b773b52c94606d250d06e47f5c1929656cf7433d155255db756fcc44db75957''"
  unfolding keccak256_def keccak256_bytes_def
  by (simp only: keccak_pad_Gamma_GMA keccak_blocks_Gamma_GMA keccak_digest_Gamma_GMA)

section \<open>Rules for the calls of statement sequences\<close>


lemma only_calls_ret: "only_calls P (ret x)"
  by (simp add: only_calls_def ret_def)

lemma only_calls_lift: "only_calls P (lift v)"
  by (simp add: only_calls_def lift_def)

lemma only_calls_get: "only_calls P (\<lambda>st. (Inr (f st), st))"
  by (simp add: only_calls_def)

lemma only_calls_push:
  "only_calls P (results_push l)" "only_calls P (peeringResults_push s)"
  "only_calls P (enforcedOptionsResults_push s)" "only_calls P (deployedContractsData_push d)"
  "only_calls P (deployedContractsSummary_push e)"
  by (simp_all add: only_calls_def results_push_def peeringResults_push_def
        enforcedOptionsResults_push_def deployedContractsData_push_def
        deployedContractsSummary_push_def)

lemma only_calls_ask: "P c \<Longrightarrow> only_calls P (ask c f)"
  by (simp add: only_calls_def ask_def)

lemma only_calls_and_then:
  assumes "only_calls P m" "\<And>x. only_calls P (f x)"
  shows "only_calls P (and_then m f)"
proof (unfold only_calls_def, rule allI)
  fix st
  obtain r st1 where m: "m st = (r, st1)" by (cases "m st")
  from assms(1) obtain cs where cs: "calls st1 = calls st @ cs" "list_all P cs"
    unfolding only_calls_def using m by (metis snd_conv)
  show "\<exists>cs. calls (snd (and_then m f st)) = calls st @ cs \<and> list_all P cs"
  proof (cases r)
    case (Inl e)
    then show ?thesis using m cs by (simp add: and_then_def)
  next
    case (Inr x)
    from assms(2)[of x] obtain ds where "calls (snd (f x st1)) = calls st1 @ ds" "list_all P ds"
      unfolding only_calls_def by blast
    then show ?thesis using m cs Inr by (simp add: and_then_def)
  qed
qed

lemma only_calls_lift_then:
  assumes "\<And>x. v = Inr x \<Longrightarrow> only_calls P (f x)"
  shows "only_calls P (and_then (lift v) f)"
proof (cases v)
  case (Inl e)
  then show ?thesis by (simp add: only_calls_def and_then_def lift_def)
next
  case (Inr x)
  then have "and_then (lift v) f = f x" by (auto simp: and_then_def lift_def)
  then show ?thesis using assms[OF Inr] by simp
qed

lemma only_calls_try_catch:
  assumes "only_calls P m" "\<And>e. only_calls P (h e)"
  shows "only_calls P (try_catch m h)"
proof (unfold only_calls_def, rule allI)
  fix st
  obtain r st1 where m: "m st = (r, st1)" by (cases "m st")
  from assms(1) obtain cs where cs: "calls st1 = calls st @ cs" "list_all P cs"
    unfolding only_calls_def using m by (metis snd_conv)
  show "\<exists>cs. calls (snd (try_catch m h st)) = calls st @ cs \<and> list_all P cs"
  proof (cases r)
    case (Inr x)
    then show ?thesis using m cs by (simp add: try_catch_def)
  next
    case (Inl e)
    from assms(2)[of e] obtain ds where "calls (snd (h e st1)) = calls st1 @ ds" "list_all P ds"
      unfolding only_calls_def by blast
    then show ?thesis using m cs Inl by (simp add: try_catch_def)
  qed
qed

lemma only_calls_mono: "only_calls P m \<Longrightarrow> (\<And>c. P c \<Longrightarrow> Q c) \<Longrightarrow> only_calls Q m"
  unfolding only_calls_def by (metis (mono_tags, lifting) list_all_iff)

lemmas only_calls_intros = only_calls_ret only_calls_lift only_calls_get only_calls_push
  only_calls_and_then only_calls_try_catch

lemma only_calls_case_option:
  "only_calls P m \<Longrightarrow> (\<And>x. only_calls P (f x)) \<Longrightarrow> only_calls P (case r of None \<Rightarrow> m | Some x \<Rightarrow> f x)"
  by (cases r) simp_all

lemma only_calls_case_sum:
  "(\<And>x. only_calls P (f x)) \<Longrightarrow> (\<And>x. only_calls P (g x)) \<Longrightarrow> only_calls P (case r of Inl x \<Rightarrow> f x | Inr x \<Rightarrow> g x)"
  by (cases r) simp_all

lemma only_calls_if:
  "only_calls P m \<Longrightarrow> only_calls P m' \<Longrightarrow> only_calls P (if b then m else m')"
  by simp

section \<open>The calls of the deployment handler\<close>


lemma deploy_try_salt:
  "only_calls (\<lambda>c. is_deployment_call c \<and> salt_ok (tokenName params) (tokenSymbol params) c)
     (deploy_try w params a b own c)"
  unfolding deploy_try_def Let_def readFile_parse_def factory_deploy_def tx_wait_def
    factory_lastDeployedAddress_def
  by (intro only_calls_lift_then only_calls_intros only_calls_ask allI) (simp_all add: salted_def)

lemma deploy_catch_calls: "only_calls P (deploy_catch w params a b own c e)"
  unfolding deploy_catch_def Let_def
  by (intro only_calls_intros)

lemma deploy_chain_salt:
  "only_calls (\<lambda>c. is_deployment_call c \<and> salt_ok (tokenName params) (tokenSymbol params) c)
     (deploy_chain w params a b own c)"
  unfolding deploy_chain_def
  by (intro only_calls_intros deploy_try_salt deploy_catch_calls)

lemma deploy_loop_salt:
  "only_calls (\<lambda>c. is_deployment_call c \<and> salt_ok (tokenName params) (tokenSymbol params) c)
     (deploy_loop w params a b own cs)"
  by (induction cs)
     (auto intro!: only_calls_intros deploy_chain_salt only_calls_case_option)

lemma phase_B_salt:
  "only_calls (\<lambda>c. is_deployment_call c \<and> salt_ok (tokenName params) (tokenSymbol params) c)
     (phase_B w params a b own)"
  unfolding phase_B_def Let_def
  by (intro only_calls_intros deploy_loop_salt only_calls_case_option)

lemma phase_A_calls: "only_calls (\<lambda>c. is_deployment_call c \<and> \<not> is_Deploy c) (phase_A w params)"
  unfolding phase_A_def Let_def readFile_parse_def
  by (intro only_calls_intros only_calls_ask only_calls_case_option only_calls_if) simp_all

lemma not_Deploy_salt_ok: "\<not> is_Deploy c \<Longrightarrow> salt_ok n s c"
  by (cases c) simp_all

lemma phases_AB_salt:
  "only_calls (\<lambda>c. is_deployment_call c \<and> salt_ok (tokenName params) (tokenSymbol params) c)
     (phases_AB w params)"
  unfolding phases_AB_def
  by (intro only_calls_intros only_calls_case_sum only_calls_mono[OF phase_A_calls])
     (auto intro: phase_B_salt not_Deploy_salt_ok)

lemma peer_pair_calls: "only_calls (\<lambda>c. \<not> is_Deploy c) (peer_pair w x y)"
  unfolding peer_pair_def Let_def contract_setPeer_def tx_wait_def
  by (intro only_calls_intros only_calls_ask) simp_all

lemma peer_inner_calls: "only_calls (\<lambda>c. \<not> is_Deploy c) (peer_inner w x ys)"
  by (induction ys) (auto intro!: only_calls_intros peer_pair_calls only_calls_case_option)

lemma peer_outer_calls: "only_calls (\<lambda>c. \<not> is_Deploy c) (peer_outer w ys xs)"
  by (induction xs) (auto intro!: only_calls_intros peer_inner_calls only_calls_case_option)

lemma phase_C_calls: "only_calls (\<lambda>c. \<not> is_Deploy c) (phase_C w)"
  unfolding phase_C_def Let_def
  by (intro only_calls_intros only_calls_if only_calls_case_option peer_outer_calls)

lemma options_contract_calls: "only_calls (\<lambda>c. \<not> is_Deploy c) (options_contract w ys x)"
  unfolding options_contract_def Let_def contract_setEnforcedOptions_def tx_wait_def
  by (intro only_calls_intros only_calls_ask only_calls_if) simp_all

lemma options_loop_calls: "only_calls (\<lambda>c. \<not> is_Deploy c) (options_loop w ys xs)"
  by (induction xs) (auto intro!: only_calls_intros options_contract_calls only_calls_case_option)

lemma phase_D_calls: "only_calls (\<lambda>c. \<not> is_Deploy c) (phase_D w)"
  unfolding phase_D_def Let_def
  by (intro only_calls_intros only_calls_if only_calls_case_option options_loop_calls)

lemma phase_E_calls: "only_calls P phase_E"
  unfolding phase_E_def by (intro only_calls_intros)

lemma phases_CDE_calls: "only_calls (\<lambda>c. \<not> is_Deploy c) (phases_CDE w)"
  unfolding phases_CDE_def
  by (intro only_calls_intros only_calls_case_option phase_C_calls phase_D_calls phase_E_calls)

lemma deploy_handler_salt:
  "only_calls (salt_ok (tokenName params) (tokenSymbol params)) (deploy_handler w params)"
  unfolding deploy_handler_def
  by (intro only_calls_intros only_calls_case_option only_calls_mono[OF phases_AB_salt]
            only_calls_mono[OF phases_CDE_calls])
     (auto intro: not_Deploy_salt_ok)

lemma snd_run: "snd (run m) = snd (m initial_state)"
  by (simp add: run_def split: prod.splits sum.splits)

lemma only_calls_run:
  assumes "only_calls P m"
  shows "list_all P (calls (snd (run m)))"
proof -
  obtain cs where "calls (snd (m initial_state)) = calls initial_state @ cs" "list_all P cs"
    using assms unfolding only_calls_def by blast
  then show ?thesis by (simp add: snd_run initial_state_def)
qed

lemma salts_of_ok: "list_all (salt_ok n s) cs \<Longrightarrow> list_all (salted n s) (deploy_salts cs)"
  by (induction cs rule: deploy_salts.induct) simp_all

section \<open>The handler and the \<open>decimals\<close> parameter\<close>


lemma log_blind_ret: "log_blind (ret x) (ret x)"
  by (simp add: log_blind_def ret_def)

lemma log_blind_lift: "log_blind (lift v) (lift v)"
  by (simp add: log_blind_def lift_def)

lemma log_blind_data: "log_blind (\<lambda>st. (Inr (deployedContractsData st), st)) (\<lambda>st. (Inr (deployedContractsData st), st))"
  by (simp add: log_blind_def same_but_log_def)

lemma log_blind_results_push: "log_blind (results_push s) (results_push s')"
  by (simp add: log_blind_def results_push_def same_but_log_def)

lemma log_blind_push:
  "log_blind (peeringResults_push s) (peeringResults_push s)"
  "log_blind (enforcedOptionsResults_push s) (enforcedOptionsResults_push s)"
  "log_blind (deployedContractsData_push d) (deployedContractsData_push d)"
  "log_blind (deployedContractsSummary_push e) (deployedContractsSummary_push e)"
  by (simp_all add: log_blind_def same_but_log_def peeringResults_push_def
        enforcedOptionsResults_push_def deployedContractsData_push_def
        deployedContractsSummary_push_def)

lemma log_blind_ask: "log_blind (ask c f) (ask c f)"
  by (simp add: log_blind_def ask_def same_but_log_def)

lemma log_blind_and_then:
  assumes "log_blind m m'" "\<And>x. log_blind (f x) (f' x)"
  shows "log_blind (and_then m f) (and_then m' f')"
proof (unfold log_blind_def, intro allI impI)
  fix st st'
  assume s: "same_but_log st st'"
  obtain r st1 where m: "m st = (r, st1)" by (cases "m st")
  obtain r' st1' where m': "m' st' = (r', st1')" by (cases "m' st'")
  from assms(1) s m m' have r: "r' = r" "same_but_log st1 st1'"
    unfolding log_blind_def by (metis fst_conv, metis snd_conv)
  show "fst (and_then m f st) = fst (and_then m' f' st')
        \<and> same_but_log (snd (and_then m f st)) (snd (and_then m' f' st'))"
  proof (cases r)
    case (Inl e)
    then show ?thesis using m m' r by (simp add: and_then_def)
  next
    case (Inr x)
    then show ?thesis using m m' r assms(2)[of x]
      by (simp add: and_then_def log_blind_def)
  qed
qed

lemma log_blind_try_catch:
  assumes "log_blind m m'" "\<And>e. log_blind (h e) (h' e)"
  shows "log_blind (try_catch m h) (try_catch m' h')"
proof (unfold log_blind_def, intro allI impI)
  fix st st'
  assume s: "same_but_log st st'"
  obtain r st1 where m: "m st = (r, st1)" by (cases "m st")
  obtain r' st1' where m': "m' st' = (r', st1')" by (cases "m' st'")
  from assms(1) s m m' have r: "r' = r" "same_but_log st1 st1'"
    unfolding log_blind_def by (metis fst_conv, metis snd_conv)
  show "fst (try_catch m h st) = fst (try_catch m' h' st')
        \<and> same_but_log (snd (try_catch m h st)) (snd (try_catch m' h' st'))"
  proof (cases r)
    case (Inr x)
    then show ?thesis using m m' r by (simp add: try_catch_def)
  next
    case (Inl e)
    then show ?thesis using m m' r assms(2)[of e]
      by (simp add: try_catch_def log_blind_def)
  qed
qed

lemma log_blind_run_and_then:
  assumes "log_blind m m'" "\<And>x. log_blind_run (f x) (f' x)"
  shows "log_blind_run (and_then m f) (and_then m' f')"
proof (unfold log_blind_run_def, intro allI impI)
  fix st st'
  assume s: "same_but_log st st'"
  obtain r st1 where m: "m st = (r, st1)" by (cases "m st")
  obtain r' st1' where m': "m' st' = (r', st1')" by (cases "m' st'")
  from assms(1) s m m' have r: "r' = r" "same_but_log st1 st1'"
    unfolding log_blind_def by (metis fst_conv, metis snd_conv)
  show "same_but_log (snd (and_then m f st)) (snd (and_then m' f' st'))"
  proof (cases r)
    case (Inl e)
    then show ?thesis using m m' r by (simp add: and_then_def)
  next
    case (Inr x)
    then show ?thesis using m m' r assms(2)[of x]
      by (simp add: and_then_def log_blind_run_def)
  qed
qed

lemma log_blind_run_weaken: "log_blind m m' \<Longrightarrow> log_blind_run m m'"
  by (simp add: log_blind_def log_blind_run_def)

lemma log_blind_case_option:
  "log_blind m m' \<Longrightarrow> (\<And>x. log_blind (f x) (f' x))
   \<Longrightarrow> log_blind (case r of None \<Rightarrow> m | Some x \<Rightarrow> f x) (case r of None \<Rightarrow> m' | Some x \<Rightarrow> f' x)"
  by (cases r) simp_all

lemma log_blind_run_case_option:
  "log_blind_run m m' \<Longrightarrow> (\<And>x. log_blind_run (f x) (f' x))
   \<Longrightarrow> log_blind_run (case r of None \<Rightarrow> m | Some x \<Rightarrow> f x) (case r of None \<Rightarrow> m' | Some x \<Rightarrow> f' x)"
  by (cases r) simp_all

lemma log_blind_case_sum:
  "(\<And>x. log_blind (f x) (f' x)) \<Longrightarrow> (\<And>x. log_blind (g x) (g' x))
   \<Longrightarrow> log_blind (case r of Inl x \<Rightarrow> f x | Inr x \<Rightarrow> g x) (case r of Inl x \<Rightarrow> f' x | Inr x \<Rightarrow> g' x)"
  by (cases r) simp_all

lemma log_blind_if:
  "log_blind m m' \<Longrightarrow> log_blind n n' \<Longrightarrow> log_blind (if b then m else n) (if b then m' else n')"
  by simp

lemmas log_blind_intros = log_blind_ret log_blind_lift log_blind_data log_blind_results_push
  log_blind_push log_blind_ask log_blind_and_then log_blind_try_catch log_blind_case_option
  log_blind_case_sum log_blind_if

lemma log_blind_phase_A: "log_blind (phase_A w (params\<lparr>decimals := d\<rparr>)) (phase_A w params)"
  unfolding phase_A_def Let_def readFile_parse_def
  by ((intro log_blind_intros | simp split del: if_split)+)

lemma log_blind_deploy_try:
  "log_blind (deploy_try w (params\<lparr>decimals := d\<rparr>) a b own c) (deploy_try w params a b own c)"
  unfolding deploy_try_def Let_def readFile_parse_def factory_deploy_def tx_wait_def
    factory_lastDeployedAddress_def
  by ((intro log_blind_intros | simp split del: if_split)+)

lemma log_blind_deploy_catch:
  "log_blind (deploy_catch w (params\<lparr>decimals := d\<rparr>) a b own c e) (deploy_catch w params a b own c e)"
  unfolding deploy_catch_def Let_def
  by ((intro log_blind_intros | simp split del: if_split)+)

lemma log_blind_deploy_chain:
  "log_blind (deploy_chain w (params\<lparr>decimals := d\<rparr>) a b own c) (deploy_chain w params a b own c)"
  unfolding deploy_chain_def
  by (intro log_blind_intros log_blind_deploy_try log_blind_deploy_catch)

lemma log_blind_deploy_loop:
  "log_blind (deploy_loop w (params\<lparr>decimals := d\<rparr>) a b own cs) (deploy_loop w params a b own cs)"
  by (induction cs) (auto intro!: log_blind_intros log_blind_deploy_chain)

lemma log_blind_phase_B:
  "log_blind (phase_B w (params\<lparr>decimals := d\<rparr>) a b own) (phase_B w params a b own)"
  unfolding phase_B_def Let_def
  by ((intro log_blind_intros log_blind_deploy_loop | simp split del: if_split)+)

lemma log_blind_phases_AB:
  "log_blind (phases_AB w (params\<lparr>decimals := d\<rparr>)) (phases_AB w params)"
  unfolding phases_AB_def
  by (intro log_blind_intros log_blind_phase_A) (auto intro!: log_blind_intros log_blind_phase_B)

lemma log_blind_peer_pair: "log_blind (peer_pair w x y) (peer_pair w x y)"
  unfolding peer_pair_def Let_def contract_setPeer_def tx_wait_def
  by (intro log_blind_intros)

lemma log_blind_peer_inner: "log_blind (peer_inner w x ys) (peer_inner w x ys)"
  by (induction ys) (auto intro!: log_blind_intros log_blind_peer_pair)

lemma log_blind_peer_outer: "log_blind (peer_outer w ys xs) (peer_outer w ys xs)"
  by (induction xs) (auto intro!: log_blind_intros log_blind_peer_inner)

lemma log_blind_phase_C: "log_blind (phase_C w) (phase_C w)"
  unfolding phase_C_def Let_def
  by (intro log_blind_intros log_blind_peer_outer)

lemma log_blind_options_contract: "log_blind (options_contract w ys x) (options_contract w ys x)"
  unfolding options_contract_def Let_def contract_setEnforcedOptions_def tx_wait_def
  by (intro log_blind_intros)

lemma log_blind_options_loop: "log_blind (options_loop w ys xs) (options_loop w ys xs)"
  by (induction xs) (auto intro!: log_blind_intros log_blind_options_contract)

lemma log_blind_phase_D: "log_blind (phase_D w) (phase_D w)"
  unfolding phase_D_def Let_def
  by (intro log_blind_intros log_blind_options_loop)

lemma log_blind_run_phase_E: "log_blind_run phase_E phase_E"
  by (simp add: log_blind_run_def phase_E_def and_then_def results_push_def same_but_log_def)

lemma log_blind_run_phases_CDE: "log_blind_run (phases_CDE w) (phases_CDE w)"
  unfolding phases_CDE_def
  by (intro log_blind_run_and_then log_blind_phase_C log_blind_phase_D log_blind_run_case_option
        log_blind_run_phase_E log_blind_run_weaken[OF log_blind_ret])

lemma log_blind_run_deploy_handler:
  "log_blind_run (deploy_handler w (params\<lparr>decimals := d\<rparr>)) (deploy_handler w params)"
  unfolding deploy_handler_def
  by (intro log_blind_run_and_then log_blind_phases_AB log_blind_run_case_option
        log_blind_run_phases_CDE log_blind_run_weaken[OF log_blind_ret])

lemma decimals_not_applied:
  "same_but_log (snd (deployAndConfigure w (params\<lparr>decimals := d\<rparr>))) (snd (deployAndConfigure w params))"
  unfolding deployAndConfigure_def snd_run
  using log_blind_run_deploy_handler [where w=w and params=params and d=d]
  by (simp add: log_blind_run_def same_but_log_def)

section \<open>What the deployment phase leaves untouched\<close>


lemma keeps_ret: "keeps_config_logs (ret x)"
  by (simp add: keeps_config_logs_def ret_def)

lemma keeps_lift: "keeps_config_logs (lift v)"
  by (simp add: keeps_config_logs_def lift_def)

lemma keeps_push:
  "keeps_config_logs (results_push s)" "keeps_config_logs (deployedContractsData_push d)"
  "keeps_config_logs (deployedContractsSummary_push e)" "keeps_config_logs (ask c f)"
  by (simp_all add: keeps_config_logs_def results_push_def deployedContractsData_push_def
        deployedContractsSummary_push_def ask_def)

lemma keeps_and_then:
  assumes "keeps_config_logs m" "\<And>x. keeps_config_logs (f x)"
  shows "keeps_config_logs (and_then m f)"
proof -
  have "peeringResults (snd (and_then m f st)) = peeringResults st
        \<and> enforcedOptionsResults (snd (and_then m f st)) = enforcedOptionsResults st" for st
  proof -
    obtain r st1 where m: "m st = (r, st1)" by (cases "m st")
    then have k: "peeringResults st1 = peeringResults st"
        "enforcedOptionsResults st1 = enforcedOptionsResults st"
      using assms(1) unfolding keeps_config_logs_def by (metis snd_conv)+
    show ?thesis
    proof (cases r)
      case (Inl e)
      then show ?thesis using m k by (simp add: and_then_def)
    next
      case (Inr x)
      then show ?thesis using m k assms(2)[of x]
        by (simp add: and_then_def keeps_config_logs_def)
    qed
  qed
  then show ?thesis unfolding keeps_config_logs_def by blast
qed

lemma keeps_try_catch:
  assumes "keeps_config_logs m" "\<And>e. keeps_config_logs (h e)"
  shows "keeps_config_logs (try_catch m h)"
proof -
  have "peeringResults (snd (try_catch m h st)) = peeringResults st
        \<and> enforcedOptionsResults (snd (try_catch m h st)) = enforcedOptionsResults st" for st
  proof -
    obtain r st1 where m: "m st = (r, st1)" by (cases "m st")
    then have k: "peeringResults st1 = peeringResults st"
        "enforcedOptionsResults st1 = enforcedOptionsResults st"
      using assms(1) unfolding keeps_config_logs_def by (metis snd_conv)+
    show ?thesis
    proof (cases r)
      case (Inr x)
      then show ?thesis using m k by (simp add: try_catch_def)
    next
      case (Inl e)
      then show ?thesis using m k assms(2)[of e]
        by (simp add: try_catch_def keeps_config_logs_def)
    qed
  qed
  then show ?thesis unfolding keeps_config_logs_def by blast
qed

lemma keeps_case_option:
  "keeps_config_logs m \<Longrightarrow> (\<And>x. keeps_config_logs (f x))
   \<Longrightarrow> keeps_config_logs (case r of None \<Rightarrow> m | Some x \<Rightarrow> f x)"
  by (cases r) simp_all

lemma keeps_case_sum:
  "(\<And>x. keeps_config_logs (f x)) \<Longrightarrow> (\<And>x. keeps_config_logs (g x))
   \<Longrightarrow> keeps_config_logs (case r of Inl x \<Rightarrow> f x | Inr x \<Rightarrow> g x)"
  by (cases r) simp_all

lemma keeps_if:
  "keeps_config_logs m \<Longrightarrow> keeps_config_logs m' \<Longrightarrow> keeps_config_logs (if b then m else m')"
  by simp

lemma keeps_case_prod:
  "(\<And>a b. keeps_config_logs (f a b)) \<Longrightarrow> keeps_config_logs (case p of (a, b) \<Rightarrow> f a b)"
  by (cases p) simp

lemmas keeps_intros = keeps_case_prod keeps_ret keeps_lift keeps_push keeps_and_then keeps_try_catch
  keeps_case_option keeps_case_sum keeps_if

lemma keeps_deploy_loop: "keeps_config_logs (deploy_loop w params a b own cs)"
proof (induction cs)
  case Nil
  then show ?case by (simp add: keeps_ret)
next
  case (Cons c cs)
  have "keeps_config_logs (deploy_chain w params a b own c)"
    unfolding deploy_chain_def deploy_try_def deploy_catch_def Let_def readFile_parse_def
      factory_deploy_def tx_wait_def factory_lastDeployedAddress_def
    by (intro keeps_intros)
  then show ?case using Cons by (auto intro!: keeps_intros)
qed

lemma keeps_phases_AB: "keeps_config_logs (phases_AB w params)"
  unfolding phases_AB_def phase_A_def phase_B_def Let_def readFile_parse_def
  by (intro keeps_intros keeps_deploy_loop | simp split del: if_split)+

lemma deployment_phase_config_logs:
  "peeringResults (snd (deployment_phase w params)) = []"
  "enforcedOptionsResults (snd (deployment_phase w params)) = []"
  using keeps_phases_AB [of w params]
  unfolding keeps_config_logs_def deployment_phase_def by (simp_all add: initial_state_def)

lemma deployment_phase_calls:
  "list_all is_deployment_call (calls (snd (deployment_phase w params)))"
proof -
  have "only_calls is_deployment_call (phases_AB w params)"
    by (rule only_calls_mono [OF phases_AB_salt]) simp
  then obtain cs where "calls (snd (phases_AB w params initial_state)) = calls initial_state @ cs"
      "list_all is_deployment_call cs"
    unfolding only_calls_def by blast
  then show ?thesis
    unfolding deployment_phase_def by (simp add: initial_state_def)
qed

section \<open>Evaluation of the examples\<close>


lemmas monad_defs = ret_def lift_def and_then_def try_catch_def ask_def results_push_def
  peeringResults_push_def enforcedOptionsResults_push_def deployedContractsData_push_def
  deployedContractsSummary_push_def readFile_parse_def factory_deploy_def tx_wait_def
  factory_lastDeployedAddress_def contract_setPeer_def contract_setEnforcedOptions_def
  contract_quoteSend_def contract_send_def

lemmas handler_defs = deployAndConfigure_def run_def deploy_handler_def phases_AB_def phases_CDE_def
  phase_A_def phase_B_def phase_C_def phase_D_def phase_E_def
  deploy_chain_def deploy_try_def deploy_catch_def peer_pair_def options_contract_def
  getSigner_def getNetworkConfig_def NETWORKS_def FACTORY_ADDRESSES_def new_Interface_def new_Contract_def
  startsWith_def initial_state_def

lemma parseUnits_1000000: "parseUnits ''1000000'' 0 = Inr 1000000"
  by (simp add: parseUnits_def match_fixed_def is_digit_def nat_of_digits_def digit_val_def pad_decimal.simps)

lemma solidityPacked_example: "solidityPacked ''0x60'' ''0x00'' = Inr ''0x6000''"
  by (simp add: solidityPacked_def getBytes_def hex_digit_val_table hexlify_def hex_of_byte_nat HexCharacters_nth)

lemma format_deployed_address:
  "formatAddressForLayerZero ''0x1111111111111111111111111111111111111111''
   = Inr ''0x0000000000000000000000001111111111111111111111111111111111111111''"
proof -
  have r: "replicate 24 (CHR ''0'') = ''000000000000000000000000''"
    by (simp add: numeral_eq_Suc)
  show ?thesis
    unfolding formatAddressForLayerZero_chars
    by (simp add: is_BytesLike_def is_hex_digit_def hex_digit_val_table r lower_hex_simps)
qed

lemma toUtf8Bytes_Gamma_GMA:
  "toUtf8Bytes (code_units ''Gamma:GMA'') = Inr [0x47, 0x61, 0x6d, 0x6d, 0x61, 0x3a, 0x47, 0x4d, 0x41]"
  by (simp add: toUtf8Bytes_ascii)

lemmas example_evals = parseUnits_1000000 solidityPacked_example format_deployed_address
  code_units_join toUtf8Bytes_ascii includes_str_code_units

lemma parseUnits_abc:
  "parseUnits ''abc'' 0 = Inl (EthersError INVALID_ARGUMENT ''invalid FixedNumber string value'')"
  by (simp add: parseUnits_def match_fixed_def is_digit_def)

section \<open>Early returns are error payloads\<close>


lemma yields_ret: "Q x \<Longrightarrow> yields Q (ret x)"
  by (simp add: yields_def ret_def)

lemma yields_and_then:
  assumes "\<And>x. yields Q (f x)"
  shows "yields Q (and_then m f)"
proof -
  have "case fst (and_then m f st) of Inl e \<Rightarrow> True | Inr x \<Rightarrow> Q x" for st
  proof (cases "m st")
    case (Pair r st1)
    then show ?thesis using assms unfolding yields_def and_then_def
      by (cases r) simp_all
  qed
  then show ?thesis unfolding yields_def by blast
qed

lemma yields_try_catch:
  assumes "yields Q m" "\<And>e. yields Q (h e)"
  shows "yields Q (try_catch m h)"
proof -
  have "case fst (try_catch m h st) of Inl e \<Rightarrow> True | Inr x \<Rightarrow> Q x" for st
  proof (cases "m st")
    case (Pair r st1)
    then show ?thesis using assms(1)[unfolded yields_def, rule_format, of st] assms(2)
      unfolding yields_def try_catch_def by (cases r) simp_all
  qed
  then show ?thesis unfolding yields_def by blast
qed

lemma yields_case_option:
  "yields Q m \<Longrightarrow> (\<And>x. yields Q (f x)) \<Longrightarrow> yields Q (case r of None \<Rightarrow> m | Some x \<Rightarrow> f x)"
  by (cases r) simp_all

lemma yields_case_sum:
  "(\<And>x. yields Q (f x)) \<Longrightarrow> (\<And>x. yields Q (g x)) \<Longrightarrow> yields Q (case r of Inl x \<Rightarrow> f x | Inr x \<Rightarrow> g x)"
  by (cases r) simp_all

lemma yields_case_prod:
  "(\<And>a b. yields Q (f a b)) \<Longrightarrow> yields Q (case p of (a, b) \<Rightarrow> f a b)"
  by (cases p) simp

lemma yields_if: "yields Q m \<Longrightarrow> yields Q m' \<Longrightarrow> yields Q (if b then m else m')"
  by simp

lemmas yields_intros = yields_and_then yields_try_catch yields_case_option yields_case_sum
  yields_case_prod yields_if

lemma yields_bind:
  assumes "yields P m" "\<And>x. P x \<Longrightarrow> yields Q (f x)"
  shows "yields Q (and_then m f)"
proof -
  have "case fst (and_then m f st) of Inl e \<Rightarrow> True | Inr x \<Rightarrow> Q x" for st
  proof (cases "m st")
    case (Pair r st1)
    show ?thesis
    proof (cases r)
      case (Inl e)
      then show ?thesis using Pair by (simp add: and_then_def)
    next
      case (Inr x)
      then have "P x" using assms(1) Pair unfolding yields_def by (metis fst_conv sum.case(2))
      then show ?thesis using assms(2)[of x] Pair Inr by (simp add: and_then_def yields_def)
    qed
  qed
  then show ?thesis unfolding yields_def by blast
qed

lemma yields_pass_on:
  "early_error r \<Longrightarrow> yields early_error m
   \<Longrightarrow> yields early_error (case r of None \<Rightarrow> m | Some p \<Rightarrow> ret (Some p))"
  by (cases r) (simp_all add: yields_ret)

lemma yields_deploy_catch: "yields isError (deploy_catch w params a b own c e)"
  unfolding deploy_catch_def Let_def
  by (intro yields_and_then yields_ret) simp

lemma yields_deploy_chain: "yields early_error (deploy_chain w params a b own c)"
  unfolding deploy_chain_def
  by (intro yields_and_then yields_try_catch yields_bind [OF yields_deploy_catch] yields_ret) simp_all

lemma yields_deploy_loop: "yields early_error (deploy_loop w params a b own cs)"
proof (induction cs)
  case Nil
  then show ?case by (simp add: yields_ret)
next
  case (Cons c cs)
  show ?case
    by (simp, rule yields_bind [OF yields_deploy_chain], rule yields_pass_on) (simp_all add: Cons)
qed

lemma yields_phase_B: "yields early_error (phase_B w params a b own)"
  unfolding phase_B_def Let_def
  by (intro yields_and_then yields_bind [OF yields_deploy_loop] yields_pass_on yields_ret) simp_all

lemma yields_phase_A:
  "yields (\<lambda>a. case a of Inl p \<Rightarrow> isError p | Inr x \<Rightarrow> True) (phase_A w params)"
  unfolding phase_A_def Let_def
  by (intro yields_intros yields_ret | simp split del: if_split)+

lemma yields_phases_AB: "yields early_error (phases_AB w params)"
  unfolding phases_AB_def
  by (rule yields_bind [OF yields_phase_A])
     (auto split: sum.splits intro: yields_ret yields_phase_B)

lemma yields_peer_pair: "yields early_error (peer_pair w x y)"
  unfolding peer_pair_def Let_def
  by (intro yields_and_then yields_try_catch yields_ret) simp_all

lemma yields_peer_inner: "yields early_error (peer_inner w x ys)"
proof (induction ys)
  case Nil
  then show ?case by (simp add: yields_ret)
next
  case (Cons y ys)
  show ?case
    by (simp add: Cons, intro impI, rule yields_bind [OF yields_peer_pair], rule yields_pass_on)
       (simp_all add: Cons)
qed

lemma yields_peer_outer: "yields early_error (peer_outer w ys xs)"
proof (induction xs)
  case Nil
  then show ?case by (simp add: yields_ret)
next
  case (Cons x xs)
  show ?case
    by (simp, rule yields_bind [OF yields_peer_inner], rule yields_pass_on) (simp_all add: Cons)
qed

lemma yields_phase_C: "yields early_error (phase_C w)"
  unfolding phase_C_def Let_def
  apply (rule yields_and_then)
  apply (rule yields_and_then)
  apply (rule yields_bind [where P = early_error])
   apply (intro yields_if yields_and_then yields_ret yields_peer_outer)
   apply simp
  apply (rule yields_pass_on)
   apply (simp_all add: yields_and_then yields_ret)
  done

lemma yields_options_contract: "yields early_error (options_contract w ys x)"
  unfolding options_contract_def Let_def
  by (intro yields_and_then yields_try_catch yields_if yields_ret) simp_all

lemma yields_options_loop: "yields early_error (options_loop w ys xs)"
proof (induction xs)
  case Nil
  then show ?case by (simp add: yields_ret)
next
  case (Cons x xs)
  show ?case
    by (simp, rule yields_bind [OF yields_options_contract], rule yields_pass_on) (simp_all add: Cons)
qed

lemma yields_phase_D: "yields early_error (phase_D w)"
  unfolding phase_D_def Let_def
  apply (rule yields_and_then)
  apply (rule yields_and_then)
  apply (rule yields_and_then)
  apply (rule yields_bind [where P = early_error])
   apply (intro yields_if yields_and_then yields_ret yields_options_loop)
   apply simp
  apply (rule yields_pass_on)
   apply (simp_all add: yields_and_then yields_ret)
  done

lemma yieldsD: "yields Q m \<Longrightarrow> m st = (Inr x, st') \<Longrightarrow> Q x"
  unfolding yields_def by (metis fst_conv sum.case(2))

lemma report_run_phases:
  assumes "deploy_handler w params st0 = (Inr (DeployReport r), st')"
  shows "\<exists>st1 st2 st3. phases_AB w params st0 = (Inr None, st1) \<and> phase_C w st1 = (Inr None, st2)
           \<and> phase_D w st2 = (Inr None, st3) \<and> phase_E st3 = (Inr (DeployReport r), st')"
proof -
  obtain b st1 where ab: "phases_AB w params st0 = (Inr b, st1)"
    using assms unfolding deploy_handler_def and_then_def
    by (cases "phases_AB w params st0") (auto split: sum.splits)
  have "early_error b" using yieldsD [OF yields_phases_AB ab] .
  then have b: "b = None" using assms ab unfolding deploy_handler_def and_then_def
    by (cases b) (auto simp: ret_def elim: isError.elims)
  then have cde: "phases_CDE w st1 = (Inr (DeployReport r), st')"
    using assms ab unfolding deploy_handler_def and_then_def by simp
  obtain c st2 where c: "phase_C w st1 = (Inr c, st2)"
    using cde unfolding phases_CDE_def and_then_def
    by (cases "phase_C w st1") (auto split: sum.splits)
  have "early_error c" using yieldsD [OF yields_phase_C c] .
  then have c0: "c = None" using cde c unfolding phases_CDE_def and_then_def
    by (cases c) (auto simp: ret_def elim: isError.elims)
  obtain d st3 where d: "phase_D w st2 = (Inr d, st3)"
    using cde c c0 unfolding phases_CDE_def and_then_def
    by (cases "phase_D w st2") (auto split: sum.splits)
  have "early_error d" using yieldsD [OF yields_phase_D d] .
  then have d0: "d = None" using cde c c0 d unfolding phases_CDE_def and_then_def
    by (cases d) (auto simp: ret_def elim: isError.elims)
  have "phase_E st3 = (Inr (DeployReport r), st')"
    using cde c c0 d d0 unfolding phases_CDE_def and_then_def by simp
  then show ?thesis using ab b c c0 d d0 by blast
qed

section \<open>The deployed contracts and the configuration calls\<close>



















section \<open>A failed call ends the run\<close>








































section \<open>The plan of the configuration phases\<close>














lemma run_handler:
  "deploy_handler w params initial_state
     = (case fst (deployAndConfigure w params) of Returned p \<Rightarrow> Inr p | Thrown e \<Rightarrow> Inl e,
        snd (deployAndConfigure w params))"
  unfolding deployAndConfigure_def run_def by (auto split: prod.splits sum.splits)

section \<open>The deployments of a run\<close>

lemma deploy_codes_append: "deploy_codes (xs @ ys) = deploy_codes xs @ deploy_codes ys"
  by (induction xs rule: deploy_codes.induct) simp_all

lemma deploy_codes_none: "list_all (\<lambda>c. \<not> is_Deploy c) cs \<Longrightarrow> deploy_codes cs = []"
  by (induction cs rule: deploy_codes.induct) simp_all

lemma only_calls_deploy_codes:
  assumes "only_calls (\<lambda>c. \<not> is_Deploy c) m"
  shows "deploy_codes (calls (snd (m st))) = deploy_codes (calls st)"
proof -
  from assms obtain cs where "calls (snd (m st)) = calls st @ cs" "list_all (\<lambda>c. \<not> is_Deploy c) cs"
    unfolding only_calls_def by blast
  then show ?thesis by (simp add: deploy_codes_append deploy_codes_none)
qed

lemma deploy_try_count:
  "deploy_try w params a b own c st = (Inr u, st') \<Longrightarrow>
     length (deploy_codes (calls st')) = Suc (length (deploy_codes (calls st)))"
  unfolding deploy_try_def Let_def
  by (auto simp: monad_defs deploy_codes_append split: sum.splits option.splits if_splits)

lemma deploy_chain_count:
  assumes "deploy_chain w params a b own c st = (Inr None, st')"
  shows "length (deploy_codes (calls st')) = Suc (length (deploy_codes (calls st)))"
proof -
  let ?st0 = "st\<lparr>results := results st @ [code_units (''Attempting deployment on '' @ c @ ''...'')]\<rparr>"
  obtain r st1 where t: "deploy_try w params a b own c ?st0 = (r, st1)"
    by (cases "deploy_try w params a b own c ?st0")
  show ?thesis
  proof (cases r)
    case (Inr u)
    then have "st' = st1" using assms t
      by (simp add: deploy_chain_def and_then_def try_catch_def results_push_def ret_def)
    then show ?thesis using deploy_try_count [OF t [unfolded Inr]] by simp
  next
    case (Inl e)
    then have "False" using assms t
      by (auto simp: deploy_chain_def and_then_def try_catch_def results_push_def ret_def
               split: sum.splits prod.splits)
    then show ?thesis ..
  qed
qed

lemma deploy_loop_count:
  "deploy_loop w params a b own cs st = (Inr None, st') \<Longrightarrow>
     length (deploy_codes (calls st')) = length (deploy_codes (calls st)) + length cs"
proof (induction cs arbitrary: st)
  case Nil
  then show ?case by (simp add: ret_def)
next
  case (Cons c cs)
  obtain r st1 where c: "deploy_chain w params a b own c st = (r, st1)"
    by (cases "deploy_chain w params a b own c st")
  from Cons.prems c have r: "r = Inr None" and rest: "deploy_loop w params a b own cs st1 = (Inr None, st')"
    by (auto simp: and_then_def ret_def split: sum.splits option.splits)
  show ?case using deploy_chain_count [OF c [unfolded r]] Cons.IH [OF rest] by simp
qed

lemma phases_AB_count:
  assumes "phases_AB w params st = (Inr None, st')"
  shows "length (deploy_codes (calls st')) = length (deploy_codes (calls st)) + length (targetChains params)"
proof -
  obtain r st1 where a: "phase_A w params st = (r, st1)" by (cases "phase_A w params st")
  have a': "deploy_codes (calls st1) = deploy_codes (calls st)"
    using only_calls_deploy_codes [OF only_calls_mono [OF phase_A_calls], of w params st] a by simp
  from assms a obtain abi' bc own where r: "r = Inr (Inr (abi', bc, own))"
    and b: "phase_B w params abi' bc own st1 = (Inr None, st')"
    by (auto simp: phases_AB_def and_then_def ret_def split: sum.splits)
  from b obtain st2 st3 own' where
    l: "deploy_loop w params abi' bc own' (targetChains params) st2 = (Inr None, st3)"
    and s: "calls st2 = calls st1" "calls st' = calls st3"
    unfolding phase_B_def Let_def
    by (auto simp: and_then_def results_push_def ret_def split: sum.splits option.splits prod.splits)
  show ?thesis using deploy_loop_count [OF l] s a' by simp
qed

lemma report_deploy_count:
  assumes "fst (deployAndConfigure w params) = Returned (DeployReport r)"
  shows "length (deploy_codes (calls (snd (deployAndConfigure w params)))) = length (targetChains params)"
proof -
  have run: "deploy_handler w params initial_state
               = (Inr (DeployReport r), snd (deployAndConfigure w params))"
    using run_handler [of w params] assms by simp
  from report_run_phases [OF run] obtain st1 where
    ab: "phases_AB w params initial_state = (Inr None, st1)"
    and cde: "phases_CDE w st1 = (Inr (DeployReport r), snd (deployAndConfigure w params))"
    unfolding phases_CDE_def by (auto simp: and_then_def)
  have "deploy_codes (calls (snd (phases_CDE w st1))) = deploy_codes (calls st1)"
    by (rule only_calls_deploy_codes [OF phases_CDE_calls])
  then show ?thesis using phases_AB_count [OF ab] cde by (simp add: initial_state_def)
qed

section \<open>The deployment salt\<close>

lemma salted_digest:
  assumes "salted n s salt"
  shows "\<exists>bytes digest. toUtf8Bytes (n @ code_units '':'' @ s) = Inr bytes
           \<and> salt = keccak256 bytes \<and> getBytes salt = Inr digest \<and> length digest = 32"
proof -
  from assms obtain bytes where
    "toUtf8Bytes (n @ code_units '':'' @ s) = Inr bytes" "salt = keccak256 bytes"
    by (auto simp: salted_def split: sum.splits)
  then show ?thesis by (simp add: getBytes_keccak256 length_keccak256_bytes)
qed

text \<open>
  Claim C3. Every salt the deployment handler hands to a factory is the Keccak-256 digest,
  32 bytes printed in hexadecimal, of the UTF-8 bytes of the token name, a colon and the
  token symbol. It depends on nothing else: not on the chain, the world, or the rest of the
  request. (A name or symbol whose encoding throws, a high surrogate without its low
  surrogate, reaches no factory.) On a string of code units below \<open>0x80\<close> the UTF-8 bytes
  are the code units.
\<close>

theorem deployment_salt:
  "list_all (\<lambda>salt. \<exists>bytes digest.
        toUtf8Bytes (tokenName params @ code_units '':'' @ tokenSymbol params) = Inr bytes
        \<and> salt = keccak256 bytes \<and> getBytes salt = Inr digest \<and> length digest = 32)
     (deploy_salts (calls (snd (deployAndConfigure w params))))
   \<and> (list_all (\<lambda>c. (of_char c :: nat) < 128) ascii
        \<longrightarrow> toUtf8Bytes (code_units ascii) = Inr (map (\<lambda>c. of_nat (of_char c)) ascii))"
proof (intro conjI impI)
  have "list_all (salted (tokenName params) (tokenSymbol params))
          (deploy_salts (calls (snd (deployAndConfigure w params))))"
    unfolding deployAndConfigure_def
    by (rule salts_of_ok [OF only_calls_run [OF deploy_handler_salt]])
  then show "list_all (\<lambda>salt. \<exists>bytes digest.
        toUtf8Bytes (tokenName params @ code_units '':'' @ tokenSymbol params) = Inr bytes
        \<and> salt = keccak256 bytes \<and> getBytes salt = Inr digest \<and> length digest = 32)
     (deploy_salts (calls (snd (deployAndConfigure w params))))"
    by (rule list.pred_mono_strong) (rule salted_digest)
  show "toUtf8Bytes (code_units ascii) = Inr (map (\<lambda>c. of_nat (of_char c)) ascii)"
    if "list_all (\<lambda>c. (of_char c :: nat) < 128) ascii"
    using that by (rule toUtf8Bytes_ascii)
qed

lemma happy_two_chains_salts:
  "length (deploy_salts (calls (snd (deployAndConfigure happy_world
      (request ''Gamma'' ''1000000'' [''ArbitrumSepolia'', ''baseSepolia'']))))) = 2"
  by (simp add: handler_defs monad_defs happy_world_def request_def example_evals Let_def)

text \<open>The two deployments of a request for the token \<open>Gamma\<close> (\<open>GMA\<close>) carry the digest of
  the nine bytes \<open>Gamma:GMA\<close>. The encoding is shown on each of its branches: one, two and
  three bytes, a surrogate pair, a low surrogate on its own, and a high surrogate without
  its low surrogate, which throws.\<close>

theorem deployment_salt_witness:
  "deploy_salts (calls (snd (deployAndConfigure happy_world
      (request ''Gamma'' ''1000000'' [''ArbitrumSepolia'', ''baseSepolia'']))))
   = [''0x6b773b52c94606d250d06e47f5c1929656cf7433d155255db756fcc44db75957'',
      ''0x6b773b52c94606d250d06e47f5c1929656cf7433d155255db756fcc44db75957'']
   \<and> toUtf8Bytes (code_units ''Gamma:GMA'')
       = Inr [0x47, 0x61, 0x6d, 0x6d, 0x61, 0x3a, 0x47, 0x4d, 0x41]
   \<and> toUtf8Bytes [0x24, 0xE9, 0x20AC, 0xD83D, 0xDE00, 0xDC00]
       = Inr [0x24, 0xc3, 0xa9, 0xe2, 0x82, 0xac, 0xf0, 0x9f, 0x98, 0x80, 0xed, 0xb0, 0x80]
   \<and> toUtf8Bytes [0x47, 0xD83D] = Inl (EthersError INVALID_ARGUMENT ''invalid surrogate pair'')
   \<and> toUtf8Bytes [0xD83D, 0x47] = Inl (EthersError INVALID_ARGUMENT ''invalid surrogate pair'')"
proof -
  let ?p = "request ''Gamma'' ''1000000'' [''ArbitrumSepolia'', ''baseSepolia'']"
  let ?salts = "deploy_salts (calls (snd (deployAndConfigure happy_world ?p)))"
  note t = deployment_salt [of ?p happy_world "''Gamma:GMA''"]
  have n: "tokenName ?p @ code_units '':'' @ tokenSymbol ?p = code_units ''Gamma:GMA''"
    by (simp add: request_def code_units_def)
  have a: "list_all (\<lambda>c. (of_char c :: nat) < 128) ''Gamma:GMA''" by simp
  have u: "toUtf8Bytes (code_units ''Gamma:GMA'')
             = Inr [0x47, 0x61, 0x6d, 0x6d, 0x61, 0x3a, 0x47, 0x4d, 0x41]"
    using t a by simp
  have "list_all (\<lambda>salt. salt = ''0x6b773b52c94606d250d06e47f5c1929656cf7433d155255db756fcc44db75957'')
          ?salts"
    using t unfolding n u by (simp add: keccak256_Gamma_GMA list_all_iff)
  then have "?salts = [''0x6b773b52c94606d250d06e47f5c1929656cf7433d155255db756fcc44db75957'',
                       ''0x6b773b52c94606d250d06e47f5c1929656cf7433d155255db756fcc44db75957'']"
    using happy_two_chains_salts
    by (auto simp: list_all_iff length_Suc_conv numeral_2_eq_2)
  then show ?thesis using u toUtf8Bytes_examples by simp
qed

section \<open>A failed deployment\<close>

text \<open>
  Claim C1 asks that a failed deployment make the handler return an error payload. The
  \<open>catch\<close> of the deployment loop parses the supply and encodes the constructor arguments
  again before it builds that payload. When the deployment failed because the supply string
  does not parse, the same error is thrown a second time, now outside any \<open>try\<close>: the
  handler throws and returns no payload, and no \<open>Failed\<close> outcome is recorded. Here the
  supply is \<open>abc\<close>; the only call made is the read of the token artifact.
\<close>

theorem deployment_catch_rethrows:
  "fst (deployAndConfigure happy_world (request ''Gamma'' ''abc'' [''ArbitrumSepolia'', ''baseSepolia'']))
     = Thrown (EthersError INVALID_ARGUMENT ''invalid FixedNumber string value'')
   \<and> deployedContractsSummary (snd (deployAndConfigure happy_world
        (request ''Gamma'' ''abc'' [''ArbitrumSepolia'', ''baseSepolia'']))) = []
   \<and> calls (snd (deployAndConfigure happy_world
        (request ''Gamma'' ''abc'' [''ArbitrumSepolia'', ''baseSepolia'']))) = [ReadFile oftPath]"
proof -
  have "\<exists>st. deployAndConfigure happy_world (request ''Gamma'' ''abc'' [''ArbitrumSepolia'', ''baseSepolia''])
          = (Thrown (EthersError INVALID_ARGUMENT ''invalid FixedNumber string value''), st)
        \<and> deployedContractsSummary st = []
        \<and> calls st = [ReadFile oftPath]"
    by (simp add: handler_defs monad_defs happy_world_def request_def parseUnits_abc Let_def)
  then show ?thesis by auto
qed

section \<open>The overall status\<close>

text \<open>
  Claim C10 asks that a report returned without the error flag carry the full-success
  status. The status is derived by searching the log lines for the text \<open>FAILURE\<close>, and the
  log quotes the request. A token named \<open>FAILURE\<close>, deployed to one chain with every
  operation succeeding, is reported with the status of a run in which errors occurred.
\<close>

theorem overall_status_reads_token_name:
  "\<exists>r. fst (deployAndConfigure happy_world (request ''FAILURE'' ''1000000'' [''ArbitrumSepolia'']))
         = Returned (DeployReport r)
     \<and> overallStatus r
         = ''Deployment and configuration process completed. Some errors occurred. Check detailed logs.''
     \<and> list_all (\<lambda>s. deploymentStatus s = ''Success'') (deployedContracts r)
     \<and> list_all (\<lambda>c. is_deployment_call c)
          (calls (snd (deployAndConfigure happy_world (request ''FAILURE'' ''1000000'' [''ArbitrumSepolia'']))))"
  by (simp add: handler_defs monad_defs happy_world_def request_def example_evals Let_def
        overallStatus_of_def)

section \<open>Bridging to the source chain\<close>

lemma bridge_same_chain:
  assumes "fromChain params = toChain params"
  shows "bridge w params =
     (Returned (ErrorText
        (case readFile_JSON w [] oftPath of
           Inl e \<Rightarrow> ''Error: Failed to bridge OFT: '' @ message_or_toString e
         | Inr a \<Rightarrow>
             if placeholder_abi (abi_member a) then
               ''Error: Placeholder ABI detected. Please replace OFT_ABI in layerzero-mcp.ts with your actual contract ABI to interact with existing contracts.''
             else ''Error: Source and destination chains cannot be the same.'')),
      initial_state\<lparr>calls := [ReadFile oftPath]\<rparr>)"
  using assms
  by (simp add: bridge_def run_def bridge_handler_def bridge_try_def monad_defs initial_state_def
        Let_def split: sum.splits)

text \<open>
  Claim C5, as stated, asks for the same-chain error on every request whose two chains are
  equal. The handler reads the token artifact and tests its ABI first: with a placeholder
  ABI the request is refused with the placeholder message instead.
\<close>

theorem bridge_same_chain_placeholder:
  "fromChain (bridge_request ''ArbitrumSepolia'' ''ArbitrumSepolia'')
     = toChain (bridge_request ''ArbitrumSepolia'' ''ArbitrumSepolia'')
   \<and> fst (bridge placeholder_world (bridge_request ''ArbitrumSepolia'' ''ArbitrumSepolia''))
       = Returned (ErrorText ''Error: Placeholder ABI detected. Please replace OFT_ABI in layerzero-mcp.ts with your actual contract ABI to interact with existing contracts.'')
   \<and> fst (bridge placeholder_world (bridge_request ''ArbitrumSepolia'' ''ArbitrumSepolia''))
       \<noteq> Returned (ErrorText ''Error: Source and destination chains cannot be the same.'')"
proof -
  have same: "fromChain (bridge_request ''ArbitrumSepolia'' ''ArbitrumSepolia'')
     = toChain (bridge_request ''ArbitrumSepolia'' ''ArbitrumSepolia'')"
    by (simp add: bridge_request_def)
  show ?thesis
    unfolding bridge_same_chain [OF same]
    by (simp add: bridge_request_def placeholder_world_def happy_world_def placeholder_abi_def)
qed

text \<open>
  Claim C5, amended. A bridge request whose source and destination chains are equal is
  always refused with an error payload, and the only call made is the read of the token
  artifact: no signer is resolved, no fee is quoted, nothing is sent. The error is the
  same-chain message when the artifact was read and its ABI is not a placeholder, the
  placeholder message when it is, and the read failure when the artifact could not be read.
\<close>

theorem bridge_same_chain_rejected:
  assumes "fromChain params = toChain params"
  shows "\<exists>t. fst (bridge w params) = Returned (ErrorText t)
           \<and> calls (snd (bridge w params)) = [ReadFile oftPath]
           \<and> t = (case readFile_JSON w [] oftPath of
                    Inl e \<Rightarrow> ''Error: Failed to bridge OFT: '' @ message_or_toString e
                  | Inr a \<Rightarrow>
                      if placeholder_abi (abi_member a) then
                        ''Error: Placeholder ABI detected. Please replace OFT_ABI in layerzero-mcp.ts with your actual contract ABI to interact with existing contracts.''
                      else ''Error: Source and destination chains cannot be the same.'')"
  unfolding bridge_same_chain [OF assms] by simp

theorem bridge_same_chain_rejected_witness:
  "fromChain (bridge_request ''baseSepolia'' ''baseSepolia'')
     = toChain (bridge_request ''baseSepolia'' ''baseSepolia'')
   \<and> fst (bridge happy_world (bridge_request ''baseSepolia'' ''baseSepolia''))
       = Returned (ErrorText ''Error: Source and destination chains cannot be the same.'')
   \<and> calls (snd (bridge happy_world (bridge_request ''baseSepolia'' ''baseSepolia'')))
       = [ReadFile oftPath]"
proof -
  have same: "fromChain (bridge_request ''baseSepolia'' ''baseSepolia'')
     = toChain (bridge_request ''baseSepolia'' ''baseSepolia'')"
    by (simp add: bridge_request_def)
  have "readFile_JSON happy_world [] oftPath
     = Inr \<lparr>abi_member = AbiArray [''constructor''], bytecode = Some (Some ''60'')\<rparr>"
    by (simp add: happy_world_def)
  then show ?thesis
    using same bridge_same_chain_rejected [OF same, of happy_world]
    by (auto simp: placeholder_abi_def)
qed

section \<open>The amount of a bridge request\<close>

lemma parseUnits_50: "parseUnits ''50'' 18 = Inr (50 * 10 ^ 18)"
proof -
  have d: "list_all is_digit ''50''" by (simp add: is_digit_def)
  have n: "nat_of_digits ''50'' = 50" by (simp add: nat_of_digits_def digit_val_def)
  show ?thesis using parseUnits_whole [OF d, of 18] by (simp add: n)
qed

lemma bridge_send_params:
  "\<exists>p. list_all (\<lambda>q. q = p \<and> parseUnits (amount params) 18 = Inr (amountLD q)
                       \<and> minAmountLD q = amountLD q)
          (send_params (calls (snd (bridge w params))))"
  unfolding bridge_def snd_run bridge_handler_def bridge_try_def Let_def
  by (auto simp add: monad_defs initial_state_def split: sum.splits prod.splits)

text \<open>
  Claim C6. The bridge handler parses the amount with 18 decimals, whatever the token: a
  string of digits \<open>ws\<close> is the integer \<open>ws\<close> times \<open>10 ^ 18\<close>, and \<open>ws.fs\<close> with at most 18
  digits \<open>fs\<close> adds \<open>fs\<close> scaled to 18 places (below the 512-bit bound of the parser). Every
  parameter record handed to \<open>quoteSend\<close> and to \<open>send\<close> in a run is the same record, and its
  \<open>amountLD\<close> and \<open>minAmountLD\<close> are both that parsed integer. The amount \<open>50\<close> is
  \<open>50 * 10 ^ 18\<close>.
\<close>

theorem bridge_amount:
  "(\<exists>p. list_all (\<lambda>q. q = p \<and> parseUnits (amount params) 18 = Inr (amountLD q)
                       \<and> minAmountLD q = amountLD q)
          (send_params (calls (snd (bridge w params)))))
   \<and> parseUnits ''50'' 18 = Inr (50 * 10 ^ 18)
   \<and> (list_all is_digit ws \<and> ws \<noteq> [] \<and> int (nat_of_digits ws * 10 ^ 18) < 2 ^ 511
        \<longrightarrow> parseUnits ws 18 = Inr (int (nat_of_digits ws * 10 ^ 18)))
   \<and> (list_all is_digit ws \<and> ws \<noteq> [] \<and> list_all is_digit fs \<and> length fs \<le> 18
        \<and> int (nat_of_digits ws * 10 ^ 18 + nat_of_digits fs * 10 ^ (18 - length fs)) < 2 ^ 511
        \<longrightarrow> parseUnits (ws @ ''.'' @ fs) 18
            = Inr (int (nat_of_digits ws * 10 ^ 18 + nat_of_digits fs * 10 ^ (18 - length fs))))"
  using bridge_send_params [of params w] parseUnits_50 parseUnits_whole [of ws 18]
    parseUnits_fixed_point [of ws fs 18]
  by simp

lemma format_receiver_address:
  "formatAddressForLayerZero ''0x00000000000000000000000000000000000000cc''
   = Inr ''0x00000000000000000000000000000000000000000000000000000000000000cc''"
proof -
  have r: "replicate 24 (CHR ''0'') = ''000000000000000000000000''"
    by (simp add: numeral_eq_Suc)
  show ?thesis
    unfolding formatAddressForLayerZero_chars
    by (simp add: is_BytesLike_def is_hex_digit_def hex_digit_val_table r lower_hex_simps)
qed

lemma happy_bridge_calls:
  "length (send_params (calls (snd (bridge happy_world (bridge_request ''ArbitrumSepolia'' ''baseSepolia''))))) = 2"
  unfolding bridge_def snd_run bridge_handler_def bridge_try_def Let_def
  by (simp add: monad_defs initial_state_def happy_world_def bridge_request_def parseUnits_50
        format_receiver_address getSigner_def getNetworkConfig_def NETWORKS_def new_Contract_def
        placeholder_abi_def split: sum.splits)

theorem bridge_amount_witness:
  "map amountLD (send_params (calls (snd (bridge happy_world
       (bridge_request ''ArbitrumSepolia'' ''baseSepolia'')))))
     = [50 * 10 ^ 18, 50 * 10 ^ 18]
   \<and> map minAmountLD (send_params (calls (snd (bridge happy_world
       (bridge_request ''ArbitrumSepolia'' ''baseSepolia'')))))
     = [50 * 10 ^ 18, 50 * 10 ^ 18]
   \<and> parseUnits ''1'' 18 = Inr (10 ^ 18)
   \<and> parseUnits ''1.5'' 18 = Inr (15 * 10 ^ 17)"
proof -
  let ?p = "bridge_request ''ArbitrumSepolia'' ''baseSepolia''"
  note t = bridge_amount [of ?p happy_world "''1''" "''5''"]
  have a: "amount ?p = ''50''" by (simp add: bridge_request_def)
  have d: "list_all is_digit ''1''" "list_all is_digit ''5''" by (simp_all add: is_digit_def)
  have n: "nat_of_digits ''1'' = 1" "nat_of_digits ''5'' = 5"
    by (simp_all add: nat_of_digits_def digit_val_def)
  from t obtain p where
    "list_all (\<lambda>q. q = p \<and> parseUnits (amount ?p) 18 = Inr (amountLD q) \<and> minAmountLD q = amountLD q)
       (send_params (calls (snd (bridge happy_world ?p))))"
    by blast
  then have "\<forall>q \<in> set (send_params (calls (snd (bridge happy_world ?p)))).
               amountLD q = 50 * 10 ^ 18 \<and> minAmountLD q = 50 * 10 ^ 18"
    unfolding a parseUnits_50 by (auto simp: list_all_iff)
  then have l: "map amountLD (send_params (calls (snd (bridge happy_world ?p)))) = [50 * 10 ^ 18, 50 * 10 ^ 18]
     \<and> map minAmountLD (send_params (calls (snd (bridge happy_world ?p)))) = [50 * 10 ^ 18, 50 * 10 ^ 18]"
    using happy_bridge_calls by (auto simp: length_Suc_conv numeral_2_eq_2)
  have "parseUnits ''1'' 18 = Inr (10 ^ 18)" using t d n by simp
  moreover have "parseUnits ''1.5'' 18 = Inr (15 * 10 ^ 17)" using t d n by simp
  ultimately show ?thesis using l by simp
qed

section \<open>The supply of a deployment\<close>

lemma deploy_try_supply:
  "only_calls (\<lambda>c. case c of
       Deploy f code salt \<Rightarrow>
         (\<exists>v iface endpoint own bc a.
            parseUnits (initialTotalSupply params) 0 = Inr v
            \<and> encodeDeploy w iface (CtorArgs (tokenName params) (tokenSymbol params) v endpoint own) = Inr a
            \<and> solidityPacked bc a = Inr code)
     | _ \<Rightarrow> True)
     (deploy_try w params a b own c)"
  unfolding deploy_try_def Let_def readFile_parse_def factory_deploy_def tx_wait_def
    factory_lastDeployedAddress_def
  by (intro only_calls_lift_then only_calls_intros only_calls_ask allI) (simp_all, blast)

lemma deploy_chain_supply:
  "only_calls (\<lambda>c. case c of
       Deploy f code salt \<Rightarrow>
         (\<exists>v iface endpoint own bc a.
            parseUnits (initialTotalSupply params) 0 = Inr v
            \<and> encodeDeploy w iface (CtorArgs (tokenName params) (tokenSymbol params) v endpoint own) = Inr a
            \<and> solidityPacked bc a = Inr code)
     | _ \<Rightarrow> True)
     (deploy_chain w params a b own c)"
  unfolding deploy_chain_def
  by (intro only_calls_intros deploy_try_supply deploy_catch_calls)

lemma deploy_loop_supply:
  "only_calls (\<lambda>c. case c of
       Deploy f code salt \<Rightarrow>
         (\<exists>v iface endpoint own bc a.
            parseUnits (initialTotalSupply params) 0 = Inr v
            \<and> encodeDeploy w iface (CtorArgs (tokenName params) (tokenSymbol params) v endpoint own) = Inr a
            \<and> solidityPacked bc a = Inr code)
     | _ \<Rightarrow> True)
     (deploy_loop w params a b own cs)"
  by (induction cs)
     (auto intro!: only_calls_intros deploy_chain_supply only_calls_case_option)

lemma not_Deploy_case: "\<not> is_Deploy c \<Longrightarrow> (case c of Deploy f code salt \<Rightarrow> P f code salt | _ \<Rightarrow> True)"
  by (cases c) simp_all

lemma deploy_handler_supply:
  "only_calls (\<lambda>c. case c of
       Deploy f code salt \<Rightarrow>
         (\<exists>v iface endpoint own bc a.
            parseUnits (initialTotalSupply params) 0 = Inr v
            \<and> encodeDeploy w iface (CtorArgs (tokenName params) (tokenSymbol params) v endpoint own) = Inr a
            \<and> solidityPacked bc a = Inr code)
     | _ \<Rightarrow> True)
     (deploy_handler w params)"
  unfolding deploy_handler_def phases_AB_def phase_B_def Let_def
  by (intro only_calls_intros only_calls_case_option only_calls_case_sum deploy_loop_supply
        only_calls_mono[OF phase_A_calls] only_calls_mono[OF phases_CDE_calls])
     (auto intro: not_Deploy_case intro!: only_calls_intros only_calls_case_option deploy_loop_supply)

lemma schema_decimals:
  "deployAndConfigureOftParams raw = Inr p \<Longrightarrow>
     0 \<le> decimals p \<and> decimals p \<le> 18
     \<and> decimals p = (case decimals raw of None \<Rightarrow> 18 | Some d \<Rightarrow> d)
     \<and> initialTotalSupply p = initialTotalSupply raw"
  by (auto simp: deployAndConfigureOftParams_def split: if_splits option.splits)

lemma schema_rejects:
  "decimals raw = Some d \<Longrightarrow> d < 0 \<or> 18 < d \<Longrightarrow> \<exists>e. deployAndConfigureOftParams raw = Inl e"
  by (auto simp: deployAndConfigureOftParams_def)

text \<open>
  Claim C7. Whenever the deployment handler asks a factory to deploy, the code it hands
  over is the bytecode followed by constructor arguments whose supply is the initial total
  supply parsed with zero decimals: a string of digits is the integer it spells, unscaled.
  The \<open>decimals\<close> parameter is checked by the schema (from 0 to 18, 18 when absent) and then
  has no effect but on a log line: a run with another value of \<open>decimals\<close> makes the same
  calls and records the same deployments and configuration results. A run that returns its
  report has asked a factory to deploy once for each target chain.
\<close>

theorem supply_not_scaled:
  "list_all (\<lambda>c. case c of
       Deploy f code salt \<Rightarrow>
         (\<exists>v iface endpoint own bc a.
            parseUnits (initialTotalSupply params) 0 = Inr v
            \<and> encodeDeploy w iface (CtorArgs (tokenName params) (tokenSymbol params) v endpoint own) = Inr a
            \<and> solidityPacked bc a = Inr code)
     | _ \<Rightarrow> True)
     (calls (snd (deployAndConfigure w params)))
   \<and> (list_all is_digit ws \<and> ws \<noteq> [] \<and> int (nat_of_digits ws) < 2 ^ 511
        \<longrightarrow> parseUnits ws 0 = Inr (int (nat_of_digits ws)))
   \<and> same_but_log (snd (deployAndConfigure w (params\<lparr>decimals := d\<rparr>)))
                    (snd (deployAndConfigure w params))
   \<and> (deployAndConfigureOftParams raw = Inr p
        \<longrightarrow> 0 \<le> decimals p \<and> decimals p \<le> 18
            \<and> decimals p = (case decimals raw of None \<Rightarrow> 18 | Some d \<Rightarrow> d)
            \<and> initialTotalSupply p = initialTotalSupply raw)
   \<and> (decimals raw = Some d' \<and> (d' < 0 \<or> 18 < d')
        \<longrightarrow> (\<exists>e. deployAndConfigureOftParams raw = Inl e))
   \<and> (fst (deployAndConfigure w params) = Returned (DeployReport r)
        \<longrightarrow> length (deploy_codes (calls (snd (deployAndConfigure w params))))
            = length (targetChains params))"
proof (intro conjI impI)
  show "list_all (\<lambda>c. case c of
       Deploy f code salt \<Rightarrow>
         (\<exists>v iface endpoint own bc a.
            parseUnits (initialTotalSupply params) 0 = Inr v
            \<and> encodeDeploy w iface (CtorArgs (tokenName params) (tokenSymbol params) v endpoint own) = Inr a
            \<and> solidityPacked bc a = Inr code)
     | _ \<Rightarrow> True)
     (calls (snd (deployAndConfigure w params)))"
    unfolding deployAndConfigure_def by (rule only_calls_run [OF deploy_handler_supply])
  show "parseUnits ws 0 = Inr (int (nat_of_digits ws))"
    if "list_all is_digit ws \<and> ws \<noteq> [] \<and> int (nat_of_digits ws) < 2 ^ 511"
    using that parseUnits_whole [of ws 0] by simp
  show "same_but_log (snd (deployAndConfigure w (params\<lparr>decimals := d\<rparr>)))
                    (snd (deployAndConfigure w params))"
    by (rule decimals_not_applied)
  show "0 \<le> decimals p" "decimals p \<le> 18"
    "decimals p = (case decimals raw of None \<Rightarrow> 18 | Some d \<Rightarrow> d)"
    "initialTotalSupply p = initialTotalSupply raw"
    if "deployAndConfigureOftParams raw = Inr p"
    using schema_decimals [OF that] by simp_all
  show "\<exists>e. deployAndConfigureOftParams raw = Inl e"
    if "decimals raw = Some d' \<and> (d' < 0 \<or> 18 < d')"
    using that schema_rejects [of raw d'] by blast
  show "length (deploy_codes (calls (snd (deployAndConfigure w params)))) = length (targetChains params)"
    if "fst (deployAndConfigure w params) = Returned (DeployReport r)"
    using that by (rule report_deploy_count)
qed

lemma decimal_of_int_1000000: "decimal_of_int 1000000 = ''1000000''"
  by (simp add: decimal_of_int_def decimal_of_nat.simps digit_char_def)

lemma solidityPacked_supply: "solidityPacked ''0x60'' ''0x01000000'' = Inr ''0x6001000000''"
  by (simp add: solidityPacked_def getBytes_def hex_digit_val_table hexlify_def hex_of_byte_nat
        HexCharacters_nth HexCharacters_nth(2) [unfolded One_nat_def])

lemma printing_world_run:
  "\<exists>r. fst (deployAndConfigure printing_world
          (request ''Gamma'' ''1000000'' [''ArbitrumSepolia'', ''baseSepolia''])) = Returned (DeployReport r)
       \<and> deploy_codes (calls (snd (deployAndConfigure printing_world
            (request ''Gamma'' ''1000000'' [''ArbitrumSepolia'', ''baseSepolia'']))))
           = [''0x6001000000'', ''0x6001000000'']"
proof -
  have "\<exists>r st. deployAndConfigure printing_world
          (request ''Gamma'' ''1000000'' [''ArbitrumSepolia'', ''baseSepolia'']) = (Returned (DeployReport r), st)
       \<and> deploy_codes (calls st) = [''0x6001000000'', ''0x6001000000'']"
    by (simp add: handler_defs monad_defs printing_world_def happy_world_def request_def
          parseUnits_1000000 format_deployed_address code_units_join toUtf8Bytes_ascii
          includes_str_code_units decimal_of_int_1000000 solidityPacked_supply Let_def)
  then show ?thesis by auto
qed

text \<open>In a world whose encoder prints the supply, the two deployments of a request for a
  supply of \<open>1000000\<close> with 18 decimals hand over the bytecode \<open>60\<close> followed by the digits
  \<open>01000000\<close>: the supply as it was written, not multiplied by a power of ten. With 6
  decimals the calls are the same.\<close>

theorem supply_not_scaled_witness:
  "parseUnits ''1000000'' 0 = Inr 1000000
   \<and> deployAndConfigureOftParams (raw_request None)
       = Inr (request ''Gamma'' ''1000000'' [''ArbitrumSepolia'', ''baseSepolia''])
   \<and> decimals (request ''Gamma'' ''1000000'' [''ArbitrumSepolia'', ''baseSepolia'']) = 18
   \<and> (\<exists>e. deployAndConfigureOftParams (raw_request (Some 19)) = Inl e)
   \<and> deploy_codes (calls (snd (deployAndConfigure printing_world
         (request ''Gamma'' ''1000000'' [''ArbitrumSepolia'', ''baseSepolia'']))))
       = [''0x6001000000'', ''0x6001000000'']
   \<and> deploy_codes (calls (snd (deployAndConfigure printing_world
         ((request ''Gamma'' ''1000000'' [''ArbitrumSepolia'', ''baseSepolia''])\<lparr>decimals := 6\<rparr>))))
       = [''0x6001000000'', ''0x6001000000'']
   \<and> length (deploy_codes (calls (snd (deployAndConfigure printing_world
         (request ''Gamma'' ''1000000'' [''ArbitrumSepolia'', ''baseSepolia''])))))
       = length [''ArbitrumSepolia'', ''baseSepolia'']
   \<and> list_all (\<lambda>c. case c of
          Deploy f code salt \<Rightarrow>
            (\<exists>iface endpoint own bc a.
               encodeDeploy printing_world iface
                 (CtorArgs (code_units ''Gamma'') (code_units ''GMA'') 1000000 endpoint own) = Inr a
               \<and> solidityPacked bc a = Inr code)
        | _ \<Rightarrow> True)
        (calls (snd (deployAndConfigure printing_world
           (request ''Gamma'' ''1000000'' [''ArbitrumSepolia'', ''baseSepolia'']))))"
proof -
  let ?p = "request ''Gamma'' ''1000000'' [''ArbitrumSepolia'', ''baseSepolia'']"
  obtain r where r: "fst (deployAndConfigure printing_world ?p) = Returned (DeployReport r)"
    and codes: "deploy_codes (calls (snd (deployAndConfigure printing_world ?p)))
                  = [''0x6001000000'', ''0x6001000000'']"
    using printing_world_run by blast
  note t = supply_not_scaled [of ?p printing_world "''1000000''" 6 "raw_request None" ?p _ r]
  note u = supply_not_scaled [of ?p printing_world "''1000000''" 6 "raw_request (Some 19)" ?p 19 r]
  have d: "list_all is_digit ''1000000''" by (simp add: is_digit_def)
  have n: "nat_of_digits ''1000000'' = 1000000" by (simp add: nat_of_digits_def digit_val_def)
  have s: "deployAndConfigureOftParams (raw_request None) = Inr ?p"
    by (simp add: deployAndConfigureOftParams_def raw_request_def request_def networkKeys_def)
  have f: "initialTotalSupply ?p = ''1000000''" "tokenName ?p = code_units ''Gamma''"
    "tokenSymbol ?p = code_units ''GMA''" "targetChains ?p = [''ArbitrumSepolia'', ''baseSepolia'']"
    by (simp_all add: request_def)
  have pu: "parseUnits ''1000000'' 0 = Inr 1000000" using t d n by simp
  have dec: "decimals ?p = 18" using t s by (simp add: raw_request_def)
  have rej: "\<exists>e. deployAndConfigureOftParams (raw_request (Some 19)) = Inl e"
    using u by (simp add: raw_request_def)
  have same: "calls (snd (deployAndConfigure printing_world (?p\<lparr>decimals := 6\<rparr>)))
       = calls (snd (deployAndConfigure printing_world ?p))"
    using t by (simp add: same_but_log_def)
  have count: "length (deploy_codes (calls (snd (deployAndConfigure printing_world ?p))))
       = length [''ArbitrumSepolia'', ''baseSepolia'']"
    using t r unfolding f by blast
  have "list_all (\<lambda>c. case c of
       Deploy f code salt \<Rightarrow>
         (\<exists>v iface endpoint own bc a.
            parseUnits (initialTotalSupply ?p) 0 = Inr v
            \<and> encodeDeploy printing_world iface (CtorArgs (tokenName ?p) (tokenSymbol ?p) v endpoint own) = Inr a
            \<and> solidityPacked bc a = Inr code)
     | _ \<Rightarrow> True)
     (calls (snd (deployAndConfigure printing_world ?p)))"
    using t by blast
  then have each: "list_all (\<lambda>c. case c of
          Deploy f code salt \<Rightarrow>
            (\<exists>iface endpoint own bc a.
               encodeDeploy printing_world iface
                 (CtorArgs (code_units ''Gamma'') (code_units ''GMA'') 1000000 endpoint own) = Inr a
               \<and> solidityPacked bc a = Inr code)
        | _ \<Rightarrow> True)
        (calls (snd (deployAndConfigure printing_world ?p)))"
    unfolding f pu by (rule list.pred_mono_strong) (auto split: call.splits)
  show ?thesis using pu s dec rej codes same count each by simp
qed

section \<open>A single deployed contract\<close>

lemma phases_CDE_single:
  assumes "deployedContractsData st = [d]"
  shows "\<exists>r st'. phases_CDE w st = (Inr (DeployReport r), st')
          \<and> report_peeringResults r = peeringResults st
               @ [''Skipping peering phase: Less than 2 contracts successfully deployed.'']
          \<and> report_enforcedOptionsResults r = enforcedOptionsResults st
               @ [options_logPrefix d @ '' No peers to set enforced options for.'']
          \<and> deployedContracts r = deployedContractsSummary st
          \<and> calls st' = calls st"
  by (simp add: phases_CDE_def phase_C_def phase_D_def phase_E_def options_contract_def
        monad_defs Let_def assms)

text \<open>
  Claim C4, as stated, speaks of every request that results in exactly one successful
  deployment. A request for two chains whose second deployment fails is such a request: the
  handler returns the error of the second chain at once, with no skip notice and without
  entering the enforced-options phase.
\<close>

theorem one_success_then_failure:
  "map deploymentStatus (deployedContractsSummary (snd (deployAndConfigure second_deploy_fails
       (request ''Gamma'' ''1000000'' [''ArbitrumSepolia'', ''baseSepolia'']))))
     = [''Success'', ''Failed'']
   \<and> length (deployedContractsData (snd (deployAndConfigure second_deploy_fails
       (request ''Gamma'' ''1000000'' [''ArbitrumSepolia'', ''baseSepolia''])))) = 1
   \<and> peeringResults (snd (deployAndConfigure second_deploy_fails
       (request ''Gamma'' ''1000000'' [''ArbitrumSepolia'', ''baseSepolia'']))) = []
   \<and> enforcedOptionsResults (snd (deployAndConfigure second_deploy_fails
       (request ''Gamma'' ''1000000'' [''ArbitrumSepolia'', ''baseSepolia'']))) = []
   \<and> (\<exists>t. fst (deployAndConfigure second_deploy_fails
       (request ''Gamma'' ''1000000'' [''ArbitrumSepolia'', ''baseSepolia''])) = Returned (ErrorText t))"
proof -
  have "\<exists>t st. deployAndConfigure second_deploy_fails
       (request ''Gamma'' ''1000000'' [''ArbitrumSepolia'', ''baseSepolia'']) = (Returned (ErrorText t), st)
     \<and> map deploymentStatus (deployedContractsSummary st) = [''Success'', ''Failed'']
     \<and> length (deployedContractsData st) = 1 \<and> peeringResults st = []
     \<and> enforcedOptionsResults st = []"
    by (simp add: handler_defs monad_defs second_deploy_fails_def happy_world_def request_def
          example_evals Let_def)
  then show ?thesis by auto
qed

text \<open>
  Claim C4, amended. When the deployment phase completes, no deployment having failed, with
  exactly one deployed contract, the handler makes no \<open>setPeer\<close> and no \<open>setEnforcedOptions\<close>
  call, records the skip notice as the only peering result and, for the single contract,
  the notice that there are no peers to set enforced options for, and returns its report
  without the error flag.
\<close>

theorem single_deployment_skips_peering:
  assumes "fst (deployment_phase w params) = Inr None"
    and "length (deployedContractsData (snd (deployment_phase w params))) = 1"
  shows "\<exists>r. fst (deployAndConfigure w params) = Returned (DeployReport r)
           \<and> report_peeringResults r
               = [''Skipping peering phase: Less than 2 contracts successfully deployed.'']
           \<and> report_enforcedOptionsResults r
               = [options_logPrefix (hd (deployedContractsData (snd (deployment_phase w params))))
                  @ '' No peers to set enforced options for.'']
           \<and> list_all (\<lambda>c. \<not> is_SetPeer c \<and> \<not> is_SetEnforcedOptions c)
                (calls (snd (deployAndConfigure w params)))"
proof -
  define st where "st = snd (deployment_phase w params)"
  obtain d where d: "deployedContractsData st = [d]"
    using assms(2) unfolding st_def by (auto simp: length_Suc_conv)
  have ab: "phases_AB w params initial_state = (Inr None, st)"
    using assms(1) unfolding st_def deployment_phase_def by (metis prod.collapse)
  obtain r st' where r: "phases_CDE w st = (Inr (DeployReport r), st')"
      "report_peeringResults r = peeringResults st
         @ [''Skipping peering phase: Less than 2 contracts successfully deployed.'']"
      "report_enforcedOptionsResults r = enforcedOptionsResults st
         @ [options_logPrefix d @ '' No peers to set enforced options for.'']"
      "calls st' = calls st"
    using phases_CDE_single [OF d, of w] by blast
  have run: "deployAndConfigure w params = (Returned (DeployReport r), st')"
    unfolding deployAndConfigure_def run_def deploy_handler_def
    by (simp add: and_then_def ab r(1))
  have "list_all is_deployment_call (calls st)"
    unfolding st_def by (rule deployment_phase_calls)
  then have "list_all (\<lambda>c. \<not> is_SetPeer c \<and> \<not> is_SetEnforcedOptions c) (calls st)"
    by (rule list.pred_mono_strong) (auto elim: is_deployment_call.elims)
  then show ?thesis
    using run r(2,3,4) d deployment_phase_config_logs [of w params]
    unfolding st_def [symmetric] by simp
qed

lemma happy_single_deployment:
  "fst (deployment_phase happy_world (request ''Gamma'' ''1000000'' [''ArbitrumSepolia''])) = Inr None
   \<and> length (deployedContractsData (snd (deployment_phase happy_world
         (request ''Gamma'' ''1000000'' [''ArbitrumSepolia''])))) = 1"
proof -
  have "\<exists>st. deployment_phase happy_world (request ''Gamma'' ''1000000'' [''ArbitrumSepolia''])
          = (Inr None, st) \<and> length (deployedContractsData st) = 1"
    by (simp add: deployment_phase_def handler_defs monad_defs happy_world_def request_def
          example_evals Let_def)
  then show ?thesis by auto
qed

theorem single_deployment_skips_peering_witness:
  "fst (deployment_phase happy_world (request ''Gamma'' ''1000000'' [''ArbitrumSepolia''])) = Inr None
   \<and> length (deployedContractsData (snd (deployment_phase happy_world
         (request ''Gamma'' ''1000000'' [''ArbitrumSepolia''])))) = 1
   \<and> (\<exists>r. fst (deployAndConfigure happy_world (request ''Gamma'' ''1000000'' [''ArbitrumSepolia'']))
              = Returned (DeployReport r)
          \<and> report_peeringResults r
              = [''Skipping peering phase: Less than 2 contracts successfully deployed.'']
          \<and> list_all (\<lambda>c. \<not> is_SetPeer c \<and> \<not> is_SetEnforcedOptions c)
               (calls (snd (deployAndConfigure happy_world
                  (request ''Gamma'' ''1000000'' [''ArbitrumSepolia''])))))"
  using happy_single_deployment
    single_deployment_skips_peering [OF conjunct1 [OF happy_single_deployment]
      conjunct2 [OF happy_single_deployment]]
  by blast


section \<open>Peering and enforced options on several chains\<close>






end
